theory Spec2Isabelle
  imports Complex_Main
begin

section \<open>JavaScript values\<close>

text \<open>
  The bridge and the agent pass JSON-like values around: tool arguments, tool results,
  the parsed output of the planning service. \<open>JNum\<close> holds the value of a (finite)
  number; the counts that occur stay far below \<open>2^53\<close>, where JavaScript's numbers are
  exact. An array can carry named properties next to its elements, since
  \<open>parsed.args.ref = ...\<close> on an array attaches one.
\<close>

datatype jsval =
    JUndef
  | JNull
  | JBool bool
  | JNum rat
  | JStr string
  | JArr "jsval list" "(string \<times> jsval) list"
  | JObj "(string \<times> jsval) list"

text \<open>A thrown value is an \<open>Error\<close> object: its name and its message.\<close>

datatype jserror = JsError (err_name: string) (err_message: string)

text \<open>JavaScript truthiness, as \<open>if (v)\<close>, \<open>!v\<close>, \<open>a || b\<close> and \<open>a && b\<close> test it.\<close>

fun truthy :: "jsval \<Rightarrow> bool" where
  "truthy JUndef = False"
| "truthy JNull = False"
| "truthy (JBool b) = b"
| "truthy (JNum n) = (n \<noteq> 0)"
| "truthy (JStr s) = (s \<noteq> [])"
| "truthy (JArr xs ps) = True"
| "truthy (JObj ps) = True"

text \<open>\<open>a || b\<close>\<close>

definition js_or :: "jsval \<Rightarrow> jsval \<Rightarrow> jsval" where
  "js_or a b = (if truthy a then a else b)"

text \<open>
  \<open>v.k\<close> for the property names the code reads (\<open>ref\<close>, \<open>action\<close>, \<open>url\<close>, ...):
  none of them is an index or \<open>length\<close>, so a primitive and an array's elements have
  none of them. The code reads a property of a value only after it has tested the value
  truthy or has built it as an object, so \<open>undefined.k\<close> and \<open>null.k\<close> do not arise.
\<close>

fun get_prop :: "jsval \<Rightarrow> string \<Rightarrow> jsval" where
  "get_prop (JObj ps) k = (case map_of ps k of Some v \<Rightarrow> v | None \<Rightarrow> JUndef)"
| "get_prop (JArr xs ps) k = (case map_of ps k of Some v \<Rightarrow> v | None \<Rightarrow> JUndef)"
| "get_prop v k = JUndef"

text \<open>\<open>o[k] = v\<close> on a property list: an existing key keeps its place, a new one goes last.\<close>

fun set_key :: "(string \<times> jsval) list \<Rightarrow> string \<Rightarrow> jsval \<Rightarrow> (string \<times> jsval) list" where
  "set_key [] k v = [(k, v)]"
| "set_key (p # ps) k v = (if fst p = k then (k, v) # ps else p # set_key ps k v)"

text \<open>\<open>typeof v === 'string'\<close>\<close>

fun is_string :: "jsval \<Rightarrow> bool" where
  "is_string (JStr s) = True"
| "is_string v = False"

section \<open>Strings\<close>

text \<open>\<open>hay.includes(needle)\<close>\<close>

fun starts_with :: "string \<Rightarrow> string \<Rightarrow> bool" where
  "starts_with hay [] = True"
| "starts_with [] (c # cs) = False"
| "starts_with (h # hs) (c # cs) = (h = c \<and> starts_with hs cs)"

fun includes_str :: "string \<Rightarrow> string \<Rightarrow> bool" where
  "includes_str [] needle = (needle = [])"
| "includes_str (h # hs) needle = (starts_with (h # hs) needle \<or> includes_str hs needle)"

text \<open>A non-negative integer in a template literal: its decimal digits.\<close>

definition digit_char :: "nat \<Rightarrow> char" where
  "digit_char d = ''0123456789'' ! d"

fun string_of_nat :: "nat \<Rightarrow> string" where
  "string_of_nat n =
     (if n < 10 then [digit_char n]
      else string_of_nat (n div 10) @ [digit_char (n mod 10)])"

declare string_of_nat.simps [simp del]

text \<open>
  Whether a value has a string form, that is whether a template literal
  \<open>`${v}`\<close>, \<open>String(v)\<close>, a string method given \<open>v\<close> as its argument and
  \<open>Array.prototype.join\<close> on an element \<open>v\<close> can convert it. The conversion throws a
  \<open>TypeError\<close> for an object that has a property \<open>toString\<close> of its own: in a value
  that came out of \<open>JSON.parse\<close> such a property is never a function, and
  \<open>Object.prototype.valueOf\<close> gives back the object itself. An array is converted by
  joining its elements, so it throws when one of them does (the one named property an
  array gets in this program, \<open>ref\<close>, plays no part in it). Every other value
  converts.
\<close>

fun converts :: "jsval \<Rightarrow> bool" where
  "converts (JObj ps) = (map_of ps ''toString'' = None)"
| "converts (JArr xs ps) = list_all converts xs"
| "converts v = True"

text \<open>The error of a conversion that throws.\<close>

definition convert_error :: jserror where
  "convert_error = JsError ''TypeError'' ''Cannot convert object to primitive value''"
section \<open>Backend detector: \<open>findChromeCDPEndpoint\<close> (mcp-bridge-server.js)\<close>

text \<open>
  One probe is \<open>fetch(url, { signal: AbortSignal.timeout(500) })\<close>: a GET (fetch's
  default method) of the URL, aborted after the given number of milliseconds.
\<close>

datatype http_method = GET | POST

record probe_request =
  req_method :: http_method
  req_url :: string
  req_timeout_ms :: nat

text \<open>
  What the network answers to one probe: the fetch rejects (connection refused, or the
  500 ms signal aborts it), or a response arrives with a status code and a body that
  \<open>response.json()\<close> can or cannot parse.
\<close>

datatype probe_reply =
    NoReply
  | Reply (status_code: nat) (body_is_json: bool)

definition possiblePorts :: "nat list" where
  "possiblePorts = [9222, 9223, 9224, 9225]"

definition probe_of :: "nat \<Rightarrow> probe_request" where
  "probe_of port =
     \<lparr> req_method = GET,
       req_url = ''http://localhost:'' @ string_of_nat port @ ''/json/version'',
       req_timeout_ms = 500 \<rparr>"

definition endpoint_of :: "nat \<Rightarrow> string" where
  "endpoint_of port = ''http://localhost:'' @ string_of_nat port"

text \<open>\<open>response.ok\<close>: the status is in the range 200-299.\<close>

definition response_ok :: "nat \<Rightarrow> bool" where
  "response_ok st = (200 \<le> st \<and> st \<le> 299)"

text \<open>
  The \<open>for (const port of possiblePorts)\<close> loop. The result is the endpoint or
  \<open>None\<close> (the code's \<open>null\<close>), with the probes issued, in order. A probe whose
  fetch rejects, whose response is not ok, or whose body \<open>response.json()\<close> rejects
  (the \<open>catch\<close> takes that too) moves on to the next port.
\<close>

fun probe_ports :: "(probe_request \<Rightarrow> probe_reply) \<Rightarrow> nat list \<Rightarrow> string option \<times> probe_request list" where
  "probe_ports net [] = (None, [])"
| "probe_ports net (port # rest) =
     (case net (probe_of port) of
        NoReply \<Rightarrow> (fst (probe_ports net rest), probe_of port # snd (probe_ports net rest))
      | Reply st js \<Rightarrow>
          if response_ok st then
            (if js then (Some (endpoint_of port), [probe_of port])
             else (fst (probe_ports net rest), probe_of port # snd (probe_ports net rest)))
          else (fst (probe_ports net rest), probe_of port # snd (probe_ports net rest)))"

definition findChromeCDPEndpoint :: "(probe_request \<Rightarrow> probe_reply) \<Rightarrow> string option \<times> probe_request list" where
  "findChromeCDPEndpoint net = probe_ports net possiblePorts"

text \<open>A port confirms a browser when its probe gets a 2xx response with a JSON body.\<close>

definition answers :: "(probe_request \<Rightarrow> probe_reply) \<Rightarrow> nat \<Rightarrow> bool" where
  "answers net port =
     (case net (probe_of port) of
        NoReply \<Rightarrow> False
      | Reply st js \<Rightarrow> response_ok st \<and> js)"

text \<open>A network where port 9222 answers 200 with a body that is not JSON, and nothing else listens.\<close>

definition net_plain_200 :: "probe_request \<Rightarrow> probe_reply" where
  "net_plain_200 rq = (if req_url rq = ''http://localhost:9222/json/version'' then Reply 200 False else NoReply)"

section \<open>Live-browser handle: \<open>PlaywrightCDPHandler\<close> (playwright-cdp-handler.js)\<close>

text \<open>
  The handler talks to a browser it does not own, through Playwright. \<open>'b\<close> is the
  state of everything on the far side of that connection, the browser process included.
  Each Playwright call the handler makes is a field of \<open>'b playwright\<close>: given the
  outside's state it throws (\<open>Inl\<close>) or returns (\<open>Inr\<close>), and leaves the outside
  in a new state. Browsers, contexts and pages are opaque handles.
\<close>

text \<open>How \<open>evaluate\<close> made the callable it hands to \<open>page.evaluate\<close> from script text.\<close>

datatype pagefn =
    EvalParen string
  | FunctionOf string
  | ReturnOf string

text \<open>\<open>eval(`(${script})`)\<close> throws, or gives a function, or gives something else.\<close>

datatype eval_outcome = EvalThrows jserror | EvalFunction | EvalOther

record 'b playwright =
  connectOverCDP :: "string \<Rightarrow> 'b \<Rightarrow> (jserror + nat) \<times> 'b"
  browser_contexts :: "nat \<Rightarrow> 'b \<Rightarrow> nat list"
  browser_newContext :: "nat \<Rightarrow> 'b \<Rightarrow> (jserror + nat) \<times> 'b"
  browser_close :: "nat \<Rightarrow> 'b \<Rightarrow> (jserror + unit) \<times> 'b"
  context_pages :: "nat \<Rightarrow> 'b \<Rightarrow> nat list"
  context_newPage :: "nat \<Rightarrow> 'b \<Rightarrow> (jserror + nat) \<times> 'b"
  page_goto :: "nat \<Rightarrow> jsval \<Rightarrow> 'b \<Rightarrow> (jserror + unit) \<times> 'b"
  page_url :: "nat \<Rightarrow> 'b \<Rightarrow> string"
  page_title :: "nat \<Rightarrow> 'b \<Rightarrow> (jserror + string) \<times> 'b"
  page_screenshot :: "nat \<Rightarrow> jsval \<Rightarrow> 'b \<Rightarrow> (jserror + string) \<times> 'b"
  page_click :: "nat \<Rightarrow> jsval \<Rightarrow> jsval \<Rightarrow> 'b \<Rightarrow> (jserror + unit) \<times> 'b"
  page_fill :: "nat \<Rightarrow> jsval \<Rightarrow> jsval \<Rightarrow> jsval \<Rightarrow> 'b \<Rightarrow> (jserror + unit) \<times> 'b"
  page_type :: "nat \<Rightarrow> jsval \<Rightarrow> jsval \<Rightarrow> jsval \<Rightarrow> 'b \<Rightarrow> (jserror + unit) \<times> 'b"
  page_evaluate :: "nat \<Rightarrow> pagefn \<Rightarrow> 'b \<Rightarrow> (jserror + jsval) \<times> 'b"
  page_waitForSelector :: "nat \<Rightarrow> jsval \<Rightarrow> jsval \<Rightarrow> 'b \<Rightarrow> (jserror + unit) \<times> 'b"
  page_snapshot :: "nat \<Rightarrow> 'b \<Rightarrow> (jserror + jsval) \<times> 'b"
  page_close :: "nat \<Rightarrow> 'b \<Rightarrow> (jserror + unit) \<times> 'b"
  eval_paren :: "string \<Rightarrow> eval_outcome"
  function_ctor :: "string \<Rightarrow> jserror option"
  return_call :: "string \<Rightarrow> jserror option"

text \<open>
  \<open>page_screenshot\<close> gives the buffer as \<open>buffer.toString('base64')\<close> renders it.
  \<open>function_ctor s\<close> is the error \<open>new Function(s)\<close> throws, if it throws;
  \<open>return_call s\<close> is the error \<open>new Function('return ' + s)()\<close> throws, if it throws.
  \<open>browser_close\<close> is Playwright's \<open>browser.close()\<close>, the call that would end the
  browser process; no definition below uses it.
\<close>

text \<open>
  The handler's fields. \<open>pages\<close> is the \<open>Map\<close> from page id to page, in insertion
  order; \<open>browserContext\<close> is the field \<open>this.context\<close>.
\<close>

record cdp_handler =
  cdpEndpoint :: string
  browser :: "nat option"
  browserContext :: "nat option"
  pages :: "(jsval \<times> nat) list"
  isConnected :: bool

text \<open>\<open>new PlaywrightCDPHandler(cdpEndpoint)\<close>\<close>

definition new_handler :: "string \<Rightarrow> cdp_handler" where
  "new_handler ep =
     \<lparr> cdpEndpoint = ep, browser = None, browserContext = None, pages = [], isConnected = False \<rparr>"

text \<open>
  \<open>Map\<close> keys compare by value for primitives and by identity for objects; an object or
  array that arrives in a request is a fresh one, so it is never found.
\<close>

fun is_primitive :: "jsval \<Rightarrow> bool" where
  "is_primitive (JArr xs ps) = False"
| "is_primitive (JObj ps) = False"
| "is_primitive v = True"

definition pages_get :: "(jsval \<times> nat) list \<Rightarrow> jsval \<Rightarrow> nat option" where
  "pages_get ps k = (if is_primitive k then map_of ps k else None)"

fun pages_set :: "(jsval \<times> nat) list \<Rightarrow> jsval \<Rightarrow> nat \<Rightarrow> (jsval \<times> nat) list" where
  "pages_set [] k v = [(k, v)]"
| "pages_set (p # ps) k v =
     (if is_primitive k \<and> fst p = k then (k, v) # ps else p # pages_set ps k v)"

fun pages_delete :: "(jsval \<times> nat) list \<Rightarrow> jsval \<Rightarrow> (jsval \<times> nat) list" where
  "pages_delete [] k = []"
| "pages_delete (p # ps) k =
     (if is_primitive k \<and> fst p = k then ps else p # pages_delete ps k)"

text \<open>The default parameter \<open>pageId = 'page-0'\<close>: it replaces \<open>undefined\<close> only.\<close>

definition page_key :: "jsval \<Rightarrow> jsval" where
  "page_key pageId = (if pageId = JUndef then JStr ''page-0'' else pageId)"

text \<open>\<open>existingPages.forEach((page, index) => this.pages.set(`page-${index}`, page))\<close>\<close>

fun index_pages :: "(jsval \<times> nat) list \<Rightarrow> nat \<Rightarrow> nat list \<Rightarrow> (jsval \<times> nat) list" where
  "index_pages ps i [] = ps"
| "index_pages ps i (page # rest) =
     index_pages (pages_set ps (JStr (''page-'' @ string_of_nat i)) page) (Suc i) rest"

text \<open>\<open>connect()\<close>: any failure sets \<open>isConnected = false\<close> and is thrown again.\<close>

definition connect :: "'b playwright \<Rightarrow> cdp_handler \<Rightarrow> 'b \<Rightarrow> (jserror + bool) \<times> cdp_handler \<times> 'b" where
  "connect pw h b =
     (case connectOverCDP pw (cdpEndpoint h) b of
        (Inl e, b1) \<Rightarrow> (Inl e, h\<lparr>isConnected := False\<rparr>, b1)
      | (Inr br, b1) \<Rightarrow>
          let h1 = h\<lparr>browser := Some br\<rparr> in
          (case (case browser_contexts pw br b1 of
                   c # cs \<Rightarrow> (Inr c, b1)
                 | [] \<Rightarrow> browser_newContext pw br b1) of
             (Inl e, b2) \<Rightarrow> (Inl e, h1\<lparr>isConnected := False\<rparr>, b2)
           | (Inr ctx, b2) \<Rightarrow>
               let h2 = h1\<lparr>browserContext := Some ctx\<rparr> in
               (case context_pages pw ctx b2 of
                  p # ps \<Rightarrow>
                    (Inr True,
                     h2\<lparr>pages := index_pages (pages h2) 0 (p # ps), isConnected := True\<rparr>, b2)
                | [] \<Rightarrow>
                    (case context_newPage pw ctx b2 of
                       (Inl e, b3) \<Rightarrow> (Inl e, h2\<lparr>isConnected := False\<rparr>, b3)
                     | (Inr page, b3) \<Rightarrow>
                         (Inr True,
                          h2\<lparr>pages := pages_set (pages h2) (JStr ''page-0'') page,
                             isConnected := True\<rparr>, b3)))))"

text \<open>\<open>getPage(pageId)\<close>: the page under the key, made on first use.\<close>

definition getPage :: "'b playwright \<Rightarrow> jsval \<Rightarrow> cdp_handler \<Rightarrow> 'b \<Rightarrow> (jserror + nat) \<times> cdp_handler \<times> 'b" where
  "getPage pw pageId h b =
     (case (isConnected h, browserContext h) of
        (True, Some ctx) \<Rightarrow>
          (case pages_get (pages h) (page_key pageId) of
             Some page \<Rightarrow> (Inr page, h, b)
           | None \<Rightarrow>
               (case context_newPage pw ctx b of
                  (Inl e, b1) \<Rightarrow> (Inl e, h, b1)
                | (Inr page, b1) \<Rightarrow>
                    (Inr page, h\<lparr>pages := pages_set (pages h) (page_key pageId) page\<rparr>, b1)))
      | _ \<Rightarrow> (Inl (JsError ''Error'' ''Not connected to Chrome. Call connect() first.''), h, b))"

definition success_true :: jsval where
  "success_true = JObj [(''success'', JBool True)]"

text \<open>\<open>navigate(url, pageId)\<close>\<close>

definition navigate :: "'b playwright \<Rightarrow> jsval \<Rightarrow> jsval \<Rightarrow> cdp_handler \<Rightarrow> 'b \<Rightarrow> (jserror + jsval) \<times> cdp_handler \<times> 'b" where
  "navigate pw url pageId h b =
     (case getPage pw pageId h b of
        (Inl e, h1, b1) \<Rightarrow> (Inl e, h1, b1)
      | (Inr page, h1, b1) \<Rightarrow>
          (case page_goto pw page url b1 of
             (Inl e, b2) \<Rightarrow> (Inl e, h1, b2)
           | (Inr u, b2) \<Rightarrow>
               (case page_title pw page b2 of
                  (Inl e, b3) \<Rightarrow> (Inl e, h1, b3)
                | (Inr title, b3) \<Rightarrow>
                    (Inr (JObj [(''url'', JStr (page_url pw page b2)), (''title'', JStr title)]),
                     h1, b3))))"

text \<open>\<open>screenshot(options, pageId)\<close>\<close>

definition screenshot :: "'b playwright \<Rightarrow> jsval \<Rightarrow> jsval \<Rightarrow> cdp_handler \<Rightarrow> 'b \<Rightarrow> (jserror + string) \<times> cdp_handler \<times> 'b" where
  "screenshot pw options pageId h b =
     (case getPage pw pageId h b of
        (Inl e, h1, b1) \<Rightarrow> (Inl e, h1, b1)
      | (Inr page, h1, b1) \<Rightarrow>
          (case page_screenshot pw page options b1 of
             (Inl e, b2) \<Rightarrow> (Inl e, h1, b2)
           | (Inr base64, b2) \<Rightarrow> (Inr base64, h1, b2)))"

text \<open>\<open>click(selector, options, pageId)\<close>\<close>

definition click :: "'b playwright \<Rightarrow> jsval \<Rightarrow> jsval \<Rightarrow> jsval \<Rightarrow> cdp_handler \<Rightarrow> 'b \<Rightarrow> (jserror + jsval) \<times> cdp_handler \<times> 'b" where
  "click pw selector options pageId h b =
     (case getPage pw pageId h b of
        (Inl e, h1, b1) \<Rightarrow> (Inl e, h1, b1)
      | (Inr page, h1, b1) \<Rightarrow>
          (case page_click pw page selector options b1 of
             (Inl e, b2) \<Rightarrow> (Inl e, h1, b2)
           | (Inr u, b2) \<Rightarrow> (Inr success_true, h1, b2)))"

text \<open>\<open>fill(selector, text, options, pageId)\<close>\<close>

definition fill :: "'b playwright \<Rightarrow> jsval \<Rightarrow> jsval \<Rightarrow> jsval \<Rightarrow> jsval \<Rightarrow> cdp_handler \<Rightarrow> 'b \<Rightarrow> (jserror + jsval) \<times> cdp_handler \<times> 'b" where
  "fill pw selector txt options pageId h b =
     (case getPage pw pageId h b of
        (Inl e, h1, b1) \<Rightarrow> (Inl e, h1, b1)
      | (Inr page, h1, b1) \<Rightarrow>
          (case page_fill pw page selector txt options b1 of
             (Inl e, b2) \<Rightarrow> (Inl e, h1, b2)
           | (Inr u, b2) \<Rightarrow> (Inr success_true, h1, b2)))"

text \<open>\<open>type(selector, text, options, pageId)\<close>\<close>

definition type_text :: "'b playwright \<Rightarrow> jsval \<Rightarrow> jsval \<Rightarrow> jsval \<Rightarrow> jsval \<Rightarrow> cdp_handler \<Rightarrow> 'b \<Rightarrow> (jserror + jsval) \<times> cdp_handler \<times> 'b" where
  "type_text pw selector txt options pageId h b =
     (case getPage pw pageId h b of
        (Inl e, h1, b1) \<Rightarrow> (Inl e, h1, b1)
      | (Inr page, h1, b1) \<Rightarrow>
          (case page_type pw page selector txt options b1 of
             (Inl e, b2) \<Rightarrow> (Inl e, h1, b2)
           | (Inr u, b2) \<Rightarrow> (Inr success_true, h1, b2)))"

text \<open>
  \<open>evaluate(script, pageId)\<close>. Script text is turned into a callable three ways. The
  first \<open>try\<close> holds the \<open>page.evaluate\<close> call too, so a failure in the page also
  falls to the \<open>catch\<close> and the script is evaluated again. A value from JSON is never a
  function, so the \<open>typeof script === 'function'\<close> branch takes no input of this model.
\<close>

definition evaluate_string :: "'b playwright \<Rightarrow> nat \<Rightarrow> string \<Rightarrow> 'b \<Rightarrow> (jserror + jsval) \<times> 'b" where
  "evaluate_string pw page s b =
     (case (case eval_paren pw s of
              EvalThrows e \<Rightarrow> (Inl e, b)
            | EvalFunction \<Rightarrow> page_evaluate pw page (EvalParen s) b
            | EvalOther \<Rightarrow>
                (case function_ctor pw s of
                   Some e \<Rightarrow> (Inl e, b)
                 | None \<Rightarrow> page_evaluate pw page (FunctionOf s) b)) of
        (Inr r, b1) \<Rightarrow> (Inr r, b1)
      | (Inl e, b1) \<Rightarrow>
          (case (case return_call pw s of
                   Some e2 \<Rightarrow> (Inl e2, b1)
                 | None \<Rightarrow> page_evaluate pw page (ReturnOf s) b1) of
             (Inr r, b2) \<Rightarrow> (Inr r, b2)
           | (Inl e2, b2) \<Rightarrow>
               (case function_ctor pw s of
                  Some e3 \<Rightarrow> (Inl e3, b2)
                | None \<Rightarrow> page_evaluate pw page (FunctionOf s) b2)))"

definition evaluate :: "'b playwright \<Rightarrow> jsval \<Rightarrow> jsval \<Rightarrow> cdp_handler \<Rightarrow> 'b \<Rightarrow> (jserror + jsval) \<times> cdp_handler \<times> 'b" where
  "evaluate pw script pageId h b =
     (case getPage pw pageId h b of
        (Inl e, h1, b1) \<Rightarrow> (Inl e, h1, b1)
      | (Inr page, h1, b1) \<Rightarrow>
          (case script of
             JStr s \<Rightarrow> (case evaluate_string pw page s b1 of (r, b2) \<Rightarrow> (r, h1, b2))
           | _ \<Rightarrow>
               (Inl (JsError ''Error'' ''Invalid script type: expected string or function''),
                h1, b1)))"

text \<open>\<open>waitForSelector(selector, options, pageId)\<close>\<close>

definition waitForSelector :: "'b playwright \<Rightarrow> jsval \<Rightarrow> jsval \<Rightarrow> jsval \<Rightarrow> cdp_handler \<Rightarrow> 'b \<Rightarrow> (jserror + jsval) \<times> cdp_handler \<times> 'b" where
  "waitForSelector pw selector options pageId h b =
     (case getPage pw pageId h b of
        (Inl e, h1, b1) \<Rightarrow> (Inl e, h1, b1)
      | (Inr page, h1, b1) \<Rightarrow>
          (case page_waitForSelector pw page selector options b1 of
             (Inl e, b2) \<Rightarrow> (Inl e, h1, b2)
           | (Inr u, b2) \<Rightarrow> (Inr success_true, h1, b2)))"

text \<open>\<open>getAccessibilitySnapshot(pageId)\<close>\<close>

definition getAccessibilitySnapshot :: "'b playwright \<Rightarrow> jsval \<Rightarrow> cdp_handler \<Rightarrow> 'b \<Rightarrow> (jserror + jsval) \<times> cdp_handler \<times> 'b" where
  "getAccessibilitySnapshot pw pageId h b =
     (case getPage pw pageId h b of
        (Inl e, h1, b1) \<Rightarrow> (Inl e, h1, b1)
      | (Inr page, h1, b1) \<Rightarrow>
          (case page_snapshot pw page b1 of
             (Inl e, b2) \<Rightarrow> (Inl e, h1, b2)
           | (Inr snapshot, b2) \<Rightarrow> (Inr snapshot, h1, b2)))"

text \<open>\<open>closePage(pageId)\<close>: the one method that closes anything, and it closes a page.\<close>

definition closePage :: "'b playwright \<Rightarrow> jsval \<Rightarrow> cdp_handler \<Rightarrow> 'b \<Rightarrow> (jserror + jsval) \<times> cdp_handler \<times> 'b" where
  "closePage pw pageId h b =
     (case pages_get (pages h) pageId of
        Some page \<Rightarrow>
          (case page_close pw page b of
             (Inl e, b1) \<Rightarrow> (Inl e, h, b1)
           | (Inr u, b1) \<Rightarrow> (Inr success_true, h\<lparr>pages := pages_delete (pages h) pageId\<rparr>, b1))
      | None \<Rightarrow>
          (Inr (JObj [(''success'', JBool False), (''error'', JStr ''Page not found'')]), h, b))"

text \<open>
  \<open>disconnect()\<close>: four assignments and a log line. It makes no Playwright call, so it
  takes no \<open>'b playwright\<close> and hands the outside's state back as it got it.
\<close>

definition disconnect :: "cdp_handler \<Rightarrow> 'b \<Rightarrow> cdp_handler \<times> 'b" where
  "disconnect h b =
     (h\<lparr>pages := [], browserContext := None, browser := None, isConnected := False\<rparr>, b)"

text \<open>\<open>isConnectedToBrowser()\<close>\<close>

definition isConnectedToBrowser :: "cdp_handler \<Rightarrow> bool" where
  "isConnectedToBrowser h = (isConnected h \<and> browser h \<noteq> None)"

section \<open>The agent: \<open>GeminiAgent\<close> (gemini-agent.js)\<close>

text \<open>A tool of the catalog: its name and the keys of \<open>inputSchema.properties\<close>.\<close>

record tool_descriptor =
  tool_name :: string
  tool_description :: string
  schema_props :: "string list"

record chat_message =
  role :: string
  content :: jsval

text \<open>The agent's fields (\<open>mcpClient\<close> is in the environment below).\<close>

record agent =
  apiKey :: string
  model :: string
  baseUrl :: string
  conversationHistory :: "chat_message list"
  availableTools :: "tool_descriptor list option"

text \<open>\<open>{ name, arguments }\<close>, the request handed to \<open>mcpClient.callTool\<close>.\<close>

record tool_request =
  req_name :: jsval
  req_arguments :: jsval

text \<open>
  The logger (logger.js). A call at a level that is logged builds its entry, in plain
  text mode with \<open>parts.join(' ')\<close>; the join converts every part that is not a string
  and throws when one of them has no string form. In JSON mode the parts go through
  \<open>JSON.stringify\<close>, which does not throw on these values. Writing the entry out cannot
  throw. \<open>currentLevel\<close> and \<open>ENABLE_JSON\<close> are the module's two settings, taken from
  the process environment (\<open>info\<close> and plain text when it says nothing).
\<close>

datatype log_level = Level_error | Level_warn | Level_info | Level_debug

fun LEVELS :: "log_level \<Rightarrow> nat" where
  "LEVELS Level_error = 0"
| "LEVELS Level_warn = 1"
| "LEVELS Level_info = 2"
| "LEVELS Level_debug = 3"

text \<open>
  What the agent runs on. \<open>'w\<close> is the state of everything outside the agent: the
  planning service, the tool backends, the session store its caller keeps.
  \<^item> \<open>JSON_parse\<close> is \<open>JSON.parse\<close> on a text that starts with \<open>{\<close> (the only
    texts the agent parses): \<open>None\<close> when it throws, else the object's properties;
  \<^item> \<open>JSON_stringify\<close> is \<open>JSON.stringify\<close>; \<open>String_of\<close> is the string form of
    a value that has one (see \<open>converts\<close>), as a template literal inserts it;
  \<^item> \<open>callGeminiAPI\<close> is the method of that name, one HTTP request to the planning
    service: it throws or returns the trimmed text of the reply;
  \<^item> \<open>callTool\<close> and \<open>listTools\<close> are the injected \<open>mcpClient\<close>;
  \<^item> \<open>fn_body\<close> is the text of the page function \<open>executeTool\<close> builds from a tool
    name and its arguments, \<open>page_script\<close> the text of the script
    \<open>computeRefIfMissing\<close> builds from the user's hint.
\<close>

record 'w agent_env =
  JSON_parse :: "string \<Rightarrow> (string \<times> jsval) list option"
  JSON_stringify :: "jsval \<Rightarrow> string"
  String_of :: "jsval \<Rightarrow> string"
  callGeminiAPI :: "agent \<Rightarrow> string \<Rightarrow> chat_message list \<Rightarrow> 'w \<Rightarrow> (jserror + string) \<times> 'w"
  callTool :: "tool_request \<Rightarrow> 'w \<Rightarrow> (jserror + jsval) \<times> 'w"
  listTools :: "'w \<Rightarrow> (jserror + tool_descriptor list) \<times> 'w"
  fn_body :: "string \<Rightarrow> jsval \<Rightarrow> string"
  page_script :: "string \<Rightarrow> string"
  currentLevel :: log_level
  ENABLE_JSON :: bool

text \<open>\<open>shouldLog(level)\<close>\<close>

definition shouldLog :: "'w agent_env \<Rightarrow> log_level \<Rightarrow> bool" where
  "shouldLog E level = (LEVELS level \<le> LEVELS (currentLevel E))"

text \<open>
  Whether \<open>logger.error\<close>, \<open>.warn\<close>, \<open>.info\<close> or \<open>.debug\<close> throws when called with
  these parts: the \<open>TypeError\<close> of the join in \<open>makeEntry\<close>.
\<close>

definition logger_throws :: "'w agent_env \<Rightarrow> log_level \<Rightarrow> jsval list \<Rightarrow> bool" where
  "logger_throws E level parts =
     (shouldLog E level \<and> \<not> ENABLE_JSON E \<and> \<not> list_all converts parts)"

text \<open>\<open>new GeminiAgent(apiKey, mcpClient)\<close>\<close>

definition new_agent :: "string \<Rightarrow> agent" where
  "new_agent key =
     \<lparr> apiKey = key, model = ''gemini-2.5-flash'',
       baseUrl = ''https://generativelanguage.googleapis.com/v1beta'',
       conversationHistory = [], availableTools = None \<rparr>"

text \<open>\<open>setModel(modelName)\<close>: any value but the one allowed name is ignored.\<close>

definition setModel :: "jsval \<Rightarrow> agent \<Rightarrow> agent" where
  "setModel modelName a =
     (case modelName of
        JStr n \<Rightarrow> if n \<noteq> ''gemini-2.5-flash'' then a else a\<lparr>model := n\<rparr>
      | _ \<Rightarrow> a)"

definition updateApiKey :: "string \<Rightarrow> agent \<Rightarrow> agent" where
  "updateApiKey key a = a\<lparr>apiKey := key\<rparr>"

definition clearHistory :: "agent \<Rightarrow> agent" where
  "clearHistory a = a\<lparr>conversationHistory := []\<rparr>"

text \<open>\<open>initialize()\<close>: load the catalog; a failure is logged and answered \<open>false\<close>.\<close>

definition initialize :: "'w agent_env \<Rightarrow> agent \<Rightarrow> 'w \<Rightarrow> bool \<times> agent \<times> 'w" where
  "initialize E a w =
     (case listTools E w of
        (Inr tools, w1) \<Rightarrow> (True, a\<lparr>availableTools := Some tools\<rparr>, w1)
      | (Inl e, w1) \<Rightarrow> (False, a, w1))"

subsection \<open>\<open>parseGeminiResponse\<close>\<close>

text \<open>
  \<open>response.match(/\{[\s\S]*\}/)\<close>: from the first \<open>{\<close> to the last \<open>}\<close> after it.
\<close>

definition match_braces :: "string \<Rightarrow> string option" where
  "match_braces response =
     (let from_open = dropWhile (\<lambda>c. c \<noteq> CHR ''{'') response;
          to_close = rev (dropWhile (\<lambda>c. c \<noteq> CHR ''}'') (rev from_open))
      in if to_close = [] then None else Some to_close)"

definition respond_with :: "string \<Rightarrow> jsval" where
  "respond_with response = JObj [(''action'', JStr ''respond''), (''message'', JStr response)]"

definition parseGeminiResponse :: "'w agent_env \<Rightarrow> string \<Rightarrow> jsval" where
  "parseGeminiResponse E response =
     (case match_braces response of
        Some jsonMatch \<Rightarrow>
          (case JSON_parse E jsonMatch of
             Some props \<Rightarrow> JObj props
           | None \<Rightarrow> respond_with response)
      | None \<Rightarrow> respond_with response)"

subsection \<open>\<open>executeTool\<close>\<close>

definition matches_any :: "string list \<Rightarrow> string \<Rightarrow> bool" where
  "matches_any alternatives s = list_ex (\<lambda>alt. includes_str s alt) alternatives"

definition evaluateOnly :: "string list" where
  "evaluateOnly = [''browser_type'', ''browser_click'', ''browser_fill_form'', ''browser_press_key'']"

text \<open>
  \<open>tools.find(t => t.name === 'browser_evaluate') || tools.find(t => /evaluate|exec|.../.test(t.name))\<close>
\<close>

definition find_evalTool :: "tool_descriptor list \<Rightarrow> tool_descriptor option" where
  "find_evalTool tools =
     (case find (\<lambda>t. tool_name t = ''browser_evaluate'') tools of
        Some t \<Rightarrow> Some t
      | None \<Rightarrow>
          find (\<lambda>t. matches_any
                  [''evaluate'', ''exec'', ''run-js'', ''page_execute'', ''dom_eval'', ''js_eval'']
                  (tool_name t)) tools)"

definition tools_or_empty :: "agent \<Rightarrow> tool_descriptor list" where
  "tools_or_empty a = (case availableTools a of Some tools \<Rightarrow> tools | None \<Rightarrow> [])"

text \<open>The \<open>try\<close> of \<open>executeTool\<close>: which request goes to \<open>mcpClient.callTool\<close>.\<close>

definition tool_call_request :: "'w agent_env \<Rightarrow> agent \<Rightarrow> jsval \<Rightarrow> jsval \<Rightarrow> tool_request" where
  "tool_call_request E a toolName args =
     (case toolName of
        JStr n \<Rightarrow>
          (if n \<in> set evaluateOnly then
             (case find_evalTool (tools_or_empty a) of
                Some evalTool \<Rightarrow>
                  \<lparr> req_name = JStr (tool_name evalTool),
                    req_arguments = JObj [(''function'', JStr (fn_body E n args))] \<rparr>
              | None \<Rightarrow> \<lparr> req_name = toolName, req_arguments = args \<rparr>)
           else \<lparr> req_name = toolName, req_arguments = args \<rparr>)
      | _ \<Rightarrow> \<lparr> req_name = toolName, req_arguments = args \<rparr>)"

text \<open>
  \<open>executeTool(toolName, args)\<close>: \<open>{ success: true, result }\<close>, or, from the
  \<open>catch\<close>, \<open>{ success: false, error: error.message }\<close>. It has no other exit.
\<close>

definition executeTool :: "'w agent_env \<Rightarrow> agent \<Rightarrow> jsval \<Rightarrow> jsval \<Rightarrow> 'w \<Rightarrow> jsval \<times> 'w" where
  "executeTool E a toolName args w =
     (case callTool E (tool_call_request E a toolName args) w of
        (Inr r, w1) \<Rightarrow> (JObj [(''success'', JBool True), (''result'', r)], w1)
      | (Inl e, w1) \<Rightarrow>
          (JObj [(''success'', JBool False), (''error'', JStr (err_message e))], w1))"

subsection \<open>\<open>computeRefIfMissing\<close>\<close>

definition lower_char :: "char \<Rightarrow> char" where
  "lower_char c =
     (case map_of (zip ''ABCDEFGHIJKLMNOPQRSTUVWXYZ'' ''abcdefghijklmnopqrstuvwxyz'') c of
        Some l \<Rightarrow> l
      | None \<Rightarrow> c)"

definition toLowerCase :: "string \<Rightarrow> string" where
  "toLowerCase s = map lower_char s"

definition script_key :: "string \<Rightarrow> bool" where
  "script_key p = matches_any [''script'', ''expression'', ''source'', ''code'', ''js''] p"

text \<open>The tool that can run a script: by its name, or by a parameter that takes one.\<close>

definition evaluate_like :: "tool_descriptor \<Rightarrow> bool" where
  "evaluate_like t =
     (matches_any
        [''evaluate'', ''exec'', ''run-js'', ''page_execute'', ''browser_eval'',
         ''browser_evaluate'', ''dom_eval'', ''js_eval'']
        (toLowerCase (tool_name t))
      \<or> list_ex script_key (schema_props t))"

text \<open>
  \<open>serialized.match(/#?[a-zA-Z0-9_\-:\[\]\.=]+/)\<close>: the leftmost run of selector
  characters, with a \<open>#\<close> in front when one stands right before it.
\<close>

definition selector_char :: "char \<Rightarrow> bool" where
  "selector_char c =
     (c \<in> set ''abcdefghijklmnopqrstuvwxyzABCDEFGHIJKLMNOPQRSTUVWXYZ0123456789_-:[].='')"

fun match_selector :: "string \<Rightarrow> string option" where
  "match_selector [] = None"
| "match_selector (c # cs) =
     (if c = CHR ''#'' \<and> (case cs of [] \<Rightarrow> False | d # ds \<Rightarrow> selector_char d)
      then Some (c # takeWhile selector_char cs)
      else if selector_char c then Some (takeWhile selector_char (c # cs))
      else match_selector cs)"

text \<open>What \<open>computeRefIfMissing\<close> reads out of the evaluate tool's response.\<close>

definition extract_ref :: "'w agent_env \<Rightarrow> jsval \<Rightarrow> jsval" where
  "extract_ref E evalResponse =
     (if \<not> truthy evalResponse then JNull
      else if is_string evalResponse then evalResponse
      else if truthy (get_prop evalResponse ''result'') \<and> is_string (get_prop evalResponse ''result'')
        then get_prop evalResponse ''result''
      else if truthy (get_prop evalResponse ''output'') \<and> is_string (get_prop evalResponse ''output'')
        then get_prop evalResponse ''output''
      else if truthy (get_prop evalResponse ''value'') \<and> is_string (get_prop evalResponse ''value'')
        then get_prop evalResponse ''value''
      else (case match_selector (JSON_stringify E evalResponse) of
              Some m \<Rightarrow> JStr m
            | None \<Rightarrow> JNull))"

text \<open>
  \<open>computeRefIfMissing(toolName, args, userHint)\<close>. The first statement of its
  \<open>try\<close> is \<open>if (args && args.ref) return args.ref\<close>: with a ref in the arguments
  nothing else runs. Every exception ends in the \<open>catch\<close>, which returns \<open>null\<close>.
\<close>

definition computeRefIfMissing :: "'w agent_env \<Rightarrow> agent \<Rightarrow> jsval \<Rightarrow> jsval \<Rightarrow> string \<Rightarrow> 'w \<Rightarrow> jsval \<times> 'w" where
  "computeRefIfMissing E a toolName args userHint w =
     (if truthy args \<and> truthy (get_prop args ''ref'') then (get_prop args ''ref'', w)
      else
        (case availableTools a of
           None \<Rightarrow> (JNull, w)
         | Some tools \<Rightarrow>
             (case find evaluate_like tools of
                None \<Rightarrow> (JNull, w)
              | Some evalTool \<Rightarrow>
                  let scriptArgName =
                        (case find script_key (schema_props evalTool) of
                           Some p \<Rightarrow> p
                         | None \<Rightarrow> ''script'')
                  in (case callTool E
                            \<lparr> req_name = JStr (tool_name evalTool),
                              req_arguments = JObj [(scriptArgName, JStr (page_script E userHint))] \<rparr> w of
                        (Inl e, w1) \<Rightarrow> (JNull, w1)
                      | (Inr evalResponse, w1) \<Rightarrow> (extract_ref E evalResponse, w1)))))"

text \<open>
  The merge after it, \<open>parsed.args = parsed.args || {}; parsed.args.ref = parsed.args.ref || computedRef\<close>,
  run only \<open>if (computedRef)\<close>. Setting a property on a string, number or boolean
  throws in a module (strict mode); the surrounding \<open>catch\<close> logs it and the
  arguments stay as they were.
\<close>

definition merge_ref :: "jsval \<Rightarrow> jsval \<Rightarrow> jsval" where
  "merge_ref parsed_args computedRef =
     (if truthy computedRef then
        (case js_or parsed_args (JObj []) of
           JObj ps \<Rightarrow> JObj (set_key ps ''ref'' (js_or (get_prop (JObj ps) ''ref'') computedRef))
         | JArr xs ps \<Rightarrow>
             JArr xs (set_key ps ''ref'' (js_or (get_prop (JArr xs ps) ''ref'') computedRef))
         | v \<Rightarrow> v)
      else parsed_args)"

subsection \<open>\<open>runTaskSession\<close>\<close>

text \<open>One entry of the trace: \<open>{ iteration, tool, args, result }\<close>.\<close>

record step =
  step_iteration :: nat
  step_tool :: jsval
  step_args :: jsval
  step_result :: jsval

text \<open>What \<open>runTaskSession\<close> returns: \<open>{ success, message, trace }\<close>.\<close>

record session_result =
  success :: bool
  message :: jsval
  result_trace :: "step list"

text \<open>What the progress callback is given.\<close>

record update =
  upd_status :: string
  upd_iteration :: nat
  upd_action :: jsval
  upd_toolResult :: jsval
  upd_trace :: "step list"

text \<open>
  The options: \<open>maxIterations\<close> (absent, or a number: the code does not check what it
  is given, so the number need not be a count) and the callback \<open>onUpdate\<close>, which acts
  on the outside (the bridge passes one that writes to its session store).
\<close>

record 'w session_options =
  maxIterations :: "rat option"
  onUpdate :: "(update \<Rightarrow> 'w \<Rightarrow> 'w) option"

text \<open>
  The local variables of \<open>runTaskSession\<close>. The last three fields are not in the
  code: they record, for the statements below, each prompt sent to the planning service,
  each action parsed from its replies, and each \<open>executeTool\<close> call made (tool and
  arguments), in order.
\<close>

record loop_state =
  trace :: "step list"
  iteration :: nat
  lastToolResult :: jsval
  previousActionSignature :: "string option"
  repeatCount :: nat
  prompts_sent :: "string list"
  actions_seen :: "jsval list"
  tools_executed :: "(jsval \<times> jsval) list"

definition initial_state :: loop_state where
  "initial_state =
     \<lparr> trace = [], iteration = 0, lastToolResult = JNull, previousActionSignature = None,
       repeatCount = 0, prompts_sent = [], actions_seen = [], tools_executed = [] \<rparr>"

datatype outcome = Return session_result | Continue

definition starter_prompt :: "string \<Rightarrow> string" where
  \<open>starter_prompt taskDescription =
     ''You are executing a task on behalf of the user. The task: '' @ taskDescription
     @ ''.\<newline>\<newline>Respond with a JSON object describing the next action in the exact format:\<newline>''
     @ ''{ "action":"call_tool", "tool":"tool_name", "args":{...} }\<newline>''
     @ ''or when finished respond with:\<newline>''
     @ ''{ "action":"done", "message":"final human friendly message" }.\<newline>\<newline>''
     @ ''Only request one tool invocation at a time. After you receive the result of a tool call, ''
     @ ''you will be given that result and should continue by returning the next JSON action or ''
     @ ''{"action":"done"}.''\<close>

text \<open>\<open>lastToolResult ? `\n\nPrevious tool result: ${JSON.stringify(lastToolResult)}` : ''\<close>\<close>

definition contextSuffix :: "'w agent_env \<Rightarrow> jsval \<Rightarrow> string" where
  "contextSuffix E lastResult =
     (if truthy lastResult
      then ''\<newline>\<newline>Previous tool result: '' @ JSON_stringify E lastResult
      else [])"

text \<open>\<open>this.conversationHistory.slice(-5)\<close>\<close>

definition last_five :: "'a list \<Rightarrow> 'a list" where
  "last_five xs = drop (length xs - 5) xs"

text \<open>
  \<open>`${parsed.tool}|${JSON.stringify(parsed.args || {})}`\<close>: \<open>None\<close> when the
  template throws, which it does for a tool without a string form.
\<close>

definition action_signature :: "'w agent_env \<Rightarrow> jsval \<Rightarrow> string option" where
  "action_signature E parsed =
     (if converts (get_prop parsed ''tool'')
      then Some (String_of E (get_prop parsed ''tool'') @ ''|''
                 @ JSON_stringify E (js_or (get_prop parsed ''args'') (JObj [])))
      else None)"

text \<open>\<open>error && (error.message || String(error))\<close>, for an \<open>Error\<close> object.\<close>

definition error_text :: "jserror \<Rightarrow> string" where
  "error_text e = (if err_message e \<noteq> [] then err_message e else err_name e)"

definition stopped_message :: string where
  "stopped_message = ''Stopped: repeated action detected (no progress).''"

text \<open>
  One pass through the body of the \<open>while\<close> loop: it returns from the function, or
  reaches \<open>continue\<close>. Everything in it is inside one \<open>try\<close>, whose \<open>catch\<close>
  returns a failure with the message of what was thrown. \<open>computeRefIfMissing\<close> and
  \<open>executeTool\<close> catch their own exceptions and the callback runs in a \<open>try\<close> whose
  \<open>catch\<close> is empty, so what can throw there is
  \<^item> the planning call;
  \<^item> the log line before \<open>executeTool\<close>, whose template holds \<open>${parsed.tool}\<close>: it
    throws for a tool without a string form, after the resolution step and before any
    execution. The same conversion in the signature is inside a \<open>try\<close> of its own,
    whose \<open>catch\<close> ignores the error: the repeat guard of that pass is then skipped
    and its two variables stay as they were;
  \<^item> the logger, called with the final message or with the parsed action as a part.
\<close>

definition session_iteration ::
  "'w agent_env \<Rightarrow> agent \<Rightarrow> 'w session_options \<Rightarrow> string \<Rightarrow> loop_state \<Rightarrow> 'w \<Rightarrow> outcome \<times> loop_state \<times> 'w" where
  "session_iteration E a options taskDescription st w =
     (let full_prompt = starter_prompt taskDescription @ contextSuffix E (lastToolResult st);
          st0 = st\<lparr>prompts_sent := prompts_sent st @ [full_prompt]\<rparr>
      in case callGeminiAPI E a full_prompt (last_five (conversationHistory a)) w of
           (Inl error, w1) \<Rightarrow>
             (Return \<lparr> success = False, message = JStr (error_text error), result_trace = trace st \<rparr>,
              st0, w1)
         | (Inr geminiResponse, w1) \<Rightarrow>
             let parsed = parseGeminiResponse E geminiResponse;
                 st0 = st0\<lparr>actions_seen := actions_seen st @ [parsed]\<rparr>
             in
             if get_prop parsed ''action'' = JStr ''call_tool'' then
               let sig = action_signature E parsed;
                   st1 = (if sig = None then st0
                          else st0\<lparr>previousActionSignature := sig,
                                   repeatCount := (if previousActionSignature st = sig
                                                   then repeatCount st + 1 else 0)\<rparr>)
               in if sig \<noteq> None \<and> repeatCount st1 \<ge> 2 then
                    (Return \<lparr> success = True, message = JStr stopped_message, result_trace = trace st \<rparr>,
                     st1, w1)
                  else
                    (case computeRefIfMissing E a (get_prop parsed ''tool'')
                            (js_or (get_prop parsed ''args'') (JObj [])) taskDescription w1 of
                       (computedRef, w2) \<Rightarrow>
                         let merged = merge_ref (get_prop parsed ''args'') computedRef;
                             parsed1 = (if truthy computedRef
                                        then (case parsed of
                                                JObj ps \<Rightarrow> JObj (set_key ps ''args'' merged)
                                              | v \<Rightarrow> v)
                                        else parsed);
                             args = js_or merged (JObj [])
                         in if \<not> converts (get_prop parsed ''tool'') then
                              (Return \<lparr> success = False, message = JStr (error_text convert_error),
                                        result_trace = trace st \<rparr>,
                               st1, w2)
                            else
                            (case executeTool E a (get_prop parsed ''tool'') args w2 of
                               (toolResult, w3) \<Rightarrow>
                                 let trace1 = trace st @
                                       [\<lparr> step_iteration = iteration st + 1,
                                          step_tool = get_prop parsed ''tool'',
                                          step_args = args,
                                          step_result = toolResult \<rparr>];
                                     w4 = (case onUpdate options of
                                             Some callback \<Rightarrow>
                                               callback \<lparr> upd_status = ''running'',
                                                          upd_iteration = iteration st + 1,
                                                          upd_action = parsed1,
                                                          upd_toolResult = toolResult,
                                                          upd_trace = trace1 \<rparr> w3
                                           | None \<Rightarrow> w3)
                                 in (Continue,
                                     st1\<lparr>trace := trace1,
                                         lastToolResult :=
                                           (if truthy (get_prop toolResult ''result'')
                                            then get_prop toolResult ''result'' else toolResult),
                                         iteration := iteration st + 1,
                                         tools_executed := tools_executed st
                                           @ [(get_prop parsed ''tool'', args)]\<rparr>,
                                     w4)))
             else if get_prop parsed ''action'' = JStr ''done''
                     \<or> get_prop parsed ''action'' = JStr ''respond''
                     \<or> \<not> truthy (get_prop parsed ''action'') then
               let final_message = js_or (get_prop parsed ''message'')
                                     (js_or (JStr geminiResponse) (JStr ''Done''))
               in if logger_throws E Level_info
                       [JStr ''[Gemini Session] Finished with message'', final_message] then
                    (Return \<lparr> success = False, message = JStr (error_text convert_error),
                              result_trace = trace st \<rparr>,
                     st0, w1)
                  else
                    (Return \<lparr> success = True, message = final_message, result_trace = trace st \<rparr>,
                     st0, w1)
             else if logger_throws E Level_warn
                       [JStr ''[Gemini Session] Unknown action from Gemini'', parsed] then
               (Return \<lparr> success = False, message = JStr (error_text convert_error),
                         result_trace = trace st \<rparr>,
                st0, w1)
             else
               (Return \<lparr> success = False,
                         message = JStr (''Unknown action from Gemini: '' @ JSON_stringify E parsed),
                         result_trace = trace st \<rparr>,
                st0, w1))"

lemma session_iteration_Continue:
  "session_iteration E a options taskDescription st w = (Continue, st', w')
   \<Longrightarrow> iteration st' = Suc (iteration st)"
  by (auto simp: session_iteration_def Let_def split: prod.splits sum.splits if_splits)

text \<open>
  \<open>`${maxIterations}`\<close> for a number: the decimal digits of a non-negative integer; the
  text of any other number is left to \<open>String_of\<close>.
\<close>

definition number_text :: "'w agent_env \<Rightarrow> rat \<Rightarrow> string" where
  "number_text E r =
     (if r = of_nat (nat \<lfloor>r\<rfloor>) then string_of_nat (nat \<lfloor>r\<rfloor>) else String_of E (JNum r))"

text \<open>
  The \<open>while (iteration < maxIterations && !finished)\<close> loop and the statement after
  it. \<open>finished\<close> is only ever set on the line before a \<open>return\<close>, so the loop
  is left by a \<open>return\<close> or by the count. The comparison is between numbers:
  \<open>maxIterations\<close> need not be a whole number, or positive.
\<close>

lemma below_cap: "(of_nat i < (r::rat)) = (i < nat \<lceil>r\<rceil>)"
  using less_ceiling_iff[of "int i" r] by (simp add: zless_nat_eq_int_zless)

function run_loop ::
  "'w agent_env \<Rightarrow> agent \<Rightarrow> 'w session_options \<Rightarrow> string \<Rightarrow> rat \<Rightarrow> loop_state \<Rightarrow> 'w \<Rightarrow> session_result \<times> loop_state \<times> 'w" where
  "run_loop E a options taskDescription maxIter st w =
     (if of_nat (iteration st) < maxIter then
        (case session_iteration E a options taskDescription st w of
           (Return r, st1, w1) \<Rightarrow> (r, st1, w1)
         | (Continue, st1, w1) \<Rightarrow> run_loop E a options taskDescription maxIter st1 w1)
      else
        (\<lparr> success = False,
           message = JStr (''Max iterations ('' @ number_text E maxIter @ '') reached''),
           result_trace = trace st \<rparr>,
         st, w))"
  by pat_completeness auto
termination
  by (relation "measure (\<lambda>(E, a, options, taskDescription, maxIter, st, w). nat \<lceil>maxIter\<rceil> - iteration st)")
     (auto simp: below_cap dest!: session_iteration_Continue[OF sym])

declare run_loop.simps [simp del]

text \<open>
  \<open>(options && options.maxIterations) || 10\<close>: a missing number and the number 0 give
  10; any other number is taken as it is.
\<close>

definition effective_maxIterations :: "'w session_options \<Rightarrow> rat" where
  "effective_maxIterations options =
     (case maxIterations options of
        Some n \<Rightarrow> if n = 0 then 10 else n
      | None \<Rightarrow> 10)"

definition runTaskSession ::
  "'w agent_env \<Rightarrow> agent \<Rightarrow> string \<Rightarrow> 'w session_options \<Rightarrow> 'w \<Rightarrow> session_result \<times> loop_state \<times> 'w" where
  "runTaskSession E a taskDescription options w =
     run_loop E a options taskDescription (effective_maxIterations options) initial_state w"

subsection \<open>\<open>processMessage\<close>\<close>

text \<open>
  \<open>for (const toolCall of parsed.tools)\<close> runs over the elements of an array or the
  characters of a string; any other value is not iterable and the loop throws.
\<close>

fun iterate :: "jsval \<Rightarrow> jsval list option" where
  "iterate (JArr xs ps) = Some xs"
| "iterate (JStr s) = Some (map (\<lambda>c. JStr [c]) s)"
| "iterate v = None"

text \<open>
  The loop of the \<open>chain_tools\<close> branch: each tool in turn through \<open>executeTool\<close>,
  one entry \<open>{ tool, success, result, error }\<close> per tool. Reading \<open>toolCall.tool\<close> of
  \<open>null\<close> or \<open>undefined\<close> throws.
\<close>

fun chain_tools :: "'w agent_env \<Rightarrow> agent \<Rightarrow> jsval list \<Rightarrow> 'w \<Rightarrow> (jserror + jsval list) \<times> 'w" where
  "chain_tools E a [] w = (Inr [], w)"
| "chain_tools E a (toolCall # rest) w =
     (if toolCall = JNull then
        (Inl (JsError ''TypeError'' ''Cannot read properties of null (reading 'tool')''), w)
      else if toolCall = JUndef then
        (Inl (JsError ''TypeError'' ''Cannot read properties of undefined (reading 'tool')''), w)
      else
        (case executeTool E a (get_prop toolCall ''tool'')
                (js_or (get_prop toolCall ''args'') (JObj [])) w of
           (toolResult, w1) \<Rightarrow>
             (case chain_tools E a rest w1 of
                (Inl e, w2) \<Rightarrow> (Inl e, w2)
              | (Inr results, w2) \<Rightarrow>
                  (Inr (JObj [(''tool'', get_prop toolCall ''tool''),
                              (''success'', get_prop toolResult ''success''),
                              (''result'', get_prop toolResult ''result''),
                              (''error'', get_prop toolResult ''error'')] # results),
                   w2))))"

text \<open>\<open>`${r.tool}: ${r.success ? 'Success' : `Failed - ${r.error}`}`\<close>\<close>

definition summary_line :: "'w agent_env \<Rightarrow> jsval \<Rightarrow> string" where
  "summary_line E r =
     String_of E (get_prop r ''tool'') @ '': ''
     @ (if truthy (get_prop r ''success'') then ''Success''
        else ''Failed - '' @ String_of E (get_prop r ''error''))"

text \<open>\<open>lines.join('\n')\<close>\<close>

fun join_lines :: "string list \<Rightarrow> string" where
  "join_lines [] = []"
| "join_lines [l] = l"
| "join_lines (l # m # ls) = l @ ''\<newline>'' @ join_lines (m # ls)"

text \<open>
  What \<open>processMessage\<close> does between its two pushes onto the history, for the agent
  \<open>a\<close> that already holds the user's message: the final response, or the exception
  that the \<open>catch\<close> throws again. Nothing in it assigns to a field of the agent. Its
  templates throw for a value without a string form: the page address, the tool, the
  \<open>reasoning\<close>.
\<close>

definition process_reply ::
  "'w agent_env \<Rightarrow> agent \<Rightarrow> string \<Rightarrow> jsval \<Rightarrow> 'w \<Rightarrow> (jserror + jsval) \<times> 'w" where
  \<open>process_reply E a userMessage ctx w =
     (if ctx = JNull then
        (Inl (JsError ''TypeError'' ''Cannot read properties of null (reading 'currentUrl')''), w)
      else if truthy (get_prop ctx ''currentUrl'') \<and> \<not> converts (get_prop ctx ''currentUrl'') then
        (Inl convert_error, w)
      else
        let contextInfo =
              (if truthy (get_prop ctx ''currentUrl'')
               then ''\<newline>\<newline>Current page context: The user is on ''
                    @ String_of E (get_prop ctx ''currentUrl'')
               else [])
        in case callGeminiAPI E a (userMessage @ contextInfo) (last_five (conversationHistory a)) w of
             (Inl error, w1) \<Rightarrow> (Inl error, w1)
           | (Inr geminiResponse, w1) \<Rightarrow>
               let parsed = parseGeminiResponse E geminiResponse;
                   reasoning = js_or (get_prop parsed ''reasoning'') (JStr [])
               in
               if get_prop parsed ''action'' = JStr ''call_tool'' then
                 (case computeRefIfMissing E a (get_prop parsed ''tool'')
                         (js_or (get_prop parsed ''args'') (JObj [])) userMessage w1 of
                    (computedRef, w2) \<Rightarrow>
                      let args = js_or (merge_ref (get_prop parsed ''args'') computedRef) (JObj []) in
                      (case executeTool E a (get_prop parsed ''tool'') args w2 of
                         (toolResult, w3) \<Rightarrow>
                           if \<not> converts (get_prop parsed ''tool'') then (Inl convert_error, w3)
                           else if truthy (get_prop toolResult ''success'') then
                             (case callGeminiAPI E a
                                     (''The tool "'' @ String_of E (get_prop parsed ''tool'')
                                      @ ''" was executed successfully. Result: ''
                                      @ JSON_stringify E (get_prop toolResult ''result'')
                                      @ ''. Provide a helpful, user-friendly explanation of what was done.'')
                                     [] w3 of
                                (Inl error, w4) \<Rightarrow> (Inl error, w4)
                              | (Inr formattedResponse, w4) \<Rightarrow> (Inr (JStr formattedResponse), w4))
                           else if \<not> converts reasoning then (Inl convert_error, w3)
                           else
                             (Inr (JStr (''Failed to execute '' @ String_of E (get_prop parsed ''tool'')
                                         @ '': '' @ String_of E (get_prop toolResult ''error'') @ ''. ''
                                         @ String_of E reasoning)),
                              w3)))
               else if get_prop parsed ''action'' = JStr ''chain_tools'' then
                 (case iterate (get_prop parsed ''tools'') of
                    None \<Rightarrow> (Inl (JsError ''TypeError'' ''parsed.tools is not iterable''), w1)
                  | Some toolCalls \<Rightarrow>
                      (case chain_tools E a toolCalls w1 of
                         (Inl error, w2) \<Rightarrow> (Inl error, w2)
                       | (Inr results, w2) \<Rightarrow>
                           if list_all (\<lambda>r. converts (get_prop r ''tool'')) results \<and> converts reasoning
                           then
                             (Inr (JStr (''Executed '' @ string_of_nat (length results) @ '' tool(s):\<newline>''
                                         @ join_lines (map (summary_line E) results) @ ''\<newline>\<newline>''
                                         @ String_of E reasoning)),
                              w2)
                           else (Inl convert_error, w2)))
               else (Inr (js_or (get_prop parsed ''message'') (JStr geminiResponse)), w1))\<close>

text \<open>\<open>if (history.length > 10) history = history.slice(-10)\<close>\<close>

definition last_ten :: "'a list \<Rightarrow> 'a list" where
  "last_ten xs = (if length xs > 10 then drop (length xs - 10) xs else xs)"

text \<open>
  \<open>processMessage(userMessage, context = {})\<close>: the user's message goes onto the
  history first, and stays there when the rest throws; the response goes onto it last.
\<close>

definition processMessage ::
  "'w agent_env \<Rightarrow> agent \<Rightarrow> string \<Rightarrow> jsval \<Rightarrow> 'w \<Rightarrow> (jserror + jsval) \<times> agent \<times> 'w" where
  "processMessage E a userMessage context_arg w =
     (let a1 = a\<lparr>conversationHistory :=
                   conversationHistory a @ [\<lparr> role = ''user'', content = JStr userMessage \<rparr>]\<rparr>
      in case process_reply E a1 userMessage
                (if context_arg = JUndef then JObj [] else context_arg) w of
           (Inl error, w1) \<Rightarrow> (Inl error, a1, w1)
         | (Inr finalResponse, w1) \<Rightarrow>
             (Inr finalResponse,
              a1\<lparr>conversationHistory :=
                    last_ten (conversationHistory a1
                              @ [\<lparr> role = ''assistant'', content = finalResponse \<rparr>])\<rparr>,
              w1))"

subsection \<open>The agent's public methods\<close>

text \<open>
  A call of a method of the agent from outside, with its arguments. The methods that
  only read the agent's fields are here too.
\<close>

datatype 'w agent_call =
    Call_setModel jsval
  | Call_updateApiKey string
  | Call_clearHistory
  | Call_initialize
  | Call_processMessage string jsval
  | Call_runTaskSession string "'w session_options"
  | Call_executeTool jsval jsval
  | Call_computeRefIfMissing jsval jsval string
  | Call_callGeminiAPI string "chat_message list"
  | Call_parseGeminiResponse string
  | Call_formatToolsForPrompt
  | Call_createSystemPrompt

text \<open>The agent and the outside after a call; what the call returned is dropped.\<close>

fun perform :: "'w agent_env \<Rightarrow> agent \<times> 'w \<Rightarrow> 'w agent_call \<Rightarrow> agent \<times> 'w" where
  "perform E (a, w) (Call_setModel modelName) = (setModel modelName a, w)"
| "perform E (a, w) (Call_updateApiKey key) = (updateApiKey key a, w)"
| "perform E (a, w) Call_clearHistory = (clearHistory a, w)"
| "perform E (a, w) Call_initialize = snd (initialize E a w)"
| "perform E (a, w) (Call_processMessage userMessage context_arg) =
     snd (processMessage E a userMessage context_arg w)"
| "perform E (a, w) (Call_runTaskSession taskDescription options) =
     (a, snd (snd (runTaskSession E a taskDescription options w)))"
| "perform E (a, w) (Call_executeTool toolName args) = (a, snd (executeTool E a toolName args w))"
| "perform E (a, w) (Call_computeRefIfMissing toolName args userHint) =
     (a, snd (computeRefIfMissing E a toolName args userHint w))"
| "perform E (a, w) (Call_callGeminiAPI prompt conversationContext) =
     (a, snd (callGeminiAPI E a prompt conversationContext w))"
| "perform E (a, w) (Call_parseGeminiResponse response) = (a, w)"
| "perform E (a, w) Call_formatToolsForPrompt = (a, w)"
| "perform E (a, w) Call_createSystemPrompt = (a, w)"

text \<open>A sequence of calls, one after the other, on a freshly constructed agent.\<close>

definition after_calls :: "'w agent_env \<Rightarrow> string \<Rightarrow> 'w \<Rightarrow> 'w agent_call list \<Rightarrow> agent \<times> 'w" where
  "after_calls E key w calls = foldl (perform E) (new_agent key, w) calls"

subsection \<open>Talking about a run\<close>

text \<open>
  The state and the outside after \<open>n\<close> passes through the loop body that all reached
  \<open>continue\<close>; \<open>None\<close> when one of them returned.
\<close>

fun after_passes ::
  "'w agent_env \<Rightarrow> agent \<Rightarrow> 'w session_options \<Rightarrow> string \<Rightarrow> nat \<Rightarrow> loop_state \<times> 'w \<Rightarrow> (loop_state \<times> 'w) option" where
  "after_passes E a options taskDescription 0 sw = Some sw"
| "after_passes E a options taskDescription (Suc n) sw =
     (case session_iteration E a options taskDescription (fst sw) (snd sw) of
        (Continue, st1, w1) \<Rightarrow> after_passes E a options taskDescription n (st1, w1)
      | (Return r, st1, w1) \<Rightarrow> None)"

text \<open>
  What the planning service answers when asked in a given state: the action parsed from
  its reply, or \<open>None\<close> when the call throws.
\<close>

definition planned_action :: "'w agent_env \<Rightarrow> agent \<Rightarrow> string \<Rightarrow> loop_state \<times> 'w \<Rightarrow> jsval option" where
  "planned_action E a taskDescription sw =
     (case fst (callGeminiAPI E a
                  (starter_prompt taskDescription @ contextSuffix E (lastToolResult (fst sw)))
                  (last_five (conversationHistory a)) (snd sw)) of
        Inl e \<Rightarrow> None
      | Inr geminiResponse \<Rightarrow> Some (parseGeminiResponse E geminiResponse))"

text \<open>A reply no piece of which \<open>JSON.parse\<close> accepts as an object.\<close>

definition no_json_object :: "'w agent_env \<Rightarrow> string \<Rightarrow> bool" where
  "no_json_object E text = (\<forall>pre s post. text = pre @ s @ post \<longrightarrow> JSON_parse E s = None)"

text \<open>What \<open>executeTool\<close> returns for a tool call that threw \<open>e\<close>.\<close>

definition failure_of :: "jserror \<Rightarrow> jsval" where
  "failure_of e = JObj [(''success'', JBool False), (''error'', JStr (err_message e))]"

definition is_call_tool :: "jsval \<Rightarrow> bool" where
  "is_call_tool parsed = (get_prop parsed ''action'' = JStr ''call_tool'')"

text \<open>
  The value the repeat counter has after the guard of a pass whose planned action is
  \<open>p\<close>; the pass stops the session when \<open>p\<close> has a signature and the value is 2 or
  more.
\<close>

definition guard_count :: "'w agent_env \<Rightarrow> loop_state \<Rightarrow> jsval \<Rightarrow> nat" where
  "guard_count E st p =
     (if action_signature E p = None then repeatCount st
      else if previousActionSignature st = action_signature E p then repeatCount st + 1 else 0)"

text \<open>The tool and arguments a trace entry records.\<close>

definition step_call :: "step \<Rightarrow> jsval \<times> jsval" where
  "step_call s = (step_tool s, step_args s)"

text \<open>What holds of the loop's variables whenever the loop condition is tested.\<close>

definition loop_inv :: "loop_state \<Rightarrow> bool" where
  "loop_inv st =
     (map step_call (trace st) = tools_executed st
      \<and> length (prompts_sent st) = length (trace st)
      \<and> list_all is_call_tool (actions_seen st)
      \<and> map step_iteration (trace st) = [1 ..< Suc (length (trace st))]
      \<and> iteration st = length (trace st))"


section \<open>The bridge (mcp-bridge-server.js)\<close>

subsection \<open>Connection state and the tool dispatcher\<close>

text \<open>
  The bridge's module variables for its two backends, together with the two things they
  talk to: \<open>live\<close>, the outside of the Playwright connection (the user's browser), and
  \<open>peer\<close>, the subprocess tool-server behind \<open>mcpClient\<close>. \<open>mcpClient\<close> and
  \<open>mcpTransport\<close> say whether the variable holds an object or \<open>null\<close>;
  \<open>mcpConnected\<close> is the variable \<open>isConnected\<close>.
\<close>

record ('b, 'm) backends =
  mcpClient :: bool
  mcpTransport :: bool
  mcpConnected :: bool
  geminiAgent :: "agent option"
  playwrightCDP :: "cdp_handler option"
  live :: 'b
  peer :: 'm

text \<open>
  What the bridge runs on: Playwright, the network seen from the probes (a port answers
  or not according to the state of the browser side), the MCP SDK client, two
  environment variables, and the string form of a value that has one (\<open>js_String\<close>).
\<close>

record ('b, 'm) externals =
  pw :: "'b playwright"
  probe :: "'b \<Rightarrow> probe_request \<Rightarrow> probe_reply"
  mcp_connect :: "'m \<Rightarrow> (jserror + unit) \<times> 'm"
  mcp_listTools :: "'m \<Rightarrow> (jserror + tool_descriptor list) \<times> 'm"
  mcp_callTool :: "tool_request \<Rightarrow> 'm \<Rightarrow> (jserror + jsval) \<times> 'm"
  mcp_close :: "'m \<Rightarrow> (jserror + unit) \<times> 'm"
  env_USE_EXISTING_BROWSER :: "string option"
  env_GEMINI_API_KEY :: "string option"
  js_String :: "jsval \<Rightarrow> string"

definition browserTools :: "string list" where
  "browserTools =
     [''browser_navigate'', ''browser_goto'', ''playwright_navigate'', ''playwright_goto'',
      ''browser_screenshot'', ''playwright_screenshot'',
      ''browser_click'', ''playwright_click'',
      ''browser_fill'', ''browser_type'', ''playwright_fill'', ''playwright_type'',
      ''browser_evaluate'', ''playwright_evaluate'',
      ''browser_accessibility_snapshot'', ''playwright_accessibility_snapshot'',
      ''browser_wait_for'', ''playwright_wait_for'']"

text \<open>
  \<open>toolName.includes(s)\<close>. A tool name is a string; the agent hands on whatever the
  planning service put under \<open>tool\<close>, so the other cases are here too: an array has an
  \<open>includes\<close> of its own (membership), and on anything else the call is a
  \<open>TypeError\<close>.
\<close>

fun name_includes :: "jsval \<Rightarrow> string \<Rightarrow> jserror + bool" where
  "name_includes (JStr n) s = Inr (includes_str n s)"
| "name_includes (JArr xs ps) s = Inr (JStr s \<in> set xs)"
| "name_includes JUndef s =
     Inl (JsError ''TypeError'' ''Cannot read properties of undefined (reading 'includes')'')"
| "name_includes JNull s =
     Inl (JsError ''TypeError'' ''Cannot read properties of null (reading 'includes')'')"
| "name_includes v s = Inl (JsError ''TypeError'' ''toolName.includes is not a function'')"

text \<open>
  \<open>tool.includes(toolName)\<close>: the argument is converted to a string, which throws for
  a value without a string form.
\<close>

fun includes_name :: "(jsval \<Rightarrow> string) \<Rightarrow> string \<Rightarrow> jsval \<Rightarrow> jserror + bool" where
  "includes_name S tool (JStr n) = Inr (includes_str tool n)"
| "includes_name S tool v =
     (if converts v then Inr (includes_str tool (S v)) else Inl convert_error)"

text \<open>
  \<open>tools.some(tool => toolName.includes(tool) || tool.includes(toolName))\<close>: the tools
  in order, the second test only after the first has failed, the first exception ends
  it.
\<close>

fun some_tool :: "(jsval \<Rightarrow> string) \<Rightarrow> jsval \<Rightarrow> string list \<Rightarrow> jserror + bool" where
  "some_tool S toolName [] = Inr False"
| "some_tool S toolName (tool # rest) =
     (case name_includes toolName tool of
        Inl e \<Rightarrow> Inl e
      | Inr True \<Rightarrow> Inr True
      | Inr False \<Rightarrow>
          (case includes_name S tool toolName of
             Inl e \<Rightarrow> Inl e
           | Inr True \<Rightarrow> Inr True
           | Inr False \<Rightarrow> some_tool S toolName rest))"

definition is_browser_tool :: "(jsval \<Rightarrow> string) \<Rightarrow> jsval \<Rightarrow> jserror + bool" where
  "is_browser_tool S toolName = some_tool S toolName browserTools"

definition name_has :: "jsval \<Rightarrow> string \<Rightarrow> bool" where
  "name_has toolName s = (name_includes toolName s = Inr True)"

text \<open>
  The \<open>if / else if\<close> chain inside the dispatcher's \<open>try\<close>: the handler operation the
  tool name selects, or the error thrown when it selects none. (In the route that error's
  message goes on with \<open>, using MCP server\<close>; in both places it is caught and logged
  and nothing else is done with it.)
\<close>

definition cdp_dispatch ::
  "'b playwright \<Rightarrow> jsval \<Rightarrow> jsval \<Rightarrow> cdp_handler \<Rightarrow> 'b \<Rightarrow> (jserror + jsval) \<times> cdp_handler \<times> 'b" where
  "cdp_dispatch P toolName args h b =
     (if name_has toolName ''navigate'' \<or> name_has toolName ''goto'' then
        navigate P (js_or (get_prop args ''url'') (get_prop args ''href'')) (get_prop args ''pageId'') h b
      else if name_has toolName ''screenshot'' then
        (case screenshot P args (get_prop args ''pageId'') h b of
           (Inl e, h1, b1) \<Rightarrow> (Inl e, h1, b1)
         | (Inr shot, h1, b1) \<Rightarrow>
             (Inr (JObj [(''screenshot'', JStr shot), (''format'', JStr ''base64'')]), h1, b1))
      else if name_has toolName ''click'' then
        click P (js_or (get_prop args ''selector'') (get_prop args ''ref'')) args
          (get_prop args ''pageId'') h b
      else if name_has toolName ''fill'' then
        fill P (js_or (get_prop args ''selector'') (get_prop args ''ref''))
          (js_or (get_prop args ''text'') (get_prop args ''value'')) args (get_prop args ''pageId'') h b
      else if name_has toolName ''type'' then
        type_text P (js_or (get_prop args ''selector'') (get_prop args ''ref''))
          (get_prop args ''text'') args (get_prop args ''pageId'') h b
      else if name_has toolName ''evaluate'' then
        evaluate P (js_or (get_prop args ''function'') (get_prop args ''script''))
          (get_prop args ''pageId'') h b
      else if name_has toolName ''accessibility'' \<or> name_has toolName ''snapshot'' then
        getAccessibilitySnapshot P (get_prop args ''pageId'') h b
      else if name_has toolName ''wait'' then
        waitForSelector P (js_or (get_prop args ''selector'') (get_prop args ''ref'')) args
          (get_prop args ''pageId'') h b
      else (Inl (JsError ''Error'' ''Tool not handled by CDP''), h, b))"

text \<open>
  The first half of the dispatcher, which the wrapper's \<open>callTool\<close> and the route
  \<open>POST /mcp/tools/:toolName\<close> both have: with a connected handler and a browser tool
  name, try the handler. \<open>Some (Inr r)\<close> is the handler's result; \<open>Some (Inl e)\<close> is
  an exception that leaves the function; \<open>None\<close> means control reaches the subprocess
  half: no handler, not a browser tool, or the handler threw and the \<open>catch\<close> logged
  it. An exception leaves the function from the test of the tool name, which is outside
  the \<open>try\<close>, and from the log lines: the first statement of the \<open>try\<close> and the
  statement of the \<open>catch\<close> each hold \<open>${toolName}\<close> in a template, so for a name
  without a string form the first throws before any handler operation runs, and the
  second throws again.
\<close>

definition try_cdp ::
  "('b, 'm) externals \<Rightarrow> jsval \<Rightarrow> jsval \<Rightarrow> ('b, 'm) backends \<Rightarrow> (jserror + jsval) option \<times> ('b, 'm) backends" where
  "try_cdp X toolName args B =
     (case playwrightCDP B of
        None \<Rightarrow> (None, B)
      | Some h \<Rightarrow>
          if isConnectedToBrowser h then
            (case is_browser_tool (js_String X) toolName of
               Inl e \<Rightarrow> (Some (Inl e), B)
             | Inr False \<Rightarrow> (None, B)
             | Inr True \<Rightarrow>
                 if \<not> converts toolName then (Some (Inl convert_error), B)
                 else
                 (case cdp_dispatch (pw X) toolName args h (live B) of
                    (Inr result, h1, b1) \<Rightarrow>
                      (Some (Inr result), B\<lparr>playwrightCDP := Some h1, live := b1\<rparr>)
                  | (Inl cdpError, h1, b1) \<Rightarrow>
                      (None, B\<lparr>playwrightCDP := Some h1, live := b1\<rparr>)))
          else (None, B))"

text \<open>\<open>createMCPClientWrapper().callTool(request)\<close>, the agent's \<open>mcpClient.callTool\<close>.\<close>

definition wrapper_callTool ::
  "('b, 'm) externals \<Rightarrow> tool_request \<Rightarrow> ('b, 'm) backends \<Rightarrow> (jserror + jsval) \<times> ('b, 'm) backends" where
  "wrapper_callTool X request B =
     (case try_cdp X (req_name request) (js_or (req_arguments request) (JObj [])) B of
        (Some outcome, B1) \<Rightarrow> (outcome, B1)
      | (None, B1) \<Rightarrow>
          if \<not> mcpClient B1 then (Inl (JsError ''Error'' ''MCP client not connected''), B1)
          else (case mcp_callTool X request (peer B1) of
                  (resp, m1) \<Rightarrow> (resp, B1\<lparr>peer := m1\<rparr>)))"

text \<open>\<open>createMCPClientWrapper().listTools()\<close>: always the subprocess catalog.\<close>

definition wrapper_listTools ::
  "('b, 'm) externals \<Rightarrow> ('b, 'm) backends \<Rightarrow> (jserror + tool_descriptor list) \<times> ('b, 'm) backends" where
  "wrapper_listTools X B =
     (if \<not> mcpClient B then (Inl (JsError ''Error'' ''MCP client not connected''), B)
      else (case mcp_listTools X (peer B) of
              (resp, m1) \<Rightarrow> (resp, B\<lparr>peer := m1\<rparr>)))"

subsection \<open>\<open>connectToMCP\<close>\<close>

text \<open>
  \<open>connectToMCP()\<close>: look for a browser to attach to (unless the environment says
  not to), then start and connect the subprocess client, then create the agent from the
  environment's API key when there is none yet.
\<close>

definition connectToMCP :: "('b, 'm) externals \<Rightarrow> ('b, 'm) backends \<Rightarrow> bool \<times> ('b, 'm) backends" where
  "connectToMCP X B =
     (if mcpConnected B \<and> mcpClient B then (True, B)
      else
        let B1 =
              (if env_USE_EXISTING_BROWSER X \<noteq> Some ''false'' then
                 (case fst (findChromeCDPEndpoint (probe X (live B))) of
                    Some endpoint \<Rightarrow>
                      (case connect (pw X) (new_handler endpoint) (live B) of
                         (Inr ok, h, b1) \<Rightarrow> B\<lparr>playwrightCDP := Some h, live := b1\<rparr>
                       | (Inl cdpError, h, b1) \<Rightarrow> B\<lparr>playwrightCDP := None, live := b1\<rparr>)
                  | None \<Rightarrow> B\<lparr>playwrightCDP := None\<rparr>)
               else B)
        in (case mcp_connect X (peer B1) of
              (Inl error, m1) \<Rightarrow>
                (False,
                 B1\<lparr>mcpConnected := False, mcpClient := False, mcpTransport := False, peer := m1\<rparr>)
            | (Inr u, m1) \<Rightarrow>
                let B2 = B1\<lparr>mcpTransport := True, mcpClient := True, mcpConnected := True, peer := m1\<rparr>
                in (case (env_GEMINI_API_KEY X, geminiAgent B2) of
                      (Some envKey, None) \<Rightarrow>
                        if envKey \<noteq> [] then
                          (case wrapper_listTools X B2 of
                             (Inr tools, B3) \<Rightarrow>
                               (True, B3\<lparr>geminiAgent := Some ((new_agent envKey)\<lparr>availableTools := Some tools\<rparr>)\<rparr>)
                           | (Inl e, B3) \<Rightarrow>
                               (True, B3\<lparr>geminiAgent := Some (new_agent envKey)\<rparr>))
                        else (True, B2)
                    | _ \<Rightarrow> (True, B2))))"

subsection \<open>The routes \<open>POST /mcp/tools/:toolName\<close> and \<open>POST /mcp/disconnect\<close>\<close>

text \<open>The JSON a route answers with, and its status code.\<close>

record http_response =
  res_status :: nat
  res_success :: bool
  res_result :: jsval
  res_error :: "string option"

definition respond_ok :: "jsval \<Rightarrow> http_response" where
  "respond_ok r = \<lparr> res_status = 200, res_success = True, res_result = r, res_error = None \<rparr>"

definition respond_error :: "string \<Rightarrow> http_response" where
  "respond_error msg = \<lparr> res_status = 500, res_success = False, res_result = JUndef, res_error = Some msg \<rparr>"

text \<open>
  \<open>POST /mcp/tools/:toolName\<close> with \<open>req.body.args\<close>. The tool name is a route
  parameter, a string.
\<close>

definition route_call_tool ::
  "('b, 'm) externals \<Rightarrow> string \<Rightarrow> jsval \<Rightarrow> ('b, 'm) backends \<Rightarrow> http_response \<times> ('b, 'm) backends" where
  "route_call_tool X toolName body_args B =
     (let args = js_or body_args (JObj []) in
      case try_cdp X (JStr toolName) args B of
        (Some (Inr result), B1) \<Rightarrow> (respond_ok result, B1)
      | (Some (Inl error), B1) \<Rightarrow> (respond_error (err_message error), B1)
      | (None, B1) \<Rightarrow>
          let B2 = (if \<not> mcpConnected B1 then snd (connectToMCP X B1) else B1) in
          if \<not> mcpConnected B2 \<or> \<not> mcpClient B2
          then (respond_error ''Not connected to MCP server'', B2)
          else (case mcp_callTool X \<lparr> req_name = JStr toolName, req_arguments = args \<rparr> (peer B2) of
                  (Inr response, m1) \<Rightarrow> (respond_ok response, B2\<lparr>peer := m1\<rparr>)
                | (Inl error, m1) \<Rightarrow> (respond_error (err_message error), B2\<lparr>peer := m1\<rparr>)))"

text \<open>
  \<open>POST /mcp/disconnect\<close>: the handler's \<open>disconnect()\<close> when it is connected, then
  \<open>mcpClient.close()\<close>, which ends the subprocess tool-server, then the variables are
  cleared. An exception from \<open>close()\<close> skips the clearing that follows it.
\<close>

definition route_disconnect ::
  "('b, 'm) externals \<Rightarrow> ('b, 'm) backends \<Rightarrow> http_response \<times> ('b, 'm) backends" where
  "route_disconnect X B =
     (let B1 = (case playwrightCDP B of
                  Some h \<Rightarrow>
                    if isConnectedToBrowser h
                    then (case disconnect h (live B) of (h1, b1) \<Rightarrow> B\<lparr>live := b1\<rparr>)
                    else B
                | None \<Rightarrow> B);
          B2 = B1\<lparr>playwrightCDP := None\<rparr>;
          cleared = (\<lambda>B'. B'\<lparr>mcpClient := False, mcpTransport := False, mcpConnected := False,
                             geminiAgent := None\<rparr>)
      in if mcpClient B2 then
           (case mcp_close X (peer B2) of
              (Inl error, m1) \<Rightarrow> (respond_error (err_message error), B2\<lparr>peer := m1\<rparr>)
            | (Inr u, m1) \<Rightarrow> (respond_ok JUndef, cleared (B2\<lparr>peer := m1\<rparr>)))
         else (respond_ok JUndef, cleared B2))"

subsection \<open>The session store and the background session of \<open>POST /gemini/chat\<close>\<close>

text \<open>
  A record of the in-memory store \<open>sessions\<close>. The time stamp \<open>lastUpdate\<close> is left
  out: wall-clock time is not part of this model.
\<close>

record session =
  sess_id :: string
  sess_status :: string
  sess_trace :: "step list"
  sess_message :: "string option"
  sess_lastAction :: jsval
  sess_lastToolResult :: jsval
  sess_result :: "session_result option"
  sess_error :: "string option"

type_synonym store = "string \<Rightarrow> session option"

text \<open>\<open>makeSession()\<close>, with the id the runtime drew for it.\<close>

definition makeSession :: "string \<Rightarrow> store \<Rightarrow> store" where
  "makeSession sid sessions =
     sessions(sid \<mapsto>
       \<lparr> sess_id = sid, sess_status = ''created'', sess_trace = [], sess_message = None,
         sess_lastAction = JUndef, sess_lastToolResult = JUndef, sess_result = None,
         sess_error = None \<rparr>)"

text \<open>\<open>updateSession(id, patch)\<close>: nothing happens for an id that is not in the store.\<close>

definition updateSession :: "string \<Rightarrow> (session \<Rightarrow> session) \<Rightarrow> store \<Rightarrow> store" where
  "updateSession sid patch sessions =
     (case sessions sid of
        None \<Rightarrow> sessions
      | Some s \<Rightarrow> sessions(sid \<mapsto> patch s))"

text \<open>
  The agent of a background session runs on the store and on whatever its own
  environment acts on; the planning service and the tools do not touch the store.
\<close>

definition with_store :: "'x agent_env \<Rightarrow> (store \<times> 'x) agent_env" where
  "with_store E =
     \<lparr> JSON_parse = JSON_parse E,
       JSON_stringify = JSON_stringify E,
       String_of = String_of E,
       callGeminiAPI = (\<lambda>a prompt history (sessions, x).
          case callGeminiAPI E a prompt history x of (r, x1) \<Rightarrow> (r, (sessions, x1))),
       callTool = (\<lambda>request (sessions, x).
          case callTool E request x of (r, x1) \<Rightarrow> (r, (sessions, x1))),
       listTools = (\<lambda>(sessions, x).
          case listTools E x of (r, x1) \<Rightarrow> (r, (sessions, x1))),
       fn_body = fn_body E,
       page_script = page_script E,
       currentLevel = currentLevel E,
       ENABLE_JSON = ENABLE_JSON E \<rparr>"

text \<open>The \<open>onUpdate\<close> the bridge passes: it copies the update into the session.\<close>

definition store_update :: "string \<Rightarrow> update \<Rightarrow> store \<times> 'x \<Rightarrow> store \<times> 'x" where
  "store_update sid u w =
     (updateSession sid
        (\<lambda>s. s\<lparr>sess_status := upd_status u, sess_trace := upd_trace u,
               sess_lastAction := upd_action u, sess_lastToolResult := upd_toolResult u\<rparr>)
        (fst w),
      snd w)"

text \<open>
  How the background task ends: \<open>updateSession\<close> with \<open>status: 'finished'\<close> after
  \<open>runTaskSession\<close> has returned (whatever it returned), or, from the \<open>catch\<close>, with
  \<open>status: 'error'\<close>.
\<close>

definition settle_session :: "string \<Rightarrow> jserror + session_result \<Rightarrow> store \<Rightarrow> store" where
  "settle_session sid outcome sessions =
     (case outcome of
        Inr sessionResult \<Rightarrow>
          updateSession sid
            (\<lambda>s. s\<lparr>sess_status := ''finished'', sess_result := Some sessionResult,
                   sess_trace := result_trace sessionResult\<rparr>) sessions
      | Inl e \<Rightarrow>
          updateSession sid
            (\<lambda>s. s\<lparr>sess_status := ''error'', sess_error := Some (error_text e)\<rparr>) sessions)"

text \<open>
  The detached task the route starts after \<open>makeSession()\<close>, for a message that is a
  string and a \<open>maxIterations\<close> that is a number or absent. \<open>runTaskSession\<close> then
  returns on every path, so the task takes the first branch of \<open>settle_session\<close>.
\<close>

definition background_session ::
  "'x agent_env \<Rightarrow> agent \<Rightarrow> string \<Rightarrow> string \<Rightarrow> rat option \<Rightarrow> store \<times> 'x \<Rightarrow> store \<times> 'x" where
  "background_session E a sid msg maxIter w =
     (let w0 = (updateSession sid (\<lambda>s. s\<lparr>sess_status := ''running'', sess_message := Some msg\<rparr>) (fst w),
                snd w);
          runOptions = \<lparr> maxIterations = maxIter, onUpdate = Some (store_update sid) \<rparr>
      in case runTaskSession (with_store E) a msg runOptions w0 of
           (sessionResult, st, w1) \<Rightarrow> (settle_session sid (Inr sessionResult) (fst w1), snd w1))"

section \<open>A scripted environment for concrete runs\<close>

text \<open>
  Three replies of the planning service, and \<open>JSON.parse\<close>, \<open>JSON.stringify\<close> and
  \<open>String\<close> on the texts and values these runs meet.
\<close>

definition nav_text :: string where
  \<open>nav_text = ''{"action":"call_tool","tool":"browser_navigate","args":{"url":"https://example.com"}}''\<close>

definition snap_text :: string where
  \<open>snap_text = ''{"action":"call_tool","tool":"browser_snapshot","args":{}}''\<close>

definition done_text :: string where
  \<open>done_text = ''{"action":"done","message":"Navigated"}''\<close>

definition nav_args :: jsval where
  "nav_args = JObj [(''url'', JStr ''https://example.com'')]"

definition timeout_failure :: jsval where
  "timeout_failure = JObj [(''success'', JBool False), (''error'', JStr ''Timeout 30000ms exceeded'')]"

definition nav_action :: jsval where
  "nav_action =
     JObj [(''action'', JStr ''call_tool''), (''tool'', JStr ''browser_navigate''), (''args'', nav_args)]"

definition snap_action :: jsval where
  "snap_action =
     JObj [(''action'', JStr ''call_tool''), (''tool'', JStr ''browser_snapshot''), (''args'', JObj [])]"

definition done_action :: jsval where
  "done_action = JObj [(''action'', JStr ''done''), (''message'', JStr ''Navigated'')]"

definition demo_parse :: "string \<Rightarrow> (string \<times> jsval) list option" where
  "demo_parse s =
     (if s = nav_text then
        Some [(''action'', JStr ''call_tool''), (''tool'', JStr ''browser_navigate''), (''args'', nav_args)]
      else if s = snap_text then
        Some [(''action'', JStr ''call_tool''), (''tool'', JStr ''browser_snapshot''), (''args'', JObj [])]
      else if s = done_text then
        Some [(''action'', JStr ''done''), (''message'', JStr ''Navigated'')]
      else None)"

definition demo_stringify :: "jsval \<Rightarrow> string" where
  \<open>demo_stringify v =
     (if v = nav_args then ''{"url":"https://example.com"}''
      else if v = JObj [] then ''{}''
      else if v = JStr ''ok'' then ''"ok"''
      else if v = timeout_failure then ''{"success":false,"error":"Timeout 30000ms exceeded"}''
      else ''null'')\<close>

definition demo_String :: "jsval \<Rightarrow> string" where
  "demo_String v = (case v of JStr s \<Rightarrow> s | _ \<Rightarrow> ''undefined'')"

text \<open>
  The outside is a counter of planning calls: the \<open>n\<close>-th call gets the \<open>n\<close>-th
  reply of the script, and a call past its end fails. Every tool call has the outcome
  \<open>tool\<close> gives its request. The catalog is empty. The logger has its default
  settings.
\<close>

definition scripted_env :: "string list \<Rightarrow> (tool_request \<Rightarrow> jserror + jsval) \<Rightarrow> nat agent_env" where
  "scripted_env replies tool =
     \<lparr> JSON_parse = demo_parse,
       JSON_stringify = demo_stringify,
       String_of = demo_String,
       callGeminiAPI = (\<lambda>a prompt history n.
          (if n < length replies then Inr (replies ! n)
           else Inl (JsError ''Error'' ''Gemini API error: 503''), Suc n)),
       callTool = (\<lambda>request n. (tool request, n)),
       listTools = (\<lambda>n. (Inr [], n)),
       fn_body = (\<lambda>toolName args. []),
       page_script = (\<lambda>userHint. []),
       currentLevel = Level_info,
       ENABLE_JSON = False \<rparr>"

definition tool_ok :: "tool_request \<Rightarrow> jserror + jsval" where
  "tool_ok request = Inr (JStr ''ok'')"

definition tool_times_out :: "tool_request \<Rightarrow> jserror + jsval" where
  "tool_times_out request = Inl (JsError ''TimeoutError'' ''Timeout 30000ms exceeded'')"

definition no_options :: "nat session_options" where
  "no_options = \<lparr> maxIterations = None, onUpdate = None \<rparr>"

definition capped :: "rat \<Rightarrow> nat session_options" where
  "capped n = \<lparr> maxIterations = Some n, onUpdate = None \<rparr>"

text \<open>
  A planning service that never stops asking for a tool and never asks for the same one
  twice in a row: its \<open>n\<close>-th reply is the navigation when \<open>n\<close> is even and the
  snapshot when \<open>n\<close> is odd.
\<close>

definition alternating_env :: "(tool_request \<Rightarrow> jserror + jsval) \<Rightarrow> nat agent_env" where
  "alternating_env tool =
     (scripted_env [] tool)\<lparr>callGeminiAPI :=
        (\<lambda>a prompt history n. (Inr (if even n then nav_text else snap_text), Suc n))\<rparr>"

definition alternating_action :: "nat \<Rightarrow> jsval" where
  "alternating_action n = (if even n then nav_action else snap_action)"


text \<open>
  An agent whose catalog has a tool that runs scripts, a backend whose every call
  answers with the selector \<open>#other\<close>, and a click whose arguments name their
  target.
\<close>

definition agent_with_catalog :: agent where
  "agent_with_catalog =
     (new_agent ''key'')\<lparr>availableTools :=
        Some [\<lparr> tool_name = ''browser_evaluate'', tool_description = ''Evaluate JavaScript'',
                 schema_props = [''function''] \<rparr>]\<rparr>"

definition tool_finds_other :: "tool_request \<Rightarrow> jserror + jsval" where
  "tool_finds_other request = Inr (JStr ''#other'')"

definition click_args :: jsval where
  "click_args = JObj [(''element'', JStr ''Search box''), (''ref'', JStr ''#search'')]"

definition click_text :: string where
  \<open>click_text = ''{"action":"call_tool","tool":"browser_hover","args":{"element":"Search box","ref":"#search"}}''\<close>

definition click_action :: jsval where
  "click_action =
     JObj [(''action'', JStr ''call_tool''), (''tool'', JStr ''browser_hover''), (''args'', click_args)]"

definition click_env :: "nat agent_env" where
  "click_env =
     (scripted_env [click_text, done_text] tool_finds_other)
       \<lparr>JSON_parse := (\<lambda>s. if s = click_text
                           then Some [(''action'', JStr ''call_tool''), (''tool'', JStr ''browser_hover''),
                                      (''args'', click_args)]
                           else demo_parse s)\<rparr>"

text \<open>
  A bridge attached to a browser whose page has gone away: every Playwright call on it
  throws. The subprocess tool-server answers every call; its state counts them, and the
  browser side's state counts the navigations tried.
\<close>

definition closed_error :: jserror where
  "closed_error = JsError ''Error'' ''Target page, context or browser has been closed''"

definition offline_pw :: "nat playwright" where
  "offline_pw =
     \<lparr> connectOverCDP = (\<lambda>ep b. (Inl closed_error, b)),
       browser_contexts = (\<lambda>br b. []),
       browser_newContext = (\<lambda>br b. (Inl closed_error, b)),
       browser_close = (\<lambda>br b. (Inl closed_error, b)),
       context_pages = (\<lambda>ctx b. []),
       context_newPage = (\<lambda>ctx b. (Inl closed_error, b)),
       page_goto = (\<lambda>page url b. (Inl closed_error, Suc b)),
       page_url = (\<lambda>page b. ''about:blank''),
       page_title = (\<lambda>page b. (Inl closed_error, b)),
       page_screenshot = (\<lambda>page options b. (Inl closed_error, b)),
       page_click = (\<lambda>page selector options b. (Inl closed_error, b)),
       page_fill = (\<lambda>page selector txt options b. (Inl closed_error, b)),
       page_type = (\<lambda>page selector txt options b. (Inl closed_error, b)),
       page_evaluate = (\<lambda>page f b. (Inl closed_error, b)),
       page_waitForSelector = (\<lambda>page selector options b. (Inl closed_error, b)),
       page_snapshot = (\<lambda>page b. (Inl closed_error, b)),
       page_close = (\<lambda>page b. (Inl closed_error, b)),
       eval_paren = (\<lambda>s. EvalOther),
       function_ctor = (\<lambda>s. None),
       return_call = (\<lambda>s. None) \<rparr>"

definition navigated :: jsval where
  "navigated = JObj [(''content'', JStr ''Navigated to https://example.com'')]"

definition demo_externals :: "(nat, nat) externals" where
  "demo_externals =
     \<lparr> pw = offline_pw,
       probe = (\<lambda>b r. NoReply),
       mcp_connect = (\<lambda>m. (Inr (), m)),
       mcp_listTools = (\<lambda>m. (Inr [], m)),
       mcp_callTool = (\<lambda>request m. (Inr navigated, Suc m)),
       mcp_close = (\<lambda>m. (Inr (), m)),
       env_USE_EXISTING_BROWSER = None,
       env_GEMINI_API_KEY = None,
       js_String = demo_String \<rparr>"

definition attached :: cdp_handler where
  "attached =
     \<lparr> cdpEndpoint = ''http://localhost:9222'', browser = Some 0, browserContext = Some 0,
       pages = [(JStr ''page-0'', 0)], isConnected = True \<rparr>"

definition demo_backends :: "(nat, nat) backends" where
  "demo_backends =
     \<lparr> mcpClient = True, mcpTransport = True, mcpConnected = True, geminiAgent = None,
       playwrightCDP = Some attached, live = 0, peer = 0 \<rparr>"

definition nav_request :: tool_request where
  "nav_request = \<lparr> req_name = JStr ''browser_navigate'', req_arguments = nav_args \<rparr>"

text \<open>
  A planning service whose one reply asks for a tool that is an object with a property
  \<open>toString\<close> of its own, which has no string form.
\<close>

definition odd_text :: string where
  \<open>odd_text = ''{"action":"call_tool","tool":{"toString":1},"args":{}}''\<close>

definition odd_action :: jsval where
  "odd_action =
     JObj [(''action'', JStr ''call_tool''), (''tool'', JObj [(''toString'', JNum 1)]),
           (''args'', JObj [])]"

definition odd_env :: "nat agent_env" where
  "odd_env =
     (scripted_env [odd_text] tool_ok)
       \<lparr>JSON_parse := (\<lambda>s. if s = odd_text
                           then Some [(''action'', JStr ''call_tool''),
                                      (''tool'', JObj [(''toString'', JNum 1)]), (''args'', JObj [])]
                           else demo_parse s)\<rparr>"
section \<open>Evaluating the scripted runs\<close>

lemma match_nav: "match_braces nav_text = Some nav_text"
  by (simp add: match_braces_def nav_text_def)

lemma match_done: "match_braces done_text = Some done_text"
  by (simp add: match_braces_def done_text_def)

lemma match_snap: "match_braces snap_text = Some snap_text"
  by (simp add: match_braces_def snap_text_def)

lemma texts_distinct:
  "nav_text \<noteq> snap_text" "nav_text \<noteq> done_text" "snap_text \<noteq> done_text"
  "snap_text \<noteq> nav_text" "done_text \<noteq> nav_text" "done_text \<noteq> snap_text"
  by (simp_all add: nav_text_def snap_text_def done_text_def)

lemma scripted_fields:
  "JSON_parse (scripted_env rs t) = demo_parse"
  "JSON_stringify (scripted_env rs t) = demo_stringify"
  "String_of (scripted_env rs t) = demo_String"
  "callGeminiAPI (scripted_env rs t) a prompt h n =
     (if n < length rs then Inr (rs ! n) else Inl (JsError ''Error'' ''Gemini API error: 503''), Suc n)"
  "callTool (scripted_env rs t) request n = (t request, n)"
  "listTools (scripted_env rs t) n = (Inr [], n)"
  "currentLevel (scripted_env rs t) = Level_info"
  "ENABLE_JSON (scripted_env rs t) = False"
  by (simp_all add: scripted_env_def)

lemma parse_nav:
  "parseGeminiResponse (scripted_env rs t) nav_text =
     JObj [(''action'', JStr ''call_tool''), (''tool'', JStr ''browser_navigate''), (''args'', nav_args)]"
  by (simp add: parseGeminiResponse_def match_nav scripted_fields demo_parse_def)

lemma parse_done:
  "parseGeminiResponse (scripted_env rs t) done_text =
     JObj [(''action'', JStr ''done''), (''message'', JStr ''Navigated'')]"
  by (simp add: parseGeminiResponse_def match_done scripted_fields demo_parse_def texts_distinct)

lemma parse_snap:
  "parseGeminiResponse (scripted_env rs t) snap_text =
     JObj [(''action'', JStr ''call_tool''), (''tool'', JStr ''browser_snapshot''), (''args'', JObj [])]"
  by (simp add: parseGeminiResponse_def match_snap scripted_fields demo_parse_def texts_distinct)

lemma no_catalog_ref:
  "computeRefIfMissing E (new_agent k) toolName args hint w =
     (if truthy args \<and> truthy (get_prop args ''ref'') then (get_prop args ''ref'', w) else (JNull, w))"
  by (simp add: computeRefIfMissing_def new_agent_def)

lemma no_catalog_request:
  "tool_call_request E (new_agent k) toolName args = \<lparr> req_name = toolName, req_arguments = args \<rparr>"
  by (simp add: tool_call_request_def new_agent_def tools_or_empty_def find_evalTool_def
      split: jsval.splits)

lemmas demo_eval = session_iteration_def Let_def scripted_fields parse_nav parse_done parse_snap
  no_catalog_ref no_catalog_request executeTool_def is_call_tool_def action_signature_def
  logger_throws_def shouldLog_def
  merge_ref_def js_or_def nav_args_def demo_String_def demo_stringify_def tool_ok_def
  tool_times_out_def no_options_def capped_def contextSuffix_def

lemmas demo_eval2 = demo_eval nav_action_def snap_action_def done_action_def eval_nat_numeral

lemma with_store_fields:
  "JSON_parse (with_store E) = JSON_parse E"
  "JSON_stringify (with_store E) = JSON_stringify E"
  "String_of (with_store E) = String_of E"
  "callGeminiAPI (with_store E) a prompt h (sessions, x) =
     (case callGeminiAPI E a prompt h x of (r, x1) \<Rightarrow> (r, (sessions, x1)))"
  "callTool (with_store E) request (sessions, x) =
     (case callTool E request x of (r, x1) \<Rightarrow> (r, (sessions, x1)))"
  "listTools (with_store E) (sessions, x) =
     (case listTools E x of (r, x1) \<Rightarrow> (r, (sessions, x1)))"
  "fn_body (with_store E) = fn_body E"
  "page_script (with_store E) = page_script E"
  "currentLevel (with_store E) = currentLevel E"
  "ENABLE_JSON (with_store E) = ENABLE_JSON E"
  by (simp_all add: with_store_def)

lemma parse_with_store: "parseGeminiResponse (with_store E) text = parseGeminiResponse E text"
  by (simp add: parseGeminiResponse_def with_store_fields cong: option.case_cong)

lemmas store_eval = background_session_def settle_session_def store_update_def updateSession_def
  makeSession_def with_store_fields parse_with_store runTaskSession_def effective_maxIterations_def
  initial_state_def stopped_message_def

lemma alternating_fields:
  "JSON_parse (alternating_env t) = demo_parse"
  "JSON_stringify (alternating_env t) = demo_stringify"
  "String_of (alternating_env t) = demo_String"
  "callGeminiAPI (alternating_env t) a prompt h n = (Inr (if even n then nav_text else snap_text), Suc n)"
  "callTool (alternating_env t) request n = (t request, n)"
  "currentLevel (alternating_env t) = Level_info"
  "ENABLE_JSON (alternating_env t) = False"
  by (simp_all add: alternating_env_def scripted_env_def)

lemma alternating_parse:
  "parseGeminiResponse (alternating_env t) nav_text = nav_action"
  "parseGeminiResponse (alternating_env t) snap_text = snap_action"
  by (simp_all add: parseGeminiResponse_def match_nav match_snap alternating_fields demo_parse_def
      texts_distinct nav_action_def snap_action_def)

lemma alternating_planned:
  "planned_action (alternating_env t) a task (st, n) = Some (alternating_action n)"
  by (simp add: planned_action_def alternating_fields alternating_parse alternating_action_def)

lemma alternating_call_tool: "is_call_tool (alternating_action n)"
  by (simp add: alternating_action_def is_call_tool_def nav_action_def snap_action_def)

lemma alternating_converts: "converts (get_prop (alternating_action n) ''tool'')"
  by (simp add: alternating_action_def nav_action_def snap_action_def)

lemma alternating_has_signature: "action_signature (alternating_env t) (alternating_action n) \<noteq> None"
  by (simp add: action_signature_def alternating_converts)

lemma alternating_signatures:
  "action_signature (alternating_env t) (alternating_action (Suc n))
     \<noteq> action_signature (alternating_env t) (alternating_action n)"
  by (simp add: alternating_action_def action_signature_def alternating_fields nav_action_def
      snap_action_def demo_String_def)

lemma alternating_world:
  "session_iteration (alternating_env t) (new_agent k) (capped m) task st n = (out, st1, w1)
   \<Longrightarrow> w1 = Suc n"
  by (auto simp: session_iteration_def Let_def alternating_fields no_catalog_ref executeTool_def
      capped_def split: prod.splits sum.splits if_splits)

section \<open>The backend detector's contract\<close>

lemma probe_ports_result:
  "fst (probe_ports net ports) = map_option endpoint_of (find (answers net) ports)"
  by (induction ports) (auto simp: answers_def split: probe_reply.splits)

lemma probe_ports_log:
  "snd (probe_ports net ports) =
     map probe_of (takeWhile (\<lambda>p. \<not> answers net p) ports @ take 1 (dropWhile (\<lambda>p. \<not> answers net p) ports))"
  by (induction ports) (auto simp: answers_def split: probe_reply.splits)

lemma prefix_through_first:
  "takeWhile P xs @ take 1 (dropWhile P xs) = take (Suc (length (takeWhile P xs))) xs"
  by (induction xs) auto

lemma find_None_all_probed:
  "find P xs = None \<Longrightarrow> takeWhile (\<lambda>p. \<not> P p) xs @ take 1 (dropWhile (\<lambda>p. \<not> P p) xs) = xs"
  by (induction xs) (auto split: if_splits)

lemma string_of_nat_9222: "string_of_nat 9222 = ''9222''"
  by (simp add: string_of_nat.simps digit_char_def)

lemma string_of_nat_9223: "string_of_nat 9223 = ''9223''"
  by (simp add: string_of_nat.simps digit_char_def)

lemma string_of_nat_9224: "string_of_nat 9224 = ''9224''"
  by (simp add: string_of_nat.simps digit_char_def)

lemma string_of_nat_9225: "string_of_nat 9225 = ''9225''"
  by (simp add: string_of_nat.simps digit_char_def)

lemmas port_strings = string_of_nat_9222 string_of_nat_9223 string_of_nat_9224 string_of_nat_9225

text \<open>
  C8, as the code has it. The probes issued are GETs of \<open>/json/version\<close> with a 500 ms
  timeout on ports 9222, 9223, 9224, 9225, in that order, each port at most once, up to
  and including the first port that answers 2xx \<^emph>\<open>with a body that parses as JSON\<close>; the
  result is that port's endpoint. When no port does, all four have been probed exactly
  once and the result is \<open>None\<close>, a value and not an error.
\<close>

theorem detect_contract:
  "fst (findChromeCDPEndpoint net) = map_option endpoint_of (find (answers net) [9222, 9223, 9224, 9225])
   \<and> snd (findChromeCDPEndpoint net) =
       map probe_of (takeWhile (\<lambda>p. \<not> answers net p) [9222, 9223, 9224, 9225]
                     @ take 1 (dropWhile (\<lambda>p. \<not> answers net p) [9222, 9223, 9224, 9225]))
   \<and> map probe_of [9222, 9223, 9224, 9225] =
       [\<lparr> req_method = GET, req_url = ''http://localhost:9222/json/version'', req_timeout_ms = 500 \<rparr>,
        \<lparr> req_method = GET, req_url = ''http://localhost:9223/json/version'', req_timeout_ms = 500 \<rparr>,
        \<lparr> req_method = GET, req_url = ''http://localhost:9224/json/version'', req_timeout_ms = 500 \<rparr>,
        \<lparr> req_method = GET, req_url = ''http://localhost:9225/json/version'', req_timeout_ms = 500 \<rparr>]
   \<and> distinct (snd (findChromeCDPEndpoint net))
   \<and> (find (answers net) [9222, 9223, 9224, 9225] = None) =
       (fst (findChromeCDPEndpoint net) = None \<and>
        snd (findChromeCDPEndpoint net) = map probe_of [9222, 9223, 9224, 9225])"
proof -
  let ?ps = "[9222, 9223, 9224, 9225] :: nat list"
  have res: "fst (findChromeCDPEndpoint net) = map_option endpoint_of (find (answers net) ?ps)"
    by (simp only: findChromeCDPEndpoint_def possiblePorts_def probe_ports_result)
  have log: "snd (findChromeCDPEndpoint net) =
      map probe_of (takeWhile (\<lambda>p. \<not> answers net p) ?ps @ take 1 (dropWhile (\<lambda>p. \<not> answers net p) ?ps))"
    by (simp only: findChromeCDPEndpoint_def possiblePorts_def probe_ports_log)
  have urls: "map probe_of ?ps =
       [\<lparr> req_method = GET, req_url = ''http://localhost:9222/json/version'', req_timeout_ms = 500 \<rparr>,
        \<lparr> req_method = GET, req_url = ''http://localhost:9223/json/version'', req_timeout_ms = 500 \<rparr>,
        \<lparr> req_method = GET, req_url = ''http://localhost:9224/json/version'', req_timeout_ms = 500 \<rparr>,
        \<lparr> req_method = GET, req_url = ''http://localhost:9225/json/version'', req_timeout_ms = 500 \<rparr>]"
    by (simp add: probe_of_def port_strings)
  have "distinct (map probe_of ?ps)"
    unfolding urls by simp
  then have "distinct (take n (map probe_of ?ps))" for n
    by (rule distinct_take)
  then have dist: "distinct (snd (findChromeCDPEndpoint net))"
    unfolding log prefix_through_first take_map .
  have all: "find (answers net) ?ps = None \<Longrightarrow>
      takeWhile (\<lambda>p. \<not> answers net p) ?ps @ take 1 (dropWhile (\<lambda>p. \<not> answers net p) ?ps) = ?ps"
    by (rule find_None_all_probed)
  have none: "(find (answers net) ?ps = None) =
       (fst (findChromeCDPEndpoint net) = None \<and> snd (findChromeCDPEndpoint net) = map probe_of ?ps)"
    unfolding res log using all by auto
  from res log urls dist none show ?thesis by blast
qed

text \<open>
  C8 as stated fails: a port whose response is 2xx but whose body is not JSON is skipped.
  Here port 9222 answers 200, so it is the first port whose response is 2xx, and the
  detector still returns \<open>None\<close> after probing all four ports.
\<close>

theorem detect_2xx_counterexample:
  "net_plain_200 (probe_of 9222) = Reply 200 False
   \<and> response_ok 200
   \<and> fst (findChromeCDPEndpoint net_plain_200) = None
   \<and> length (snd (findChromeCDPEndpoint net_plain_200)) = 4"
  by (simp add: findChromeCDPEndpoint_def possiblePorts_def net_plain_200_def probe_of_def
      response_ok_def port_strings)


section \<open>The session loop: one pass\<close>

lemma session_iteration_prompt:
  "session_iteration E a opts task st w = (out, st', w') \<Longrightarrow>
   prompts_sent st' = prompts_sent st @ [starter_prompt task @ contextSuffix E (lastToolResult st)]"
  by (auto simp: session_iteration_def Let_def split: prod.splits sum.splits if_splits)

lemma session_iteration_Continue_trace:
  "session_iteration E a opts task st w = (Continue, st', w') \<Longrightarrow>
   (\<exists>s p. trace st' = trace st @ [s] \<and> step_iteration s = Suc (iteration st)
      \<and> tools_executed st' = tools_executed st @ [step_call s]
      \<and> actions_seen st' = actions_seen st @ [p] \<and> is_call_tool p
      \<and> planned_action E a task (st, w) = Some p
      \<and> step_tool s = get_prop p ''tool'')"
  by (auto simp: session_iteration_def Let_def step_call_def is_call_tool_def planned_action_def
      split: prod.splits sum.splits if_splits)



section \<open>The trace and the tool calls executed\<close>

lemma loop_inv_initial: "loop_inv initial_state"
  by (simp add: loop_inv_def initial_state_def)

lemma loop_inv_step:
  assumes "loop_inv st" "session_iteration E a opts task st w = (Continue, st', w')"
  shows "loop_inv st'"
proof -
  from session_iteration_Continue_trace[OF assms(2)] obtain s p where
    s: "trace st' = trace st @ [s]" "step_iteration s = Suc (iteration st)"
       "tools_executed st' = tools_executed st @ [step_call s]"
       "actions_seen st' = actions_seen st @ [p]" "is_call_tool p"
    by blast
  have it: "iteration st' = Suc (iteration st)"
    using session_iteration_Continue[OF assms(2)] .
  have pr: "prompts_sent st' = prompts_sent st @ [starter_prompt task @ contextSuffix E (lastToolResult st)]"
    using session_iteration_prompt[OF assms(2)] .
  show ?thesis
    using assms(1) s it pr by (simp add: loop_inv_def)
qed






section \<open>Passes through the loop\<close>


lemma after_passes_Suc_end:
  "after_passes E a opts task (Suc n) sw =
     (case after_passes E a opts task n sw of
        None \<Rightarrow> None
      | Some sw0 \<Rightarrow>
          (case session_iteration E a opts task (fst sw0) (snd sw0) of
             (Continue, st1, w1) \<Rightarrow> Some (st1, w1)
           | (Return r, st1, w1) \<Rightarrow> None))"
proof (induction n arbitrary: sw)
  case 0
  show ?case by (simp split: prod.splits outcome.splits)
next
  case (Suc n)
  obtain out st1 w1 where it: "session_iteration E a opts task (fst sw) (snd sw) = (out, st1, w1)"
    by (cases "session_iteration E a opts task (fst sw) (snd sw)") auto
  show ?case
  proof (cases out)
    case Continue
    have l: "after_passes E a opts task (Suc (Suc n)) sw = after_passes E a opts task (Suc n) (st1, w1)"
      by (subst after_passes.simps(2)) (simp only: it Continue prod.case outcome.case)
    have r: "after_passes E a opts task (Suc n) sw = after_passes E a opts task n (st1, w1)"
      by (subst after_passes.simps(2)) (simp only: it Continue prod.case outcome.case)
    show ?thesis
      unfolding l r by (rule Suc.IH)
  next
    case (Return r0)
    have l: "after_passes E a opts task (Suc (Suc n)) sw = None"
      by (subst after_passes.simps(2)) (simp only: it Return prod.case outcome.case)
    have r: "after_passes E a opts task (Suc n) sw = None"
      by (subst after_passes.simps(2)) (simp only: it Return prod.case outcome.case)
    show ?thesis
      unfolding l r by simp
  qed
qed

lemma after_passes_iteration:
  "after_passes E a opts task n sw = Some sw' \<Longrightarrow> iteration (fst sw') = iteration (fst sw) + n"
proof (induction n arbitrary: sw)
  case 0
  then show ?case by simp
next
  case (Suc n)
  then show ?case
    by (auto split: prod.splits outcome.splits dest!: session_iteration_Continue)
qed

lemma after_passes_inv:
  "after_passes E a opts task n sw = Some sw' \<Longrightarrow> loop_inv (fst sw) \<Longrightarrow> loop_inv (fst sw')"
proof (induction n arbitrary: sw)
  case 0
  then show ?case by simp
next
  case (Suc n)
  then show ?case
    by (auto split: prod.splits outcome.splits dest: loop_inv_step)
qed

lemma loop_split:
  "after_passes E a opts task n (st, w) = Some (st', w') \<Longrightarrow> iteration st + n \<le> nat \<lceil>N\<rceil> \<Longrightarrow>
   run_loop E a opts task N st w = run_loop E a opts task N st' w'"
proof (induction n arbitrary: st w)
  case 0
  then show ?case by simp
next
  case (Suc n)
  from Suc.prems(1) obtain st1 w1 where
    it: "session_iteration E a opts task st w = (Continue, st1, w1)"
    and rest: "after_passes E a opts task n (st1, w1) = Some (st', w')"
    by (auto split: prod.splits outcome.splits)
  have "iteration st1 = Suc (iteration st)"
    using session_iteration_Continue[OF it] .
  with Suc.prems(2) have le: "iteration st1 + n \<le> nat \<lceil>N\<rceil>" and lt: "of_nat (iteration st) < N"
    by (simp_all add: below_cap)
  have "run_loop E a opts task N st w = run_loop E a opts task N st1 w1"
    using it lt by (simp add: run_loop.simps[of E a opts task N st w])
  also have "\<dots> = run_loop E a opts task N st' w'"
    using Suc.IH[OF rest le] .
  finally show ?case .
qed

lemma signature_converts: "(action_signature E p \<noteq> None) = converts (get_prop p ''tool'')"
  by (simp add: action_signature_def)

lemma call_tool_pass:
  assumes "planned_action E a task (st, w) = Some p" "is_call_tool p"
      and "session_iteration E a opts task st w = (out, st1, w1)"
      and "converts (get_prop p ''tool'')"
  shows "previousActionSignature st1 = action_signature E p
       \<and> repeatCount st1 = guard_count E st p
       \<and> (out = Continue) = (guard_count E st p < 2)
       \<and> actions_seen st1 = actions_seen st @ [p]
       \<and> (2 \<le> guard_count E st p \<longrightarrow>
            out = Return \<lparr> success = True, message = JStr stopped_message, result_trace = trace st \<rparr>
            \<and> tools_executed st1 = tools_executed st \<and> trace st1 = trace st)"
  using assms
  by (auto simp: session_iteration_def Let_def is_call_tool_def planned_action_def guard_count_def
      action_signature_def split: prod.splits sum.splits if_splits)

lemma pass_between:
  assumes "after_passes E a opts task n sw = Some sw1"
      and "after_passes E a opts task (Suc n) sw = Some sw2"
  shows "session_iteration E a opts task (fst sw1) (snd sw1) = (Continue, fst sw2, snd sw2)"
  using assms(2) unfolding after_passes_Suc_end assms(1)
  by (auto split: prod.splits outcome.splits)

lemma settle_finished:
  "sessions sid \<noteq> None \<Longrightarrow>
   \<exists>s. settle_session sid (Inr r) sessions sid = Some s \<and> sess_status s = ''finished''
       \<and> sess_result s = Some r \<and> sess_trace s = result_trace r"
  by (auto simp: settle_session_def updateSession_def)

text \<open>
  C1, as the code has it. Suppose the session reaches pass \<open>i + 1\<close>, and in that pass
  and the two after it the planning service answers with \<open>call_tool\<close> actions of one
  and the same signature \<open>sig\<close> (the second and third pass being reached, and all
  three within the iteration budget). An action has a signature when its tool has a
  string form. Then \<open>runTaskSession\<close> returns in the third of
  them with the message \<open>Stopped: repeated action detected (no progress).\<close> and
  \<open>success: true\<close>. The third occurrence is not executed: the trace is the trace
  before the first occurrence followed by exactly the two entries of the first two, and
  the tool calls made are those made before the third pass. The bridge's background task
  records the session with status \<open>finished\<close>, not \<open>error\<close>.
\<close>

theorem loop_guard:
  assumes reach: "after_passes E a options task i (initial_state, w) = Some sw1"
      and first: "planned_action E a task sw1 = Some p1" "is_call_tool p1" "action_signature E p1 = Some sig"
      and second: "after_passes E a options task (i + 1) (initial_state, w) = Some sw2"
                  "planned_action E a task sw2 = Some p2" "is_call_tool p2" "action_signature E p2 = Some sig"
      and third: "after_passes E a options task (i + 2) (initial_state, w) = Some sw3"
                 "planned_action E a task sw3 = Some p3" "is_call_tool p3" "action_signature E p3 = Some sig"
      and budget: "of_nat (i + 2) < effective_maxIterations options"
      and run: "runTaskSession E a task options w = (r, st, w')"
  shows "success r \<and> message r = JStr stopped_message
       \<and> (\<exists>s1 s2. result_trace r = trace (fst sw1) @ [s1, s2]
             \<and> step_tool s1 = get_prop p1 ''tool'' \<and> step_iteration s1 = i + 1
             \<and> step_tool s2 = get_prop p2 ''tool'' \<and> step_iteration s2 = i + 2)
       \<and> length (result_trace r) = i + 2
       \<and> tools_executed st = tools_executed (fst sw3)
       \<and> length (tools_executed st) = i + 2
       \<and> length (prompts_sent st) = i + 3
       \<and> actions_seen st = actions_seen (fst sw3) @ [p3]
       \<and> (sessions sid \<noteq> None \<longrightarrow>
            (\<exists>s. settle_session sid (Inr r) sessions sid = Some s \<and> sess_status s = ''finished''
               \<and> sess_result s = Some r \<and> sess_trace s = result_trace r))"
proof -
  let ?M = "effective_maxIterations options"
  have it1: "session_iteration E a options task (fst sw1) (snd sw1) = (Continue, fst sw2, snd sw2)"
    using pass_between[OF reach] second(1) by simp
  have it2: "session_iteration E a options task (fst sw2) (snd sw2) = (Continue, fst sw3, snd sw3)"
    using pass_between[OF second(1)] third(1) by (simp add: numeral_2_eq_2)
  obtain out3 st3 w3 where it3: "session_iteration E a options task (fst sw3) (snd sw3) = (out3, st3, w3)"
    by (cases "session_iteration E a options task (fst sw3) (snd sw3)") auto
  have bud: "i + 2 < nat \<lceil>?M\<rceil>"
    using budget unfolding below_cap .
  have cv: "converts (get_prop p1 ''tool'')" "converts (get_prop p2 ''tool'')"
           "converts (get_prop p3 ''tool'')"
    using signature_converts[of E p1] signature_converts[of E p2] signature_converts[of E p3]
      first(3) second(4) third(4) by simp_all
  have g1: "previousActionSignature (fst sw2) = Some sig" "repeatCount (fst sw2) = guard_count E (fst sw1) p1"
           "guard_count E (fst sw1) p1 < 2"
    using call_tool_pass[OF _ first(2) it1 cv(1)] first(1,3) by auto
  have g2: "previousActionSignature (fst sw3) = Some sig" "repeatCount (fst sw3) = guard_count E (fst sw2) p2"
           "guard_count E (fst sw2) p2 < 2"
    using call_tool_pass[OF _ second(3) it2 cv(2)] second(2,4) by auto
  have c2: "guard_count E (fst sw2) p2 = guard_count E (fst sw1) p1 + 1"
    using g1 second(4) by (simp add: guard_count_def)
  have c3: "guard_count E (fst sw3) p3 = 2"
    using g2 c2 third(4) by (simp add: guard_count_def)
  have stop: "out3 = Return \<lparr> success = True, message = JStr stopped_message, result_trace = trace (fst sw3) \<rparr>"
    and ex3: "tools_executed st3 = tools_executed (fst sw3)"
    and seen3: "actions_seen st3 = actions_seen (fst sw3) @ [p3]"
    using call_tool_pass[OF _ third(3) it3 cv(3)] third(2) c3 by auto
  have pr3: "prompts_sent st3 = prompts_sent (fst sw3) @ [starter_prompt task @ contextSuffix E (lastToolResult (fst sw3))]"
    using session_iteration_prompt[OF it3] .
  have i3: "iteration (fst sw3) = i + 2"
    using after_passes_iteration[OF third(1)] by (simp add: initial_state_def)
  have "run_loop E a options task ?M initial_state w = run_loop E a options task ?M (fst sw3) (snd sw3)"
    using loop_split[of E a options task "i + 2" initial_state w "fst sw3" "snd sw3" ?M] third(1) bud
    by (simp add: initial_state_def)
  also have "\<dots> = (\<lparr> success = True, message = JStr stopped_message, result_trace = trace (fst sw3) \<rparr>, st3, w3)"
    using it3 stop i3 budget by (simp add: run_loop.simps[of E a options task ?M "fst sw3" "snd sw3"])
  finally have res: "r = \<lparr> success = True, message = JStr stopped_message, result_trace = trace (fst sw3) \<rparr>"
    and st: "st = st3"
    using run by (simp_all add: runTaskSession_def)
  from session_iteration_Continue_trace[OF it1] first(1) obtain s1 where
    s1: "trace (fst sw2) = trace (fst sw1) @ [s1]" "step_iteration s1 = Suc (iteration (fst sw1))"
        "step_tool s1 = get_prop p1 ''tool''"
    by auto
  from session_iteration_Continue_trace[OF it2] second(2) obtain s2 where
    s2: "trace (fst sw3) = trace (fst sw2) @ [s2]" "step_iteration s2 = Suc (iteration (fst sw2))"
        "step_tool s2 = get_prop p2 ''tool''"
    by auto
  have i1: "iteration (fst sw1) = i"
    using after_passes_iteration[OF reach] by (simp add: initial_state_def)
  have i2: "iteration (fst sw2) = i + 1"
    using after_passes_iteration[OF second(1)] by (simp add: initial_state_def)
  have inv3: "loop_inv (fst sw3)"
    using after_passes_inv[OF third(1)] loop_inv_initial by simp
  have len_tr: "length (trace (fst sw3)) = i + 2"
    using inv3 i3 by (simp add: loop_inv_def)
  have len_ex: "length (tools_executed (fst sw3)) = i + 2"
    using inv3 len_tr by (metis length_map loop_inv_def)
  have len_pr: "length (prompts_sent st3) = i + 3"
    using inv3 len_tr pr3 by (simp add: loop_inv_def)
  have tr: "result_trace r = trace (fst sw1) @ [s1, s2]"
    using res s1(1) s2(1) by simp
  show ?thesis
    using res st tr s1 s2 i1 i2 len_tr len_ex len_pr ex3 seen3 settle_finished[of sessions sid r]
    by auto
qed



lemma all_passes_continue:
  assumes always: "\<forall>i < M. \<exists>sw p.
        after_passes E a options task i (initial_state, w) = Some sw
        \<and> planned_action E a task sw = Some p \<and> is_call_tool p
        \<and> converts (get_prop p ''tool'') \<and> guard_count E (fst sw) p < 2"
  shows "n \<le> M \<Longrightarrow> \<exists>sw. after_passes E a options task n (initial_state, w) = Some sw"
proof (induction n)
  case 0
  show ?case by simp
next
  case (Suc n)
  then have "n < M" by simp
  with always obtain sw p where
    sw: "after_passes E a options task n (initial_state, w) = Some sw"
    and p: "planned_action E a task sw = Some p" "is_call_tool p" "guard_count E (fst sw) p < 2"
           "converts (get_prop p ''tool'')"
    by blast
  obtain out st1 w1 where it: "session_iteration E a options task (fst sw) (snd sw) = (out, st1, w1)"
    by (cases "session_iteration E a options task (fst sw) (snd sw)") auto
  have "out = Continue"
    using call_tool_pass[OF _ p(2) it p(4)] p(1,3) by simp
  with it have "after_passes E a options task (Suc n) (initial_state, w) = Some (st1, w1)"
    unfolding after_passes_Suc_end sw by simp
  then show ?case by blast
qed

lemma number_text_nat: "number_text E (of_nat n) = string_of_nat n"
  by (simp add: number_text_def)

lemma cap_reached:
  assumes always: "\<forall>i < nat \<lceil>effective_maxIterations options\<rceil>. \<exists>sw p.
        after_passes E a options task i (initial_state, w) = Some sw
        \<and> planned_action E a task sw = Some p \<and> is_call_tool p
        \<and> converts (get_prop p ''tool'') \<and> guard_count E (fst sw) p < 2"
      and run: "runTaskSession E a task options w = (r, st, w')"
  shows "r = \<lparr> success = False,
               message = JStr (''Max iterations ('' @ number_text E (effective_maxIterations options)
                               @ '') reached''),
               result_trace = trace st \<rparr>
       \<and> length (trace st) = nat \<lceil>effective_maxIterations options\<rceil>
       \<and> length (tools_executed st) = nat \<lceil>effective_maxIterations options\<rceil>
       \<and> length (prompts_sent st) = nat \<lceil>effective_maxIterations options\<rceil>
       \<and> list_all is_call_tool (actions_seen st)"
proof -
  let ?M = "effective_maxIterations options"
  let ?n = "nat \<lceil>?M\<rceil>"
  obtain stM wM where sw: "after_passes E a options task ?n (initial_state, w) = Some (stM, wM)"
    using all_passes_continue[OF always, of ?n] by auto
  have iM: "iteration stM = ?n"
    using after_passes_iteration[OF sw] by (simp add: initial_state_def)
  have inv: "loop_inv stM"
    using after_passes_inv[OF sw] loop_inv_initial by simp
  have "run_loop E a options task ?M initial_state w = run_loop E a options task ?M stM wM"
    using loop_split[OF sw] by (simp add: initial_state_def)
  also have "\<dots> = (\<lparr> success = False,
                       message = JStr (''Max iterations ('' @ number_text E ?M @ '') reached''),
                       result_trace = trace stM \<rparr>, stM, wM)"
    using iM by (simp add: run_loop.simps[of E a options task ?M stM wM] below_cap)
  finally have "(r, st, w') = (\<lparr> success = False,
                       message = JStr (''Max iterations ('' @ number_text E ?M @ '') reached''),
                       result_trace = trace stM \<rparr>, stM, wM)"
    using run by (simp only: runTaskSession_def)
  then have res: "r = \<lparr> success = False,
                       message = JStr (''Max iterations ('' @ number_text E ?M @ '') reached''),
                       result_trace = trace stM \<rparr>" and st: "st = stM"
    by (simp_all only: prod.inject)
  have len_tr: "length (trace stM) = ?n"
    using inv iM by (simp add: loop_inv_def)
  have len_ex: "length (tools_executed stM) = ?n"
    using inv len_tr by (metis length_map loop_inv_def)
  have len_pr: "length (prompts_sent stM) = ?n"
    using inv len_tr by (simp add: loop_inv_def)
  have seen: "list_all is_call_tool (actions_seen stM)"
    using inv by (simp add: loop_inv_def)
  show ?thesis
    using res st len_tr len_ex len_pr seen by simp
qed

text \<open>
  C2, as the code has it. Let the cap be the effective one: \<open>maxIterations\<close> when it
  is a number other than 0, and 10 when it is absent or 0. The loop makes a pass as long
  as the count of passes made is below the cap, so the passes a cap allows are the least
  whole number not below it: \<open>N\<close> for a whole number \<open>N\<close> of 1 or more, 3 for 2.5,
  none for a negative cap. If in every pass that the cap allows the planning service
  answers with a \<open>call_tool\<close> action whose tool has a string form, and the repeat
  counter stays below 2, then \<open>runTaskSession\<close> returns a failure
  (\<open>success: false\<close>) with the message \<open>Max iterations (cap) reached\<close> and a trace of
  exactly that many entries, after as many tool calls and planning calls; for a whole
  number \<open>N\<close> of 1 or more that is exactly \<open>N\<close> entries and the digits of \<open>N\<close> in
  the message. The bridge's background task then records the session with status
  \<open>finished\<close> and this result: it writes \<open>error\<close> only when \<open>runTaskSession\<close>
  throws.
\<close>

theorem iteration_cap:
  assumes always: "\<forall>i < nat \<lceil>effective_maxIterations options\<rceil>. \<exists>sw p.
        after_passes E a options task i (initial_state, w) = Some sw
        \<and> planned_action E a task sw = Some p \<and> is_call_tool p
        \<and> converts (get_prop p ''tool'') \<and> guard_count E (fst sw) p < 2"
      and run: "runTaskSession E a task options w = (r, st, w')"
  shows "\<not> success r
       \<and> message r = JStr (''Max iterations ('' @ number_text E (effective_maxIterations options)
                            @ '') reached'')
       \<and> length (result_trace r) = nat \<lceil>effective_maxIterations options\<rceil>
       \<and> length (tools_executed st) = nat \<lceil>effective_maxIterations options\<rceil>
       \<and> length (prompts_sent st) = nat \<lceil>effective_maxIterations options\<rceil>
       \<and> (maxIterations options = Some (of_nat N) \<and> 0 < N \<longrightarrow>
            effective_maxIterations options = of_nat N
            \<and> message r = JStr (''Max iterations ('' @ string_of_nat N @ '') reached'')
            \<and> length (result_trace r) = N
            \<and> length (tools_executed st) = N
            \<and> length (prompts_sent st) = N)
       \<and> (maxIterations options = Some 0 \<longrightarrow> effective_maxIterations options = 10)
       \<and> (maxIterations options = None \<longrightarrow> effective_maxIterations options = 10)
       \<and> (sessions sid \<noteq> None \<longrightarrow>
            (\<exists>s. settle_session sid (Inr r) sessions sid = Some s \<and> sess_status s = ''finished''
               \<and> sess_result s = Some r \<and> sess_trace s = result_trace r))"
proof -
  note cap = cap_reached[OF always run]
  have tr: "result_trace r = trace st"
    by (subst conjunct1[OF cap]) simp
  have fail: "\<not> success r"
    by (subst conjunct1[OF cap]) simp
  have msg: "message r = JStr (''Max iterations ('' @ number_text E (effective_maxIterations options)
                            @ '') reached'')"
    by (subst conjunct1[OF cap]) simp
  have whole: "effective_maxIterations options = of_nat N
            \<and> message r = JStr (''Max iterations ('' @ string_of_nat N @ '') reached'')
            \<and> length (result_trace r) = N
            \<and> length (tools_executed st) = N
            \<and> length (prompts_sent st) = N"
    if h: "maxIterations options = Some (of_nat N) \<and> 0 < N"
  proof -
    from h have eff: "effective_maxIterations options = of_nat N"
      by (simp add: effective_maxIterations_def)
    then have n: "nat \<lceil>effective_maxIterations options\<rceil> = N"
      by simp
    show ?thesis
      using cap tr msg eff n by (simp add: number_text_nat)
  qed
  have zero: "effective_maxIterations options = 10" if "maxIterations options = Some 0"
    using that by (simp add: effective_maxIterations_def)
  have none: "effective_maxIterations options = 10" if "maxIterations options = None"
    using that by (simp add: effective_maxIterations_def)
  show ?thesis
    using cap tr fail msg whole zero none settle_finished[of sessions sid r]
    by (intro conjI impI) simp_all
qed

text \<open>The alternating planning service never trips the guard.\<close>

lemma alternating_passes:
  "\<exists>st. after_passes (alternating_env t) (new_agent k) (capped m) task i (initial_state, 0) = Some (st, i)
      \<and> previousActionSignature st =
          (if i = 0 then None else action_signature (alternating_env t) (alternating_action (i - 1)))
      \<and> repeatCount st = 0"
proof (induction i)
  case 0
  show ?case by (simp add: initial_state_def)
next
  case (Suc i)
  let ?E = "alternating_env t"
  let ?a = "new_agent k"
  from Suc obtain st where
    st: "after_passes ?E ?a (capped m) task i (initial_state, 0) = Some (st, i)"
    and prev: "previousActionSignature st =
          (if i = 0 then None else action_signature ?E (alternating_action (i - 1)))"
    by blast
  obtain out st1 w1 where it: "session_iteration ?E ?a (capped m) task st i = (out, st1, w1)"
    by (cases "session_iteration ?E ?a (capped m) task st i") auto
  have w1: "w1 = Suc i"
    using alternating_world[OF it] .
  have differs: "previousActionSignature st \<noteq> action_signature ?E (alternating_action i)"
  proof (cases i)
    case 0
    with prev alternating_has_signature[of t 0] show ?thesis by auto
  next
    case (Suc j)
    with prev alternating_signatures[of t j] show ?thesis by simp
  qed
  then have count: "guard_count ?E st (alternating_action i) = 0"
    using alternating_has_signature[of t i] by (auto simp: guard_count_def)
  have pass: "previousActionSignature st1 = action_signature ?E (alternating_action i)"
             "repeatCount st1 = 0" "out = Continue"
    using call_tool_pass[OF alternating_planned alternating_call_tool it alternating_converts] count
    by simp_all
  have "after_passes ?E ?a (capped m) task (Suc i) (initial_state, 0) = Some (st1, Suc i)"
    unfolding after_passes_Suc_end st using it pass(3) w1 by simp
  with pass show ?case by simp
qed

lemma alternating_always:
  "\<forall>i < M. \<exists>sw p.
     after_passes (alternating_env t) (new_agent k) (capped m) task i (initial_state, 0) = Some sw
     \<and> planned_action (alternating_env t) (new_agent k) task sw = Some p
     \<and> is_call_tool p \<and> converts (get_prop p ''tool'')
     \<and> guard_count (alternating_env t) (fst sw) p < 2"
proof (intro allI impI)
  fix i
  let ?E = "alternating_env t"
  obtain st where
    st: "after_passes ?E (new_agent k) (capped m) task i (initial_state, 0) = Some (st, i)"
    and prev: "previousActionSignature st =
          (if i = 0 then None else action_signature ?E (alternating_action (i - 1)))"
    using alternating_passes[of t k m task i] by blast
  have differs: "previousActionSignature st \<noteq> action_signature ?E (alternating_action i)"
  proof (cases i)
    case 0
    with prev alternating_has_signature[of t 0] show ?thesis by auto
  next
    case (Suc j)
    with prev alternating_signatures[of t j] show ?thesis by simp
  qed
  then have "guard_count ?E st (alternating_action i) < 2"
    using alternating_has_signature[of t i] by (auto simp: guard_count_def)
  with st alternating_planned[of t "new_agent k" task st i] alternating_call_tool[of i]
    alternating_converts[of i]
  show "\<exists>sw p.
     after_passes ?E (new_agent k) (capped m) task i (initial_state, 0) = Some sw
     \<and> planned_action ?E (new_agent k) task sw = Some p
     \<and> is_call_tool p \<and> converts (get_prop p ''tool'')
     \<and> guard_count ?E (fst sw) p < 2"
    by (intro exI[of _ "(st, i)"] exI[of _ "alternating_action i"]) simp
qed

section \<open>Runs for the loop guard and the iteration cap\<close>

text \<open>
  A run for C1: the planning service asks for the same navigation three times. The
  first two are executed, the third stops the session.
\<close>

theorem loop_guard_witness:
  "\<exists>sw2 sw3 r st w'.
     after_passes (scripted_env [nav_text, nav_text, nav_text] tool_ok) (new_agent ''key'') no_options ''go'' 0
         (initial_state, 0) = Some (initial_state, 0)
   \<and> planned_action (scripted_env [nav_text, nav_text, nav_text] tool_ok) (new_agent ''key'') ''go''
         (initial_state, 0) = Some nav_action
   \<and> after_passes (scripted_env [nav_text, nav_text, nav_text] tool_ok) (new_agent ''key'') no_options ''go'' (0 + 1)
         (initial_state, 0) = Some sw2
   \<and> planned_action (scripted_env [nav_text, nav_text, nav_text] tool_ok) (new_agent ''key'') ''go'' sw2
         = Some nav_action
   \<and> after_passes (scripted_env [nav_text, nav_text, nav_text] tool_ok) (new_agent ''key'') no_options ''go'' (0 + 2)
         (initial_state, 0) = Some sw3
   \<and> planned_action (scripted_env [nav_text, nav_text, nav_text] tool_ok) (new_agent ''key'') ''go'' sw3
         = Some nav_action
   \<and> is_call_tool nav_action
   \<and> action_signature (scripted_env [nav_text, nav_text, nav_text] tool_ok) nav_action
         = Some ''browser_navigate|{\"url\":\"https://example.com\"}''
   \<and> of_nat (0 + 2) < effective_maxIterations no_options
   \<and> runTaskSession (scripted_env [nav_text, nav_text, nav_text] tool_ok) (new_agent ''key'') ''go''
         no_options 0 = (r, st, w')
   \<and> success r \<and> message r = JStr stopped_message
   \<and> length (result_trace r) = 2
   \<and> map step_tool (result_trace r) = [JStr ''browser_navigate'', JStr ''browser_navigate'']
   \<and> length (tools_executed st) = 2
   \<and> length (prompts_sent st) = 3
   \<and> (\<exists>s. settle_session ''s1'' (Inr r) (makeSession ''s1'' Map.empty) ''s1'' = Some s
          \<and> sess_status s = ''finished'' \<and> sess_result s = Some r)"
proof -
  let ?E = "scripted_env [nav_text, nav_text, nav_text] tool_ok"
  let ?a = "new_agent ''key''"
  let ?sig = "''browser_navigate|{\"url\":\"https://example.com\"}''"
  have a1: "after_passes ?E ?a no_options ''go'' 0 (initial_state, 0) = Some (initial_state, 0)"
    by simp
  have p1: "planned_action ?E ?a ''go'' (initial_state, 0) = Some nav_action"
    by (simp add: planned_action_def initial_state_def demo_eval2)
  obtain sw2 where a2: "after_passes ?E ?a no_options ''go'' (0 + 1) (initial_state, 0) = Some sw2"
    by (simp add: initial_state_def demo_eval2)
  have p2: "planned_action ?E ?a ''go'' sw2 = Some nav_action"
    using a2 by (auto simp: planned_action_def initial_state_def demo_eval2)
  obtain sw3 where a3: "after_passes ?E ?a no_options ''go'' (0 + 2) (initial_state, 0) = Some sw3"
    by (simp add: initial_state_def demo_eval2)
  have p3: "planned_action ?E ?a ''go'' sw3 = Some nav_action"
    using a3 by (auto simp: planned_action_def initial_state_def demo_eval2)
  have c: "is_call_tool nav_action"
    by (simp add: demo_eval2)
  have sg: "action_signature ?E nav_action = Some ?sig"
    by (simp add: demo_eval2)
  have b: "of_nat (0 + 2) < effective_maxIterations no_options"
    by (simp add: effective_maxIterations_def no_options_def)
  obtain r st w' where run: "runTaskSession ?E ?a ''go'' no_options 0 = (r, st, w')"
    by (cases "runTaskSession ?E ?a ''go'' no_options 0") auto
  have dom: "makeSession ''s1'' Map.empty ''s1'' \<noteq> None"
    by (simp add: makeSession_def)
  have tools: "map step_tool (trace (fst (initial_state, 0::nat)) @ [s1, s2])
      = [JStr ''browser_navigate'', JStr ''browser_navigate'']"
    if "step_tool s1 = get_prop nav_action ''tool''" "step_tool s2 = get_prop nav_action ''tool''"
    for s1 s2
    using that by (simp add: initial_state_def nav_action_def)
  from loop_guard[OF a1 p1 c sg a2 p2 c sg a3 p3 c sg b run, of "makeSession ''s1'' Map.empty" "''s1''"]
    a1 p1 a2 p2 a3 p3 c sg b run dom tools
  show ?thesis
    by (auto simp: numeral_3_eq_3)
qed

text \<open>
  C1 as stated fails on the status. The same run as a background session of the bridge:
  the planning service returned the same \<open>call_tool\<close> action three times, and the
  session record ends with status \<open>finished\<close> and a result with \<open>success: true\<close>;
  nothing in it says \<open>error\<close>.
\<close>

theorem loop_guard_status_counterexample:
  "fst (background_session (scripted_env [nav_text, nav_text, nav_text] tool_ok) (new_agent ''key'')
         ''s1'' ''go'' None (makeSession ''s1'' Map.empty, 0)) ''s1'' =
   Some \<lparr> sess_id = ''s1'', sess_status = ''finished'',
          sess_trace =
            [\<lparr> step_iteration = 1, step_tool = JStr ''browser_navigate'', step_args = nav_args,
                step_result = JObj [(''success'', JBool True), (''result'', JStr ''ok'')] \<rparr>,
             \<lparr> step_iteration = 2, step_tool = JStr ''browser_navigate'', step_args = nav_args,
                step_result = JObj [(''success'', JBool True), (''result'', JStr ''ok'')] \<rparr>],
          sess_message = Some ''go'',
          sess_lastAction = nav_action,
          sess_lastToolResult = JObj [(''success'', JBool True), (''result'', JStr ''ok'')],
          sess_result = Some
            \<lparr> success = True, message = JStr ''Stopped: repeated action detected (no progress).'',
              result_trace =
                [\<lparr> step_iteration = 1, step_tool = JStr ''browser_navigate'', step_args = nav_args,
                    step_result = JObj [(''success'', JBool True), (''result'', JStr ''ok'')] \<rparr>,
                 \<lparr> step_iteration = 2, step_tool = JStr ''browser_navigate'', step_args = nav_args,
                    step_result = JObj [(''success'', JBool True), (''result'', JStr ''ok'')] \<rparr>] \<rparr>,
          sess_error = None \<rparr>
   \<and> actions_seen (fst (snd (runTaskSession (scripted_env [nav_text, nav_text, nav_text] tool_ok)
         (new_agent ''key'') ''go'' no_options 0))) = [nav_action, nav_action, nav_action]"
  by (simp add: store_eval run_loop.simps demo_eval2)

text \<open>
  A run for C2: a cap of 2 and a planning service that keeps asking for tools, never the
  same one twice in a row.
\<close>

theorem iteration_cap_witness:
  "\<exists>r st w'.
     effective_maxIterations (capped 2) = 2
   \<and> nat \<lceil>effective_maxIterations (capped 2)\<rceil> = 2
   \<and> (\<exists>sw p. after_passes (alternating_env tool_ok) (new_agent ''key'') (capped 2) ''go'' 0
                 (initial_state, 0) = Some sw
             \<and> planned_action (alternating_env tool_ok) (new_agent ''key'') ''go'' sw = Some p
             \<and> is_call_tool p \<and> converts (get_prop p ''tool'')
             \<and> guard_count (alternating_env tool_ok) (fst sw) p < 2)
   \<and> (\<exists>sw p. after_passes (alternating_env tool_ok) (new_agent ''key'') (capped 2) ''go'' 1
                 (initial_state, 0) = Some sw
             \<and> planned_action (alternating_env tool_ok) (new_agent ''key'') ''go'' sw = Some p
             \<and> is_call_tool p \<and> converts (get_prop p ''tool'')
             \<and> guard_count (alternating_env tool_ok) (fst sw) p < 2)
   \<and> runTaskSession (alternating_env tool_ok) (new_agent ''key'') ''go'' (capped 2) 0 = (r, st, w')
   \<and> \<not> success r
   \<and> message r = JStr ''Max iterations (2) reached''
   \<and> length (result_trace r) = 2
   \<and> length (tools_executed st) = 2
   \<and> length (prompts_sent st) = 2
   \<and> maxIterations (capped 2) = Some (of_nat 2)
   \<and> (\<exists>s. settle_session ''s1'' (Inr r) (makeSession ''s1'' Map.empty) ''s1'' = Some s
          \<and> sess_status s = ''finished'' \<and> sess_result s = Some r)"
proof -
  let ?E = "alternating_env tool_ok"
  let ?a = "new_agent ''key''"
  have eff: "effective_maxIterations (capped 2) = 2"
    by (simp add: effective_maxIterations_def capped_def)
  have passes: "nat \<lceil>effective_maxIterations (capped 2)\<rceil> = 2"
    by (simp add: eff)
  have always: "\<forall>i < nat \<lceil>effective_maxIterations (capped 2)\<rceil>. \<exists>sw p.
        after_passes ?E ?a (capped 2) ''go'' i (initial_state, 0) = Some sw
        \<and> planned_action ?E ?a ''go'' sw = Some p \<and> is_call_tool p
        \<and> converts (get_prop p ''tool'') \<and> guard_count ?E (fst sw) p < 2"
    by (rule alternating_always)
  have h0: "\<exists>sw p. after_passes ?E ?a (capped 2) ''go'' 0 (initial_state, 0) = Some sw
        \<and> planned_action ?E ?a ''go'' sw = Some p \<and> is_call_tool p
        \<and> converts (get_prop p ''tool'') \<and> guard_count ?E (fst sw) p < 2"
    by (rule alternating_always[rule_format, where M=2]) simp
  have h1: "\<exists>sw p. after_passes ?E ?a (capped 2) ''go'' 1 (initial_state, 0) = Some sw
        \<and> planned_action ?E ?a ''go'' sw = Some p \<and> is_call_tool p
        \<and> converts (get_prop p ''tool'') \<and> guard_count ?E (fst sw) p < 2"
    by (rule alternating_always[rule_format, where M=2]) simp
  obtain r st w' where run: "runTaskSession ?E ?a ''go'' (capped 2) 0 = (r, st, w')"
    by (cases "runTaskSession ?E ?a ''go'' (capped 2) 0") auto
  have dom: "makeSession ''s1'' Map.empty ''s1'' \<noteq> None"
    by (simp add: makeSession_def)
  have two: "string_of_nat 2 = ''2''"
    by (simp add: string_of_nat.simps digit_char_def)
  have mi: "maxIterations (capped 2) = Some (of_nat 2)"
    by (simp add: capped_def)
  have pos: "0 < (2::nat)"
    by simp
  from iteration_cap[OF always run, where N = 2 and sessions = "makeSession ''s1'' Map.empty"
      and sid = "''s1''"]
    eff passes h0 h1 run dom two mi pos
  show ?thesis
    by auto
qed

text \<open>
  C2 as stated fails in four places.
  \<^item> With a cap of 1 the background session ends with status \<open>finished\<close>, not
    \<open>error\<close>; the failure is in its result.
  \<^item> With a cap of 0 the session does not stop after 0 steps: the default of 10 takes
    over.
  \<^item> With a cap of 2.5 the session runs 3 steps.
  \<^item> With a cap of 1 and a planning service that asks for the tool
    \<open>{"toString": 1}\<close> the session returns a failure after no step at all: the tool
    has no string form, the log line before the execution throws, and the message is
    that of the \<open>TypeError\<close>.
\<close>

theorem iteration_cap_counterexample:
  "fst (background_session (alternating_env tool_ok) (new_agent ''key'')
         ''s1'' ''go'' (Some 1) (makeSession ''s1'' Map.empty, 0)) ''s1'' =
   Some \<lparr> sess_id = ''s1'', sess_status = ''finished'',
          sess_trace =
            [\<lparr> step_iteration = 1, step_tool = JStr ''browser_navigate'', step_args = nav_args,
                step_result = JObj [(''success'', JBool True), (''result'', JStr ''ok'')] \<rparr>],
          sess_message = Some ''go'',
          sess_lastAction = nav_action,
          sess_lastToolResult = JObj [(''success'', JBool True), (''result'', JStr ''ok'')],
          sess_result = Some
            \<lparr> success = False, message = JStr ''Max iterations (1) reached'',
              result_trace =
                [\<lparr> step_iteration = 1, step_tool = JStr ''browser_navigate'', step_args = nav_args,
                    step_result = JObj [(''success'', JBool True), (''result'', JStr ''ok'')] \<rparr>] \<rparr>,
          sess_error = None \<rparr>
   \<and> maxIterations (capped 0) = Some 0
   \<and> length (result_trace (fst (runTaskSession (alternating_env tool_ok) (new_agent ''key'') ''go''
         (capped 0) 0))) = 10
   \<and> message (fst (runTaskSession (alternating_env tool_ok) (new_agent ''key'') ''go'' (capped 0) 0))
       = JStr ''Max iterations (10) reached''
   \<and> list_all is_call_tool (actions_seen (fst (snd
         (runTaskSession (alternating_env tool_ok) (new_agent ''key'') ''go'' (capped 0) 0))))
   \<and> maxIterations (capped (5 / 2)) = Some (5 / 2)
   \<and> length (result_trace (fst (runTaskSession (alternating_env tool_ok) (new_agent ''key'') ''go''
         (capped (5 / 2)) 0))) = 3
   \<and> list_all is_call_tool (actions_seen (fst (snd
         (runTaskSession (alternating_env tool_ok) (new_agent ''key'') ''go'' (capped (5 / 2)) 0))))
   \<and> planned_action odd_env (new_agent ''key'') ''go'' (initial_state, 0) = Some odd_action
   \<and> is_call_tool odd_action
   \<and> guard_count odd_env initial_state odd_action < 2
   \<and> \<not> converts (get_prop odd_action ''tool'')
   \<and> runTaskSession odd_env (new_agent ''key'') ''go'' (capped 1) 0
       = (\<lparr> success = False, message = JStr ''Cannot convert object to primitive value'',
             result_trace = [] \<rparr>,
          initial_state\<lparr>prompts_sent := [starter_prompt ''go''], actions_seen := [odd_action]\<rparr>,
          1)"
proof -
  let ?E = "alternating_env tool_ok"
  let ?a = "new_agent ''key''"
  let ?run = "runTaskSession ?E ?a ''go'' (capped 0) 0"
  let ?run3 = "runTaskSession ?E ?a ''go'' (capped (5 / 2)) 0"
  have one: "string_of_nat (Suc 0) = ''1''"
    by (simp add: string_of_nat.simps digit_char_def)
  have bg: "fst (background_session ?E ?a ''s1'' ''go'' (Some 1) (makeSession ''s1'' Map.empty, 0)) ''s1'' =
   Some \<lparr> sess_id = ''s1'', sess_status = ''finished'',
          sess_trace =
            [\<lparr> step_iteration = 1, step_tool = JStr ''browser_navigate'', step_args = nav_args,
                step_result = JObj [(''success'', JBool True), (''result'', JStr ''ok'')] \<rparr>],
          sess_message = Some ''go'',
          sess_lastAction = nav_action,
          sess_lastToolResult = JObj [(''success'', JBool True), (''result'', JStr ''ok'')],
          sess_result = Some
            \<lparr> success = False, message = JStr ''Max iterations (1) reached'',
              result_trace =
                [\<lparr> step_iteration = 1, step_tool = JStr ''browser_navigate'', step_args = nav_args,
                    step_result = JObj [(''success'', JBool True), (''result'', JStr ''ok'')] \<rparr>] \<rparr>,
          sess_error = None \<rparr>"
    by (simp add: store_eval run_loop.simps session_iteration_def Let_def alternating_fields
        alternating_parse no_catalog_ref no_catalog_request executeTool_def action_signature_def
        merge_ref_def js_or_def nav_action_def nav_args_def demo_String_def demo_stringify_def
        tool_ok_def contextSuffix_def number_text_def one)
  have eff: "effective_maxIterations (capped 0) = 10"
    by (simp add: effective_maxIterations_def capped_def)
  have ten: "number_text ?E 10 = ''10''"
    by (simp add: number_text_def string_of_nat.simps digit_char_def)
  obtain r st w' where run: "?run = (r, st, w')"
    by (cases ?run) auto
  have always: "\<forall>i < nat \<lceil>effective_maxIterations (capped 0)\<rceil>. \<exists>sw p.
        after_passes ?E ?a (capped 0) ''go'' i (initial_state, 0) = Some sw
        \<and> planned_action ?E ?a ''go'' sw = Some p \<and> is_call_tool p
        \<and> converts (get_prop p ''tool'') \<and> guard_count ?E (fst sw) p < 2"
    by (rule alternating_always)
  note cap = cap_reached[OF always run]
  have "result_trace r = trace st"
    by (subst conjunct1[OF cap]) simp
  moreover have "message r = JStr ''Max iterations (10) reached''"
    by (subst conjunct1[OF cap]) (simp add: eff ten)
  ultimately have b: "length (result_trace (fst ?run)) = 10"
    "message (fst ?run) = JStr ''Max iterations (10) reached''"
    "list_all is_call_tool (actions_seen (fst (snd ?run)))"
    using cap eff run by simp_all
  have mi: "maxIterations (capped 0) = Some 0"
    by (simp add: capped_def)
  have eff3: "effective_maxIterations (capped (5 / 2)) = 5 / 2"
    by (simp add: effective_maxIterations_def capped_def)
  have "\<lceil>5 / 2 :: rat\<rceil> = 3"
    by (rule ceiling_unique) simp_all
  then have three: "nat \<lceil>effective_maxIterations (capped (5 / 2))\<rceil> = 3"
    by (simp add: eff3)
  obtain r3 st3 w3 where run3: "?run3 = (r3, st3, w3)"
    by (cases ?run3) auto
  have always3: "\<forall>i < nat \<lceil>effective_maxIterations (capped (5 / 2))\<rceil>. \<exists>sw p.
        after_passes ?E ?a (capped (5 / 2)) ''go'' i (initial_state, 0) = Some sw
        \<and> planned_action ?E ?a ''go'' sw = Some p \<and> is_call_tool p
        \<and> converts (get_prop p ''tool'') \<and> guard_count ?E (fst sw) p < 2"
    by (rule alternating_always)
  note cap3 = cap_reached[OF always3 run3]
  have "result_trace r3 = trace st3"
    by (subst conjunct1[OF cap3]) simp
  then have c: "length (result_trace (fst ?run3)) = 3"
    "list_all is_call_tool (actions_seen (fst (snd ?run3)))"
    using cap3 three run3 by simp_all
  have mi3: "maxIterations (capped (5 / 2)) = Some (5 / 2)"
    by (simp add: capped_def)
  have odd_parse: "parseGeminiResponse odd_env odd_text = odd_action"
    by (simp add: parseGeminiResponse_def match_braces_def odd_text_def odd_env_def odd_action_def)
  have odd_call: "callGeminiAPI odd_env a prompt h 0 = (Inr odd_text, 1)" for a prompt h
    by (simp add: odd_env_def scripted_env_def)
  have o1: "planned_action odd_env ?a ''go'' (initial_state, 0) = Some odd_action"
    by (simp add: planned_action_def odd_call odd_parse)
  have o2: "is_call_tool odd_action"
    by (simp add: is_call_tool_def odd_action_def)
  have o4: "\<not> converts (get_prop odd_action ''tool'')"
    by (simp add: odd_action_def)
  have o3: "guard_count odd_env initial_state odd_action < 2"
    using o4 by (simp add: guard_count_def action_signature_def initial_state_def)
  have o5: "runTaskSession odd_env ?a ''go'' (capped 1) 0
       = (\<lparr> success = False, message = JStr ''Cannot convert object to primitive value'',
             result_trace = [] \<rparr>,
          initial_state\<lparr>prompts_sent := [starter_prompt ''go''], actions_seen := [odd_action]\<rparr>,
          1)"
    by (simp add: runTaskSession_def effective_maxIterations_def capped_def run_loop.simps
        session_iteration_def Let_def initial_state_def contextSuffix_def odd_call odd_parse
        action_signature_def no_catalog_ref error_text_def convert_error_def js_or_def
        odd_action_def)
  from bg mi b mi3 c o1 o2 o3 o4 o5 show ?thesis
    by (simp only: simp_thms)
qed
section \<open>Replies that are not JSON\<close>

lemma match_braces_piece:
  assumes "match_braces text = Some m"
  shows "\<exists>pre post. text = pre @ m @ post"
proof -
  let ?from_open = "dropWhile (\<lambda>c. c \<noteq> CHR ''{'') text"
  let ?tail = "takeWhile (\<lambda>c. c \<noteq> CHR ''}'') (rev ?from_open)"
  from assms have m: "m = rev (dropWhile (\<lambda>c. c \<noteq> CHR ''}'') (rev ?from_open))"
    by (simp add: match_braces_def Let_def split: if_splits)
  have "rev ?from_open = ?tail @ dropWhile (\<lambda>c. c \<noteq> CHR ''}'') (rev ?from_open)"
    by simp
  then have "rev (rev ?from_open) = rev (?tail @ dropWhile (\<lambda>c. c \<noteq> CHR ''}'') (rev ?from_open))"
    by (rule arg_cong)
  then have "?from_open = m @ rev ?tail"
    unfolding m rev_append rev_rev_ident .
  moreover have "text = takeWhile (\<lambda>c. c \<noteq> CHR ''{'') text @ ?from_open"
    by simp
  ultimately have "text = takeWhile (\<lambda>c. c \<noteq> CHR ''{'') text @ m @ rev ?tail"
    by simp
  then show ?thesis by blast
qed

lemma parse_no_json:
  assumes "no_json_object E text"
  shows "parseGeminiResponse E text = respond_with text"
proof (cases "match_braces text")
  case None
  then show ?thesis by (simp add: parseGeminiResponse_def)
next
  case (Some m)
  from match_braces_piece[OF Some] assms have "JSON_parse E m = None"
    by (auto simp: no_json_object_def)
  with Some show ?thesis by (simp add: parseGeminiResponse_def)
qed

lemma respond_pass:
  assumes "callGeminiAPI E a (starter_prompt task @ contextSuffix E (lastToolResult st))
             (last_five (conversationHistory a)) w = (Inr text, w1)"
      and "parseGeminiResponse E text = respond_with text"
  shows "\<exists>st1. session_iteration E a options task st w =
           (Return \<lparr> success = True, message = (if text = [] then JStr ''Done'' else JStr text),
                     result_trace = trace st \<rparr>, st1, w1)
         \<and> trace st1 = trace st \<and> tools_executed st1 = tools_executed st"
  using assms
  by (simp add: session_iteration_def Let_def respond_with_def js_or_def logger_throws_def)

text \<open>
  C6, as the code has it. When no piece of the planning service's reply parses as a
  JSON object, \<open>parseGeminiResponse\<close> returns the \<open>respond\<close> action carrying the
  raw text, and the pass that got this reply returns at once: \<open>success: true\<close>, the
  trace as it was, no tool call made, and as message the text - unless the text is
  empty, when the message is the literal \<open>Done\<close>
  (\<open>parsed.message || geminiResponse || 'Done'\<close>). The bridge's background task
  records the session with status \<open>finished\<close>.
\<close>

theorem malformed_reply:
  assumes "no_json_object E text"
      and "callGeminiAPI E a (starter_prompt task @ contextSuffix E (lastToolResult st))
             (last_five (conversationHistory a)) w = (Inr text, w1)"
  shows "parseGeminiResponse E text = JObj [(''action'', JStr ''respond''), (''message'', JStr text)]
       \<and> (\<exists>st1. session_iteration E a options task st w =
             (Return \<lparr> success = True, message = (if text = [] then JStr ''Done'' else JStr text),
                       result_trace = trace st \<rparr>, st1, w1)
             \<and> trace st1 = trace st \<and> tools_executed st1 = tools_executed st)
       \<and> (of_nat (iteration st) < maxIter \<longrightarrow>
             fst (run_loop E a options task maxIter st w) =
               \<lparr> success = True, message = (if text = [] then JStr ''Done'' else JStr text),
                 result_trace = trace st \<rparr>)
       \<and> (sessions sid \<noteq> None \<longrightarrow>
            (\<exists>s. settle_session sid (Inr (fst (run_loop E a options task maxIter st w))) sessions sid = Some s
               \<and> sess_status s = ''finished''))"
proof -
  have parse: "parseGeminiResponse E text = respond_with text"
    using parse_no_json[OF assms(1)] .
  from respond_pass[OF assms(2) parse, of options] obtain st1 where
    it: "session_iteration E a options task st w =
           (Return \<lparr> success = True, message = (if text = [] then JStr ''Done'' else JStr text),
                     result_trace = trace st \<rparr>, st1, w1)"
    and same: "trace st1 = trace st" "tools_executed st1 = tools_executed st"
    by blast
  have loop: "fst (run_loop E a options task maxIter st w) =
      \<lparr> success = True, message = (if text = [] then JStr ''Done'' else JStr text), result_trace = trace st \<rparr>"
    if "of_nat (iteration st) < maxIter"
    using that it by (simp add: run_loop.simps[of E a options task maxIter st w])
  show ?thesis
  proof (intro conjI impI)
    show "parseGeminiResponse E text = JObj [(''action'', JStr ''respond''), (''message'', JStr text)]"
      using parse by (simp add: respond_with_def)
    show "\<exists>st1. session_iteration E a options task st w =
             (Return \<lparr> success = True, message = (if text = [] then JStr ''Done'' else JStr text),
                       result_trace = trace st \<rparr>, st1, w1)
             \<and> trace st1 = trace st \<and> tools_executed st1 = tools_executed st"
      using it same by blast
    show "fst (run_loop E a options task maxIter st w) =
               \<lparr> success = True, message = (if text = [] then JStr ''Done'' else JStr text),
                 result_trace = trace st \<rparr>" if "of_nat (iteration st) < maxIter"
      using loop[OF that] .
    show "\<exists>s. settle_session sid (Inr (fst (run_loop E a options task maxIter st w))) sessions sid = Some s
               \<and> sess_status s = ''finished''" if "sessions sid \<noteq> None"
      using settle_finished[of sessions sid "fst (run_loop E a options task maxIter st w)"] that by blast
  qed
qed

lemma demo_parse_long:
  assumes "demo_parse s \<noteq> None"
  shows "39 \<le> length s"
proof -
  from assms have "s = nav_text \<or> s = snap_text \<or> s = done_text"
    by (simp add: demo_parse_def split: if_splits)
  then show ?thesis
    by (auto simp: nav_text_def snap_text_def done_text_def)
qed

lemma short_no_json:
  assumes "length text < 39"
  shows "no_json_object (scripted_env rs t) text"
  unfolding no_json_object_def
proof (intro allI impI)
  fix pre s post
  assume "text = pre @ s @ post"
  then have "length s \<le> length text" by simp
  with assms have "\<not> 39 \<le> length s" by simp
  with demo_parse_long[of s] have "demo_parse s = None" by blast
  then show "JSON_parse (scripted_env rs t) s = None"
    by (simp add: scripted_fields)
qed

text \<open>
  A run for C6: the reply has braces but is not JSON, so the match is tried and
  \<open>JSON.parse\<close> throws.
\<close>

theorem malformed_reply_witness:
  "no_json_object (scripted_env [''Sure! {I will navigate}''] tool_ok) ''Sure! {I will navigate}''
   \<and> callGeminiAPI (scripted_env [''Sure! {I will navigate}''] tool_ok) (new_agent ''key'')
        (starter_prompt ''go'' @ contextSuffix (scripted_env [''Sure! {I will navigate}''] tool_ok)
           (lastToolResult initial_state))
        (last_five (conversationHistory (new_agent ''key''))) 0 = (Inr ''Sure! {I will navigate}'', 1)
   \<and> match_braces ''Sure! {I will navigate}'' = Some ''{I will navigate}''
   \<and> parseGeminiResponse (scripted_env [''Sure! {I will navigate}''] tool_ok) ''Sure! {I will navigate}''
        = JObj [(''action'', JStr ''respond''), (''message'', JStr ''Sure! {I will navigate}'')]
   \<and> of_nat (iteration initial_state) < (10::rat)
   \<and> fst (run_loop (scripted_env [''Sure! {I will navigate}''] tool_ok) (new_agent ''key'') no_options
            ''go'' 10 initial_state 0)
        = \<lparr> success = True, message = JStr ''Sure! {I will navigate}'', result_trace = [] \<rparr>
   \<and> makeSession ''s1'' Map.empty ''s1'' \<noteq> None
   \<and> (\<exists>s. settle_session ''s1'' (Inr (fst (run_loop (scripted_env [''Sure! {I will navigate}''] tool_ok)
            (new_agent ''key'') no_options ''go'' 10 initial_state 0))) (makeSession ''s1'' Map.empty) ''s1''
          = Some s \<and> sess_status s = ''finished'')"
proof -
  let ?text = "''Sure! {I will navigate}''"
  let ?E = "scripted_env [?text] tool_ok"
  have nj: "no_json_object ?E ?text"
    by (rule short_no_json) simp
  have reply: "callGeminiAPI ?E (new_agent ''key'')
        (starter_prompt ''go'' @ contextSuffix ?E (lastToolResult initial_state))
        (last_five (conversationHistory (new_agent ''key''))) 0 = (Inr ?text, 1)"
    by (simp add: scripted_fields)
  have m: "match_braces ?text = Some ''{I will navigate}''"
    by (simp add: match_braces_def)
  have it: "of_nat (iteration initial_state) < (10::rat)"
    by (simp add: initial_state_def)
  have dom: "makeSession ''s1'' Map.empty ''s1'' \<noteq> None"
    by (simp add: makeSession_def)
  have tr: "trace initial_state = []"
    by (simp add: initial_state_def)
  from malformed_reply[OF nj reply, where options=no_options and maxIter=10 and sessions="makeSession ''s1'' Map.empty" and sid="''s1''"]
    nj reply m it dom tr
  show ?thesis by auto
qed

text \<open>
  C6 as stated fails for the empty reply: it holds no JSON object, the parser returns
  \<open>respond\<close> with the empty text, and the session's message is \<open>Done\<close>, not that
  text.
\<close>

theorem malformed_reply_empty_counterexample:
  "no_json_object (scripted_env [[]] tool_ok) []
   \<and> parseGeminiResponse (scripted_env [[]] tool_ok) []
        = JObj [(''action'', JStr ''respond''), (''message'', JStr [])]
   \<and> runTaskSession (scripted_env [[]] tool_ok) (new_agent ''key'') ''go'' no_options 0
        = (\<lparr> success = True, message = JStr ''Done'', result_trace = [] \<rparr>,
           initial_state\<lparr>prompts_sent := [starter_prompt ''go''],
                         actions_seen := [JObj [(''action'', JStr ''respond''), (''message'', JStr [])]]\<rparr>,
           1)
   \<and> JStr ''Done'' \<noteq> JStr []"
proof -
  have nj: "no_json_object (scripted_env [[]] tool_ok) []"
    by (rule short_no_json) simp
  have parse: "parseGeminiResponse (scripted_env [[]] tool_ok) []
        = JObj [(''action'', JStr ''respond''), (''message'', JStr [])]"
    by (simp add: parseGeminiResponse_def match_braces_def respond_with_def)
  have run: "runTaskSession (scripted_env [[]] tool_ok) (new_agent ''key'') ''go'' no_options 0
        = (\<lparr> success = True, message = JStr ''Done'', result_trace = [] \<rparr>,
           initial_state\<lparr>prompts_sent := [starter_prompt ''go''],
                         actions_seen := [JObj [(''action'', JStr ''respond''), (''message'', JStr [])]]\<rparr>,
           1)"
    by (simp add: runTaskSession_def effective_maxIterations_def no_options_def run_loop.simps
        initial_state_def session_iteration_def Let_def scripted_fields parse contextSuffix_def js_or_def
        logger_throws_def)
  from nj parse run show ?thesis by simp
qed

section \<open>A tool call that fails\<close>

lemma executeTool_failure:
  "callTool E (tool_call_request E a toolName args) w = (Inl e, w1) \<Longrightarrow>
   executeTool E a toolName args w = (failure_of e, w1)"
  by (simp add: executeTool_def failure_of_def)

lemma failure_fields:
  "get_prop (failure_of e) ''result'' = JUndef"
  "get_prop (failure_of e) ''success'' = JBool False"
  "get_prop (failure_of e) ''error'' = JStr (err_message e)"
  "truthy (failure_of e)"
  by (simp_all add: failure_of_def)

lemma failing_pass:
  assumes reply: "callGeminiAPI E a (starter_prompt task @ contextSuffix E (lastToolResult st))
                    (last_five (conversationHistory a)) w = (Inr text, w1)"
      and action: "parseGeminiResponse E text = p" "is_call_tool p"
                  "converts (get_prop p ''tool'')" "guard_count E st p < 2"
      and resolve: "computeRefIfMissing E a (get_prop p ''tool'')
                      (js_or (get_prop p ''args'') (JObj [])) task w1 = (c, w2)"
      and fails: "callTool E (tool_call_request E a (get_prop p ''tool'')
                      (js_or (merge_ref (get_prop p ''args'') c) (JObj []))) w2 = (Inl e, w3)"
  shows "\<exists>st1 w4. session_iteration E a options task st w = (Continue, st1, w4)
           \<and> trace st1 = trace st @
               [\<lparr> step_iteration = iteration st + 1, step_tool = get_prop p ''tool'',
                  step_args = js_or (merge_ref (get_prop p ''args'') c) (JObj []),
                  step_result = failure_of e \<rparr>]
           \<and> lastToolResult st1 = failure_of e
           \<and> iteration st1 = iteration st + 1"
  using reply action resolve executeTool_failure[OF fails]
  by (auto simp: session_iteration_def Let_def is_call_tool_def guard_count_def failure_fields
      action_signature_def split: if_splits)

lemma run_loop_prompts:
  "\<exists>more. prompts_sent (fst (snd (run_loop E a opts task N st w))) = prompts_sent st @ more"
proof (induction E a opts task N st w rule: run_loop.induct)
  case (1 E a opts task N st w)
  show ?case
  proof (cases "of_nat (iteration st) < N")
    case False
    then show ?thesis
      by (simp add: run_loop.simps[of E a opts task N st w])
  next
    case True
    obtain out st1 w1 where it: "session_iteration E a opts task st w = (out, st1, w1)"
      by (cases "session_iteration E a opts task st w") auto
    note grow = session_iteration_prompt[OF it]
    show ?thesis
    proof (cases out)
      case (Return r0)
      with it True grow show ?thesis
        by (simp add: run_loop.simps[of E a opts task N st w])
    next
      case Continue
      from "1.IH"[OF True it[symmetric] Continue refl] obtain more where
        "prompts_sent (fst (snd (run_loop E a opts task N st1 w1))) = prompts_sent st1 @ more"
        by blast
      with it True Continue grow show ?thesis
        by (simp add: run_loop.simps[of E a opts task N st w])
    qed
  qed
qed

lemma run_loop_next_prompt:
  assumes "of_nat (iteration st) < N"
  shows "\<exists>more. prompts_sent (fst (snd (run_loop E a opts task N st w)))
           = prompts_sent st @ [starter_prompt task @ contextSuffix E (lastToolResult st)] @ more"
proof -
  obtain out st1 w1 where it: "session_iteration E a opts task st w = (out, st1, w1)"
    by (cases "session_iteration E a opts task st w") auto
  note grow = session_iteration_prompt[OF it]
  show ?thesis
  proof (cases out)
    case (Return r0)
    with it assms grow show ?thesis
      by (simp add: run_loop.simps[of E a opts task N st w])
  next
    case Continue
    from run_loop_prompts[of E a opts task N st1 w1] obtain more where
      "prompts_sent (fst (snd (run_loop E a opts task N st1 w1))) = prompts_sent st1 @ more"
      by blast
    with it assms Continue grow show ?thesis
      by (simp add: run_loop.simps[of E a opts task N st w])
  qed
qed

text \<open>
  C7. Take a pass of the session loop in which the planning service asks for a tool
  call, for a tool that has a string form (and the repeat guard does not fire), and let
  the call to the tool backend throw the error \<open>e\<close>. Then \<open>executeTool\<close> does not throw: it returns the failure
  value \<open>{ success: false, error: e.message }\<close>. The pass does not return from the
  session: it appends one step to the trace, carrying that failure value as its result,
  keeps the failure value as the last tool result, and the loop goes on from the new
  state. If the iteration budget allows another pass, the next request sent to the
  planning service is the task prompt followed by
  \<open>Previous tool result:\<close> and the serialised failure value.
\<close>

theorem failed_tool_call_continues:
  assumes "callGeminiAPI E a (starter_prompt task @ contextSuffix E (lastToolResult st))
             (last_five (conversationHistory a)) w = (Inr text, w1)"
      and "parseGeminiResponse E text = p" and "is_call_tool p"
      and "converts (get_prop p ''tool'')" and "guard_count E st p < 2"
      and "computeRefIfMissing E a (get_prop p ''tool'')
             (js_or (get_prop p ''args'') (JObj [])) task w1 = (c, w2)"
      and "callTool E (tool_call_request E a (get_prop p ''tool'')
             (js_or (merge_ref (get_prop p ''args'') c) (JObj []))) w2 = (Inl e, w3)"
  shows "executeTool E a (get_prop p ''tool'') (js_or (merge_ref (get_prop p ''args'') c) (JObj [])) w2
           = (JObj [(''success'', JBool False), (''error'', JStr (err_message e))], w3)
       \<and> (\<exists>st1 w4.
             session_iteration E a options task st w = (Continue, st1, w4)
           \<and> trace st1 = trace st @
               [\<lparr> step_iteration = iteration st + 1, step_tool = get_prop p ''tool'',
                  step_args = js_or (merge_ref (get_prop p ''args'') c) (JObj []),
                  step_result = JObj [(''success'', JBool False), (''error'', JStr (err_message e))] \<rparr>]
           \<and> lastToolResult st1 = JObj [(''success'', JBool False), (''error'', JStr (err_message e))]
           \<and> iteration st1 = iteration st + 1
           \<and> (of_nat (iteration st) < maxIter \<longrightarrow>
                run_loop E a options task maxIter st w = run_loop E a options task maxIter st1 w4)
           \<and> (of_nat (iteration st + 1) < maxIter \<longrightarrow>
                (\<exists>more. prompts_sent (fst (snd (run_loop E a options task maxIter st w)))
                   = prompts_sent st
                     @ [starter_prompt task @ contextSuffix E (lastToolResult st),
                        starter_prompt task @ ''\<newline>\<newline>Previous tool result: ''
                          @ JSON_stringify E
                              (JObj [(''success'', JBool False), (''error'', JStr (err_message e))])]
                     @ more)))"
proof -
  from failing_pass[OF assms, of options] obtain st1 w4 where
    it: "session_iteration E a options task st w = (Continue, st1, w4)"
    and tr: "trace st1 = trace st @
               [\<lparr> step_iteration = iteration st + 1, step_tool = get_prop p ''tool'',
                  step_args = js_or (merge_ref (get_prop p ''args'') c) (JObj []),
                  step_result = failure_of e \<rparr>]"
    and last: "lastToolResult st1 = failure_of e"
    and iter: "iteration st1 = iteration st + 1"
    by blast
  have go: "run_loop E a options task maxIter st w = run_loop E a options task maxIter st1 w4"
    if "of_nat (iteration st) < maxIter"
    using that it by (simp add: run_loop.simps[of E a options task maxIter st w])
  have nxt: "\<exists>more. prompts_sent (fst (snd (run_loop E a options task maxIter st w)))
                   = prompts_sent st
                     @ [starter_prompt task @ contextSuffix E (lastToolResult st),
                        starter_prompt task @ ''\<newline>\<newline>Previous tool result: ''
                          @ JSON_stringify E (failure_of e)]
                     @ more"
    if lt: "of_nat (iteration st + 1) < maxIter"
  proof -
    from lt iter have "of_nat (iteration st1) < maxIter" by simp
    from run_loop_next_prompt[OF this, of E a options task w4] obtain more where
      "prompts_sent (fst (snd (run_loop E a options task maxIter st1 w4)))
         = prompts_sent st1 @ [starter_prompt task @ contextSuffix E (lastToolResult st1)] @ more"
      by blast
    moreover from lt have "of_nat (iteration st) < maxIter" by simp
    note go[OF this]
    moreover note session_iteration_prompt[OF it]
    ultimately show ?thesis
      by (simp add: last contextSuffix_def failure_fields)
  qed
  have ex: "executeTool E a (get_prop p ''tool'') (js_or (merge_ref (get_prop p ''args'') c) (JObj [])) w2
           = (failure_of e, w3)"
    using executeTool_failure[OF assms(7)] .
  show ?thesis
  proof (intro conjI)
    show "executeTool E a (get_prop p ''tool'') (js_or (merge_ref (get_prop p ''args'') c) (JObj [])) w2
           = (JObj [(''success'', JBool False), (''error'', JStr (err_message e))], w3)"
      using ex by (simp add: failure_of_def)
    show "\<exists>st1 w4.
             session_iteration E a options task st w = (Continue, st1, w4)
           \<and> trace st1 = trace st @
               [\<lparr> step_iteration = iteration st + 1, step_tool = get_prop p ''tool'',
                  step_args = js_or (merge_ref (get_prop p ''args'') c) (JObj []),
                  step_result = JObj [(''success'', JBool False), (''error'', JStr (err_message e))] \<rparr>]
           \<and> lastToolResult st1 = JObj [(''success'', JBool False), (''error'', JStr (err_message e))]
           \<and> iteration st1 = iteration st + 1
           \<and> (of_nat (iteration st) < maxIter \<longrightarrow>
                run_loop E a options task maxIter st w = run_loop E a options task maxIter st1 w4)
           \<and> (of_nat (iteration st + 1) < maxIter \<longrightarrow>
                (\<exists>more. prompts_sent (fst (snd (run_loop E a options task maxIter st w)))
                   = prompts_sent st
                     @ [starter_prompt task @ contextSuffix E (lastToolResult st),
                        starter_prompt task @ ''\<newline>\<newline>Previous tool result: ''
                          @ JSON_stringify E
                              (JObj [(''success'', JBool False), (''error'', JStr (err_message e))])]
                     @ more))"
      using it tr last iter go nxt unfolding failure_of_def
      by (intro exI[of _ st1] exI[of _ w4] conjI impI) assumption+
  qed
qed

text \<open>
  A run for C7: the planning service asks for a navigation, the tool backend times out,
  and the second planning call carries the failure; the session ends when the service
  then answers \<open>done\<close>.
\<close>

theorem failed_tool_call_continues_witness:
  \<open>callGeminiAPI (scripted_env [nav_text, done_text] tool_times_out) (new_agent ''key'')
      (starter_prompt ''go'' @ contextSuffix (scripted_env [nav_text, done_text] tool_times_out)
         (lastToolResult initial_state))
      (last_five (conversationHistory (new_agent ''key''))) 0 = (Inr nav_text, 1)
   \<and> parseGeminiResponse (scripted_env [nav_text, done_text] tool_times_out) nav_text = nav_action
   \<and> is_call_tool nav_action
   \<and> converts (get_prop nav_action ''tool'')
   \<and> guard_count (scripted_env [nav_text, done_text] tool_times_out) initial_state nav_action < 2
   \<and> computeRefIfMissing (scripted_env [nav_text, done_text] tool_times_out) (new_agent ''key'')
        (get_prop nav_action ''tool'') (js_or (get_prop nav_action ''args'') (JObj [])) ''go'' 1
       = (JNull, 1)
   \<and> callTool (scripted_env [nav_text, done_text] tool_times_out)
        (tool_call_request (scripted_env [nav_text, done_text] tool_times_out) (new_agent ''key'')
           (get_prop nav_action ''tool'')
           (js_or (merge_ref (get_prop nav_action ''args'') JNull) (JObj []))) 1
       = (Inl (JsError ''TimeoutError'' ''Timeout 30000ms exceeded''), 1)
   \<and> executeTool (scripted_env [nav_text, done_text] tool_times_out) (new_agent ''key'')
        (JStr ''browser_navigate'') nav_args 1 = (timeout_failure, 1)
   \<and> (\<exists>st1 w4.
         session_iteration (scripted_env [nav_text, done_text] tool_times_out) (new_agent ''key'')
           no_options ''go'' initial_state 0 = (Continue, st1, w4)
       \<and> trace st1 = [\<lparr> step_iteration = 1, step_tool = JStr ''browser_navigate'',
                         step_args = nav_args, step_result = timeout_failure \<rparr>]
       \<and> lastToolResult st1 = timeout_failure
       \<and> run_loop (scripted_env [nav_text, done_text] tool_times_out) (new_agent ''key'')
            no_options ''go'' 10 initial_state 0
          = run_loop (scripted_env [nav_text, done_text] tool_times_out) (new_agent ''key'')
              no_options ''go'' 10 st1 w4)
   \<and> (\<exists>more.
         prompts_sent (fst (snd (run_loop (scripted_env [nav_text, done_text] tool_times_out)
           (new_agent ''key'') no_options ''go'' 10 initial_state 0)))
         = [starter_prompt ''go'',
            starter_prompt ''go'' @ ''\<newline>\<newline>Previous tool result: ''
              @ ''{"success":false,"error":"Timeout 30000ms exceeded"}''] @ more)\<close>
proof -
  let ?E = "scripted_env [nav_text, done_text] tool_times_out"
  let ?a = "new_agent ''key''"
  let ?e = "JsError ''TimeoutError'' ''Timeout 30000ms exceeded''"
  have h1: "callGeminiAPI ?E ?a (starter_prompt ''go'' @ contextSuffix ?E (lastToolResult initial_state))
      (last_five (conversationHistory ?a)) 0 = (Inr nav_text, 1)"
    by (simp add: scripted_fields)
  have h2: "parseGeminiResponse ?E nav_text = nav_action"
    by (simp add: parse_nav nav_action_def)
  have h3: "is_call_tool nav_action"
    by (simp add: is_call_tool_def nav_action_def)
  have hc: "converts (get_prop nav_action ''tool'')"
    by (simp add: nav_action_def)
  have h4: "guard_count ?E initial_state nav_action < 2"
    by (simp add: guard_count_def initial_state_def)
  have h5: "computeRefIfMissing ?E ?a (get_prop nav_action ''tool'')
        (js_or (get_prop nav_action ''args'') (JObj [])) ''go'' 1 = (JNull, 1)"
    by (simp add: no_catalog_ref nav_action_def nav_args_def js_or_def)
  have h6: "callTool ?E (tool_call_request ?E ?a (get_prop nav_action ''tool'')
           (js_or (merge_ref (get_prop nav_action ''args'') JNull) (JObj []))) 1 = (Inl ?e, 1)"
    by (simp add: scripted_fields tool_times_out_def)
  have args: "js_or (merge_ref (get_prop nav_action ''args'') JNull) (JObj []) = nav_args"
    by (simp add: merge_ref_def js_or_def nav_action_def nav_args_def)
  have tool: "get_prop nav_action ''tool'' = JStr ''browser_navigate''"
    by (simp add: nav_action_def)
  have fail: "JObj [(''success'', JBool False), (''error'', JStr (err_message ?e))] = timeout_failure"
    by (simp add: timeout_failure_def)
  have str: \<open>JSON_stringify ?E timeout_failure = ''{"success":false,"error":"Timeout 30000ms exceeded"}''\<close>
    by (simp add: scripted_fields demo_stringify_def timeout_failure_def nav_args_def)
  have start: "trace initial_state = []" "iteration initial_state = 0" "prompts_sent initial_state = []"
    "contextSuffix ?E (lastToolResult initial_state) = []"
    by (simp_all add: initial_state_def contextSuffix_def)
  note T = failed_tool_call_continues[OF h1 h2 h3 hc h4 h5 h6, where options = no_options and maxIter = 10,
      unfolded args tool fail start str]
  from T h1 h2 h3 hc h4 h5 h6 show ?thesis
    by (auto simp: args tool)
qed

section \<open>Target resolution\<close>

lemma set_key_same: "map_of ps k = Some v \<Longrightarrow> set_key ps k v = ps"
  by (induction ps) (auto split: if_splits)

lemma truthy_ref_object:
  assumes "truthy (get_prop args ''ref'')"
  shows "truthy args" and "js_or args d = args"
  using assms by (cases args; simp add: js_or_def)+

lemma merge_ref_same:
  assumes "truthy (get_prop args ''ref'')"
  shows "merge_ref args c = args"
proof (cases "truthy c")
  case False
  then show ?thesis by (simp add: merge_ref_def)
next
  case True
  from assms show ?thesis
    by (cases args)
      (auto simp: merge_ref_def js_or_def True set_key_same split: option.splits)
qed

lemma resolution_returns_ref:
  assumes "truthy (get_prop args ''ref'')"
  shows "computeRefIfMissing E a toolName (js_or args (JObj [])) hint w = (get_prop args ''ref'', w)"
  using assms truthy_ref_object[OF assms]
  by (simp add: computeRefIfMissing_def)

text \<open>
  C9. Let the arguments of a \<open>call_tool\<close> action carry a target, that is a \<open>ref\<close>
  that JavaScript counts as true (a non-empty string, say; an empty or null \<open>ref\<close> is
  a missing one). Then
  \<^item> \<open>computeRefIfMissing\<close> returns that very \<open>ref\<close> and leaves the world outside
    the agent as it was, whatever the environment: it calls no tool;
  \<^item> the merge that follows leaves the arguments as they were, whatever value \<open>c\<close>
    the resolution came back with;
  \<^item> so the pass of the session loop that got this action (for a tool that has a
    string form, the repeat guard not firing) hands exactly these arguments to
    \<open>executeTool\<close>, in the world the planning call left, and records them in its
    step.
  Conversely the resolution changes the world (calls a tool) only when there is no such
  \<open>ref\<close>.
\<close>

theorem explicit_ref_kept:
  assumes "truthy (get_prop args ''ref'')"
  shows "computeRefIfMissing E a toolName (js_or args (JObj [])) hint u = (get_prop args ''ref'', u)
       \<and> merge_ref args c = args
       \<and> get_prop (merge_ref args c) ''ref'' = get_prop args ''ref''
       \<and> (callGeminiAPI E a (starter_prompt task @ contextSuffix E (lastToolResult st))
             (last_five (conversationHistory a)) w = (Inr reply, w')
           \<and> parseGeminiResponse E reply = p \<and> is_call_tool p
           \<and> converts (get_prop p ''tool'') \<and> guard_count E st p < 2
           \<and> get_prop p ''args'' = args
           \<longrightarrow> (\<exists>st1 w4.
                  session_iteration E a options task st w = (Continue, st1, w4)
                \<and> trace st1 = trace st @
                     [\<lparr> step_iteration = iteration st + 1, step_tool = get_prop p ''tool'',
                        step_args = args,
                        step_result = fst (executeTool E a (get_prop p ''tool'') args w') \<rparr>]
                \<and> tools_executed st1 = tools_executed st @ [(get_prop p ''tool'', args)]))"
proof (intro conjI impI)
  show "computeRefIfMissing E a toolName (js_or args (JObj [])) hint u = (get_prop args ''ref'', u)"
    using resolution_returns_ref[OF assms] .
  show m: "merge_ref args c = args"
    using merge_ref_same[OF assms] .
  show "get_prop (merge_ref args c) ''ref'' = get_prop args ''ref''"
    by (simp add: m)
next
  assume h: "callGeminiAPI E a (starter_prompt task @ contextSuffix E (lastToolResult st))
             (last_five (conversationHistory a)) w = (Inr reply, w')
           \<and> parseGeminiResponse E reply = p \<and> is_call_tool p
           \<and> converts (get_prop p ''tool'') \<and> guard_count E st p < 2
           \<and> get_prop p ''args'' = args"
  obtain toolResult w3 where ex: "executeTool E a (get_prop p ''tool'') args w' = (toolResult, w3)"
    by (cases "executeTool E a (get_prop p ''tool'') args w'") auto
  have "session_iteration E a options task st w =
          (Continue,
           st\<lparr>prompts_sent := prompts_sent st @ [starter_prompt task @ contextSuffix E (lastToolResult st)],
              actions_seen := actions_seen st @ [p],
              previousActionSignature := action_signature E p,
              repeatCount := guard_count E st p,
              trace := trace st @
                     [\<lparr> step_iteration = iteration st + 1, step_tool = get_prop p ''tool'',
                        step_args = args, step_result = toolResult \<rparr>],
              lastToolResult := (if truthy (get_prop toolResult ''result'')
                                 then get_prop toolResult ''result'' else toolResult),
              iteration := iteration st + 1,
              tools_executed := tools_executed st @ [(get_prop p ''tool'', args)]\<rparr>,
           case onUpdate options of
             Some callback \<Rightarrow>
               callback \<lparr> upd_status = ''running'', upd_iteration = iteration st + 1,
                          upd_action = (if truthy (get_prop args ''ref'')
                                        then (case p of JObj ps \<Rightarrow> JObj (set_key ps ''args'' args) | v \<Rightarrow> v)
                                        else p),
                          upd_toolResult = toolResult,
                          upd_trace = trace st @
                            [\<lparr> step_iteration = iteration st + 1, step_tool = get_prop p ''tool'',
                               step_args = args, step_result = toolResult \<rparr>] \<rparr> w3
           | None \<Rightarrow> w3)"
    using h ex assms resolution_returns_ref[OF assms, of E a "get_prop p ''tool''" task w']
      merge_ref_same[OF assms] truthy_ref_object[OF assms]
    by (auto simp: session_iteration_def Let_def is_call_tool_def guard_count_def action_signature_def
        cong: option.case_cong)
  then show "\<exists>st1 w4.
                  session_iteration E a options task st w = (Continue, st1, w4)
                \<and> trace st1 = trace st @
                     [\<lparr> step_iteration = iteration st + 1, step_tool = get_prop p ''tool'',
                        step_args = args,
                        step_result = fst (executeTool E a (get_prop p ''tool'') args w') \<rparr>]
                \<and> tools_executed st1 = tools_executed st @ [(get_prop p ''tool'', args)]"
    using ex by simp
qed

lemma click_fields:
  "JSON_parse click_env click_text
     = Some [(''action'', JStr ''call_tool''), (''tool'', JStr ''browser_hover''), (''args'', click_args)]"
  "callGeminiAPI click_env a prompt h 0 = (Inr click_text, 1)"
  "callTool click_env request n = (Inr (JStr ''#other''), n)"
  by (simp_all add: click_env_def scripted_env_def tool_finds_other_def)

lemma parse_click: "parseGeminiResponse click_env click_text = click_action"
  by (simp add: parseGeminiResponse_def match_braces_def click_text_def click_fields[unfolded click_text_def]
      click_action_def)

text \<open>
  A run for C9. The catalog has a tool that runs scripts and the backend would answer
  \<open>#other\<close>; the planned hover names \<open>#search\<close>. The resolution returns
  \<open>#search\<close> without a call, and the hover is executed with \<open>#search\<close>. Without
  the \<open>ref\<close> the resolution does call the tool and \<open>#other\<close> is filled in.
\<close>

theorem explicit_ref_kept_witness:
  "truthy (get_prop click_args ''ref'')
   \<and> computeRefIfMissing click_env agent_with_catalog (JStr ''browser_hover'')
        (js_or click_args (JObj [])) ''hover the search box'' 1 = (JStr ''#search'', 1)
   \<and> merge_ref click_args (JStr ''#other'') = click_args
   \<and> callGeminiAPI click_env agent_with_catalog
        (starter_prompt ''hover the search box'' @ contextSuffix click_env (lastToolResult initial_state))
        (last_five (conversationHistory agent_with_catalog)) 0 = (Inr click_text, 1)
   \<and> parseGeminiResponse click_env click_text = click_action
   \<and> is_call_tool click_action
   \<and> converts (get_prop click_action ''tool'')
   \<and> guard_count click_env initial_state click_action < 2
   \<and> get_prop click_action ''args'' = click_args
   \<and> (\<exists>st1 w4.
         session_iteration click_env agent_with_catalog no_options ''hover the search box'' initial_state 0
           = (Continue, st1, w4)
       \<and> trace st1 =
           [\<lparr> step_iteration = 1, step_tool = JStr ''browser_hover'', step_args = click_args,
              step_result = JObj [(''success'', JBool True), (''result'', JStr ''#other'')] \<rparr>]
       \<and> tools_executed st1 = [(JStr ''browser_hover'', click_args)])
   \<and> computeRefIfMissing click_env agent_with_catalog (JStr ''browser_hover'')
        (JObj [(''element'', JStr ''Search box'')]) ''hover the search box'' 1 = (JStr ''#other'', 1)
   \<and> merge_ref (JObj [(''element'', JStr ''Search box'')]) (JStr ''#other'')
        = JObj [(''element'', JStr ''Search box''), (''ref'', JStr ''#other'')]"
proof -
  have h0: "truthy (get_prop click_args ''ref'')"
    by (simp add: click_args_def)
  have h1: "callGeminiAPI click_env agent_with_catalog
        (starter_prompt ''hover the search box'' @ contextSuffix click_env (lastToolResult initial_state))
        (last_five (conversationHistory agent_with_catalog)) 0 = (Inr click_text, 1)"
    by (simp add: click_fields)
  have h3: "is_call_tool click_action"
    by (simp add: is_call_tool_def click_action_def)
  have hc: "converts (get_prop click_action ''tool'')"
    by (simp add: click_action_def)
  have h4: "guard_count click_env initial_state click_action < 2"
    by (simp add: guard_count_def initial_state_def)
  have h5: "get_prop click_action ''args'' = click_args"
    by (simp add: click_action_def)
  have tool: "get_prop click_action ''tool'' = JStr ''browser_hover''"
    by (simp add: click_action_def)
  have ref: "get_prop click_args ''ref'' = JStr ''#search''"
    by (simp add: click_args_def)
  have ex: "executeTool click_env agent_with_catalog (JStr ''browser_hover'') click_args (Suc 0)
              = (JObj [(''success'', JBool True), (''result'', JStr ''#other'')], Suc 0)"
    by (simp add: executeTool_def click_fields)
  have start: "trace initial_state = []" "iteration initial_state = 0" "tools_executed initial_state = []"
    by (simp_all add: initial_state_def)
  have other: "computeRefIfMissing click_env agent_with_catalog (JStr ''browser_hover'')
        (JObj [(''element'', JStr ''Search box'')]) ''hover the search box'' 1 = (JStr ''#other'', 1)"
    by (simp add: computeRefIfMissing_def agent_with_catalog_def new_agent_def evaluate_like_def
        matches_any_def toLowerCase_def lower_char_def click_fields extract_ref_def script_key_def)
  have merged: "merge_ref (JObj [(''element'', JStr ''Search box'')]) (JStr ''#other'')
        = JObj [(''element'', JStr ''Search box''), (''ref'', JStr ''#other'')]"
    by (simp add: merge_ref_def js_or_def)
  note T = explicit_ref_kept[OF h0, where E = click_env and a = agent_with_catalog
      and toolName = "JStr ''browser_hover''" and hint = "''hover the search box''" and u = 1 and w = 0
      and c = "JStr ''#other''" and task = "''hover the search box''" and st = initial_state
      and reply = click_text and w' = 1 and p = click_action and options = no_options]
  from T h0 h1 parse_click h3 hc h4 h5 other merged show ?thesis
    by (auto simp: tool ref ex start)
qed

section \<open>The dispatcher and the live-browser handle\<close>

lemma try_cdp_falls_through:
  assumes "playwrightCDP B = Some h" and "isConnectedToBrowser h"
      and "is_browser_tool (js_String X) toolName = Inr True"
      and "converts toolName"
      and "cdp_dispatch (pw X) toolName args h (live B) = (Inl cdpError, h1, b1)"
  shows "try_cdp X toolName args B = (None, B\<lparr>playwrightCDP := Some h1, live := b1\<rparr>)"
  using assms by (simp add: try_cdp_def)

lemma args_or_empty: "js_or (js_or v (JObj [])) (JObj []) = js_or v (JObj [])"
  by (simp add: js_or_def)

text \<open>
  C4. Let the live-browser handler be connected, the tool name be one of the browser
  tools and have a string form (every string has: the dispatcher writes the name into
  its log line before it calls the handler, and no handler operation runs for a name
  that cannot be written), and the handler's operation throw \<open>cdpError\<close>. Then the first half of the
  dispatcher ends without a result and without an exception (the \<open>catch\<close> only logs),
  and the call goes on to the subprocess half in the same invocation:
  \<^item> the wrapper's \<open>callTool\<close> sends the very same request to the subprocess client
    and returns what that call returns - its result when it succeeds; the only other
    outcomes are the subprocess call's own error and, with no client at all, the
    dispatcher's \<open>MCP client not connected\<close>. The handler's error is never passed on;
  \<open>B\<close> keeps what the failed attempt did to the handler and to the browser side;
  \<^item> the route \<open>POST /mcp/tools/:toolName\<close>, when the subprocess client is connected,
    sends the same name and arguments to it and answers 200 with its result when it
    succeeds.
\<close>

theorem fallback_on_failure:
  assumes "playwrightCDP B = Some h" and "isConnectedToBrowser h"
      and "is_browser_tool (js_String X) (req_name request) = Inr True"
      and "converts (req_name request)"
      and "cdp_dispatch (pw X) (req_name request) (js_or (req_arguments request) (JObj [])) h (live B)
             = (Inl cdpError, h1, b1)"
  shows "try_cdp X (req_name request) (js_or (req_arguments request) (JObj [])) B
           = (None, B\<lparr>playwrightCDP := Some h1, live := b1\<rparr>)
       \<and> wrapper_callTool X request B
           = (if mcpClient B
              then (fst (mcp_callTool X request (peer B)),
                    B\<lparr>playwrightCDP := Some h1, live := b1,
                      peer := snd (mcp_callTool X request (peer B))\<rparr>)
              else (Inl (JsError ''Error'' ''MCP client not connected''),
                    B\<lparr>playwrightCDP := Some h1, live := b1\<rparr>))
       \<and> (mcpClient B \<and> mcp_callTool X request (peer B) = (Inr resp, m1)
            \<longrightarrow> wrapper_callTool X request B
                  = (Inr resp, B\<lparr>playwrightCDP := Some h1, live := b1, peer := m1\<rparr>))
       \<and> (mcpClient B \<and> mcpConnected B
            \<and> req_name request = JStr toolName \<and> req_arguments request = js_or body_args (JObj [])
            \<and> mcp_callTool X request (peer B) = (Inr resp, m1)
            \<longrightarrow> route_call_tool X toolName body_args B
                  = (respond_ok resp, B\<lparr>playwrightCDP := Some h1, live := b1, peer := m1\<rparr>))"
proof -
  note through = try_cdp_falls_through[OF assms]
  have wrap: "wrapper_callTool X request B
           = (if mcpClient B
              then (fst (mcp_callTool X request (peer B)),
                    B\<lparr>playwrightCDP := Some h1, live := b1,
                      peer := snd (mcp_callTool X request (peer B))\<rparr>)
              else (Inl (JsError ''Error'' ''MCP client not connected''),
                    B\<lparr>playwrightCDP := Some h1, live := b1\<rparr>))"
    by (simp add: wrapper_callTool_def through split: prod.splits)
  have route: "route_call_tool X toolName body_args B
                  = (respond_ok resp, B\<lparr>playwrightCDP := Some h1, live := b1, peer := m1\<rparr>)"
    if h: "mcpClient B \<and> mcpConnected B
            \<and> req_name request = JStr toolName \<and> req_arguments request = js_or body_args (JObj [])
            \<and> mcp_callTool X request (peer B) = (Inr resp, m1)"
  proof -
    from h have rq: "request = \<lparr> req_name = JStr toolName, req_arguments = js_or body_args (JObj []) \<rparr>"
      by (cases request) simp
    from through h have "try_cdp X (JStr toolName) (js_or body_args (JObj [])) B
           = (None, B\<lparr>playwrightCDP := Some h1, live := b1\<rparr>)"
      by (simp add: args_or_empty)
    with h show ?thesis
      by (simp add: route_call_tool_def Let_def rq[symmetric])
  qed
  show ?thesis
    using through wrap route by simp
qed

lemma demo_fields:
  "pw demo_externals = offline_pw"
  "js_String demo_externals = demo_String"
  "mcp_callTool demo_externals request m = (Inr navigated, Suc m)"
  "playwrightCDP demo_backends = Some attached"
  "live demo_backends = 0"
  "peer demo_backends = 0"
  "mcpClient demo_backends"
  "mcpConnected demo_backends"
  "req_name nav_request = JStr ''browser_navigate''"
  "req_arguments nav_request = nav_args"
  by (simp_all add: demo_externals_def demo_backends_def nav_request_def)

lemma nav_is_browser_tool:
  "is_browser_tool demo_String (JStr ''browser_navigate'') = Inr True"
  by (simp add: is_browser_tool_def browserTools_def)

lemma nav_fails_offline:
  "cdp_dispatch offline_pw (JStr ''browser_navigate'') nav_args attached 0
     = (Inl closed_error, attached, 1)"
  by (simp add: cdp_dispatch_def name_has_def navigate_def getPage_def attached_def pages_get_def
      page_key_def offline_pw_def nav_args_def js_or_def)

text \<open>
  A run for C4: the navigation fails in the attached browser and is answered by the
  subprocess tool-server, through the wrapper and through the route.
\<close>

theorem fallback_on_failure_witness:
  "playwrightCDP demo_backends = Some attached
   \<and> isConnectedToBrowser attached
   \<and> is_browser_tool (js_String demo_externals) (req_name nav_request) = Inr True
   \<and> converts (req_name nav_request)
   \<and> cdp_dispatch (pw demo_externals) (req_name nav_request)
        (js_or (req_arguments nav_request) (JObj [])) attached (live demo_backends)
       = (Inl closed_error, attached, 1)
   \<and> mcpClient demo_backends \<and> mcpConnected demo_backends
   \<and> mcp_callTool demo_externals nav_request (peer demo_backends) = (Inr navigated, 1)
   \<and> wrapper_callTool demo_externals nav_request demo_backends
       = (Inr navigated, demo_backends\<lparr>playwrightCDP := Some attached, live := 1, peer := 1\<rparr>)
   \<and> route_call_tool demo_externals ''browser_navigate'' nav_args demo_backends
       = (respond_ok navigated, demo_backends\<lparr>playwrightCDP := Some attached, live := 1, peer := 1\<rparr>)"
proof -
  have h1: "playwrightCDP demo_backends = Some attached"
    by (simp add: demo_fields)
  have h2: "isConnectedToBrowser attached"
    by (simp add: isConnectedToBrowser_def attached_def)
  have h3: "is_browser_tool (js_String demo_externals) (req_name nav_request) = Inr True"
    by (simp add: demo_fields nav_is_browser_tool)
  have hc: "converts (req_name nav_request)"
    by (simp add: demo_fields)
  have args: "js_or nav_args (JObj []) = nav_args"
    by (simp add: js_or_def nav_args_def)
  have h4: "cdp_dispatch (pw demo_externals) (req_name nav_request)
        (js_or (req_arguments nav_request) (JObj [])) attached (live demo_backends)
       = (Inl closed_error, attached, 1)"
    by (simp add: demo_fields args nav_fails_offline)
  have h5: "mcp_callTool demo_externals nav_request (peer demo_backends) = (Inr navigated, 1)"
    by (simp add: demo_fields)
  have h6: "mcpClient demo_backends \<and> mcpConnected demo_backends
            \<and> req_name nav_request = JStr ''browser_navigate''
            \<and> req_arguments nav_request = js_or nav_args (JObj [])"
    by (simp add: demo_fields args)
  note T = fallback_on_failure[OF h1 h2 h3 hc h4, where resp = navigated and ?m1.0 = 1
      and toolName = "''browser_navigate''" and body_args = nav_args]
  from T h1 h2 h3 hc h4 h5 h6 show ?thesis
    by simp
qed

section \<open>Disconnecting\<close>

text \<open>
  C5. \<open>disconnect()\<close> on the live-browser handle empties the page map, clears the
  context and the browser reference and marks the handle disconnected (the endpoint it
  was made for stays). It makes no Playwright call at all, \<open>browser.close()\<close> least of
  all: whatever the state \<open>b\<close> of the browser side was, it is the same after the
  call. The route \<open>POST /mcp/disconnect\<close>, which calls it and then closes the
  subprocess client, leaves the browser side as it was too, so a detection probe sees
  after it exactly what it saw before.
\<close>

theorem disconnect_keeps_browser:
  "disconnect h b =
     (h\<lparr>pages := [], browserContext := None, browser := None, isConnected := False\<rparr>, b)
   \<and> pages (fst (disconnect h b)) = []
   \<and> browserContext (fst (disconnect h b)) = None
   \<and> browser (fst (disconnect h b)) = None
   \<and> \<not> isConnected (fst (disconnect h b))
   \<and> \<not> isConnectedToBrowser (fst (disconnect h b))
   \<and> cdpEndpoint (fst (disconnect h b)) = cdpEndpoint h
   \<and> snd (disconnect h b) = b
   \<and> playwrightCDP (snd (route_disconnect X B)) = None
   \<and> live (snd (route_disconnect X B)) = live B
   \<and> findChromeCDPEndpoint (probe X (live (snd (route_disconnect X B))))
       = findChromeCDPEndpoint (probe X (live B))"
proof -
  have frame: "live (snd (route_disconnect X B)) = live B"
    by (simp add: route_disconnect_def Let_def disconnect_def split: option.splits prod.splits sum.splits)
  have gone: "playwrightCDP (snd (route_disconnect X B)) = None"
    by (simp add: route_disconnect_def Let_def split: option.splits prod.splits sum.splits)
  show ?thesis
    by (simp add: disconnect_def isConnectedToBrowser_def frame gone)
qed

section \<open>The agent's model\<close>

lemma setModel_other: "modelName \<noteq> JStr ''gemini-2.5-flash'' \<Longrightarrow> setModel modelName a = a"
  by (cases modelName) (simp_all add: setModel_def)

lemma setModel_model:
  "model a = ''gemini-2.5-flash'' \<Longrightarrow> model (setModel modelName a) = ''gemini-2.5-flash''"
  by (cases modelName) (simp_all add: setModel_def)

lemma initialize_model: "model (fst (snd (initialize E a w))) = model a"
  by (simp add: initialize_def split: prod.splits sum.splits)

lemma processMessage_model: "model (fst (snd (processMessage E a userMessage c w))) = model a"
  by (simp add: processMessage_def Let_def split: prod.splits sum.splits)

lemma perform_model:
  "model (fst s) = ''gemini-2.5-flash'' \<Longrightarrow> model (fst (perform E s c)) = ''gemini-2.5-flash''"
proof (cases s)
  case (Pair a w)
  assume "model (fst s) = ''gemini-2.5-flash''"
  with Pair have m: "model a = ''gemini-2.5-flash''" by simp
  show ?thesis
  proof (cases c)
    case (Call_setModel modelName)
    with Pair m show ?thesis by (simp add: setModel_model)
  next
    case (Call_updateApiKey k)
    with Pair m show ?thesis by (simp add: updateApiKey_def)
  next
    case Call_clearHistory
    with Pair m show ?thesis by (simp add: clearHistory_def)
  next
    case Call_initialize
    with Pair m initialize_model[of E a w] show ?thesis by simp
  next
    case (Call_processMessage userMessage c')
    with Pair m processMessage_model[of E a userMessage c' w] show ?thesis by simp
  qed (use Pair m in simp_all)
qed

lemma calls_model:
  "model (fst s) = ''gemini-2.5-flash'' \<Longrightarrow>
   model (fst (foldl (perform E) s calls)) = ''gemini-2.5-flash''"
  by (induction calls arbitrary: s) (simp_all add: perform_model)

text \<open>
  C10. A freshly constructed agent has the model \<open>gemini-2.5-flash\<close>, and so has the
  agent after any sequence of calls of its methods, whatever the arguments and whatever
  the planning service and the tools answer: each call, made on an agent with that
  model, leaves an agent with that model. \<open>setModel\<close> with any other value is ignored,
  the agent is exactly as before; with the allowed name it stores that name. So every
  request to the planning service is made by an agent whose model is
  \<open>gemini-2.5-flash\<close>.
\<close>

theorem model_invariant:
  "model (new_agent key) = ''gemini-2.5-flash''
   \<and> model (fst (after_calls E key w calls)) = ''gemini-2.5-flash''
   \<and> (model a = ''gemini-2.5-flash'' \<longrightarrow> model (fst (perform E (a, w) c)) = ''gemini-2.5-flash'')
   \<and> (modelName \<noteq> JStr ''gemini-2.5-flash'' \<longrightarrow> setModel modelName a = a)
   \<and> setModel (JStr ''gemini-2.5-flash'') a = a\<lparr>model := ''gemini-2.5-flash''\<rparr>"
proof -
  have fresh: "model (new_agent key) = ''gemini-2.5-flash''"
    by (simp add: new_agent_def)
  then have "model (fst (new_agent key, w)) = ''gemini-2.5-flash''"
    by simp
  from calls_model[OF this] have seq: "model (fst (after_calls E key w calls)) = ''gemini-2.5-flash''"
    by (simp add: after_calls_def)
  have one: "model (fst (perform E (a, w) c)) = ''gemini-2.5-flash''" if "model a = ''gemini-2.5-flash''"
    using perform_model[of "(a, w)" E c] that by simp
  have allowed: "setModel (JStr ''gemini-2.5-flash'') a = a\<lparr>model := ''gemini-2.5-flash''\<rparr>"
    by (simp add: setModel_def)
  from fresh seq one setModel_other[of modelName a] allowed show ?thesis
    by blast
qed

text \<open>
  A run for C10: an attempt to switch to another model, a new key, a chat message that
  the planning service answers, the allowed model name, and a cleared history.
\<close>

theorem model_invariant_witness:
  "model (new_agent ''key'') = ''gemini-2.5-flash''
   \<and> JStr ''gemini-1.5-pro'' \<noteq> JStr ''gemini-2.5-flash''
   \<and> setModel (JStr ''gemini-1.5-pro'') (new_agent ''key'') = new_agent ''key''
   \<and> model (fst (perform (scripted_env [done_text] tool_ok) (new_agent ''key'', 0)
                    (Call_setModel (JStr ''gemini-1.5-pro'')))) = ''gemini-2.5-flash''
   \<and> model (fst (after_calls (scripted_env [done_text] tool_ok) ''key'' 0
        [Call_setModel (JStr ''gemini-1.5-pro''), Call_updateApiKey ''other'',
         Call_processMessage ''hello'' JUndef, Call_setModel (JStr ''gemini-2.5-flash''),
         Call_clearHistory])) = ''gemini-2.5-flash''
   \<and> after_calls (scripted_env [done_text] tool_ok) ''key'' 0
        [Call_setModel (JStr ''gemini-1.5-pro''), Call_updateApiKey ''other'',
         Call_processMessage ''hello'' JUndef]
       = ((new_agent ''other'')\<lparr>conversationHistory :=
            [\<lparr> role = ''user'', content = JStr ''hello'' \<rparr>,
             \<lparr> role = ''assistant'', content = JStr ''Navigated'' \<rparr>]\<rparr>, 1)"
proof -
  have ne: "JStr ''gemini-1.5-pro'' \<noteq> JStr ''gemini-2.5-flash''"
    by simp
  have m: "model (new_agent ''key'') = ''gemini-2.5-flash''"
    by (simp add: new_agent_def)
  have run: "after_calls (scripted_env [done_text] tool_ok) ''key'' 0
        [Call_setModel (JStr ''gemini-1.5-pro''), Call_updateApiKey ''other'',
         Call_processMessage ''hello'' JUndef]
       = ((new_agent ''other'')\<lparr>conversationHistory :=
            [\<lparr> role = ''user'', content = JStr ''hello'' \<rparr>,
             \<lparr> role = ''assistant'', content = JStr ''Navigated'' \<rparr>]\<rparr>, 1)"
    by (simp add: after_calls_def setModel_def updateApiKey_def processMessage_def process_reply_def
        Let_def scripted_fields parse_done last_ten_def last_five_def js_or_def new_agent_def)
  note T = model_invariant[where key = "''key''" and E = "scripted_env [done_text] tool_ok" and w = 0
      and a = "new_agent ''key''" and c = "Call_setModel (JStr ''gemini-1.5-pro'')"
      and modelName = "JStr ''gemini-1.5-pro''"
      and calls = "[Call_setModel (JStr ''gemini-1.5-pro''), Call_updateApiKey ''other'',
         Call_processMessage ''hello'' JUndef, Call_setModel (JStr ''gemini-2.5-flash''),
         Call_clearHistory]"]
  from T ne m run show ?thesis
    by simp
qed


end
